theory Spec2Isabelle
  imports Main
begin

section \<open>Python strings\<close>

text \<open>
  A Python \<^verbatim>\<open>str\<close> is modelled as a \<^typ>\<open>string\<close>, one \<^typ>\<open>char\<close> per code point (the
  identifiers and markers the service handles are ASCII). \<^verbatim>\<open>len(s)\<close> is \<^term>\<open>length s\<close>,
  \<^verbatim>\<open>s[:n]\<close> is \<^term>\<open>take n s\<close>, and a string is truthy when it is not empty.
\<close>

definition py_startswith :: "string \<Rightarrow> string \<Rightarrow> bool" where
  \<comment> \<open>\<^verbatim>\<open>s.startswith(p)\<close>\<close>
  "py_startswith s p = (take (length p) s = p)"

fun py_find :: "string \<Rightarrow> string \<Rightarrow> nat option" where
  \<comment> \<open>index of the first occurrence of \<open>sub\<close> in the string, as \<^verbatim>\<open>s.find(sub)\<close>\<close>
  "py_find sub [] = (if sub = [] then Some 0 else None)"
| "py_find sub (c # cs) =
     (if py_startswith (c # cs) sub then Some 0 else map_option Suc (py_find sub cs))"

definition py_in :: "string \<Rightarrow> string \<Rightarrow> bool" where
  \<comment> \<open>\<^verbatim>\<open>sub in s\<close>\<close>
  "py_in sub s = (py_find sub s \<noteq> None)"

function py_split :: "string \<Rightarrow> string \<Rightarrow> string list" where
  \<comment> \<open>\<^verbatim>\<open>s.split(sep)\<close>: cut at every occurrence of \<open>sep\<close>, scanning from the left.
      Python raises ValueError for an empty separator; the source passes literals only.\<close>
  "py_split sep s =
     (if sep = [] then [s]
      else case py_find sep s of
             None \<Rightarrow> [s]
           | Some i \<Rightarrow> take i s # py_split sep (drop (i + length sep) s))"
  by pat_completeness auto

lemma py_find_le: "py_find sub s = Some i \<Longrightarrow> i + length sub \<le> length s"
proof (induction s arbitrary: i)
  case Nil
  then show ?case by (simp split: if_splits)
next
  case (Cons c cs)
  show ?case
  proof (cases "py_startswith (c # cs) sub")
    case True
    then have "length (take (length sub) (c # cs)) = length sub"
      unfolding py_startswith_def by simp
    then have "length sub \<le> length (c # cs)"
      by (simp add: min_def split: if_splits)
    with True Cons.prems show ?thesis by simp
  next
    case False
    with Cons.prems obtain j where "py_find sub cs = Some j" and "i = Suc j"
      by auto
    with Cons.IH show ?thesis by simp
  qed
qed

termination py_split
proof (relation "measure (\<lambda>(sep, s). length s)")
  show "wf (measure (\<lambda>(sep, s). length s))" by simp
next
  fix sep s :: string and i :: nat
  assume nonempty: "sep \<noteq> []" and found: "py_find sep s = Some i"
  have bound: "i + length sep \<le> length s"
    using found by (rule py_find_le)
  obtain k where "length sep = Suc k"
    using nonempty by (cases sep) simp_all
  with bound have "length s - (i + length sep) < length s"
    by arith
  then show "((sep, drop (i + length sep) s), (sep, s)) \<in> measure (\<lambda>(sep, s). length s)"
    by simp
qed

declare py_split.simps [simp del]

fun py_join :: "string \<Rightarrow> string list \<Rightarrow> string" where
  \<comment> \<open>\<^verbatim>\<open>sep.join(xs)\<close>\<close>
  "py_join sep [] = []"
| "py_join sep [x] = x"
| "py_join sep (x # y # ys) = x @ sep @ py_join sep (y # ys)"

section \<open>The inbound event\<close>

text \<open>
  The chat object is a nested dictionary parsed from the webhook body. A dictionary is an
  association list looked up with \<^const>\<open>map_of\<close>; a block that is absent or \<^verbatim>\<open>null\<close> is
  \<^const>\<open>None\<close>. The fields the pipeline reads hold what the sender documents for them:
  strings for the agent label, the lifecycle status, the dynamic variables and the metadata
  identifier, and scalars of any kind in the custom analysis data.
\<close>

datatype pyval = PNone | PBool bool | PInt int | PStr string

fun truthy :: "pyval \<Rightarrow> bool" where
  "truthy PNone = False"
| "truthy (PBool b) = b"
| "truthy (PInt n) = (n \<noteq> 0)"
| "truthy (PStr s) = (s \<noteq> [])"

type_synonym 'v dict = "(string \<times> 'v) list"

definition dict_get :: "'v dict \<Rightarrow> string \<Rightarrow> 'v \<Rightarrow> 'v" where
  \<comment> \<open>\<^verbatim>\<open>d.get(k, default)\<close>\<close>
  "dict_get d k dflt = (case map_of d k of None \<Rightarrow> dflt | Some v \<Rightarrow> v)"

definition or_empty :: "'v dict option \<Rightarrow> 'v dict" where
  \<comment> \<open>\<^verbatim>\<open>chat.get(k) or {}\<close>\<close>
  "or_empty d = (case d of None \<Rightarrow> [] | Some m \<Rightarrow> m)"

record chat_analysis =
  custom_analysis_data :: "pyval dict option"
  chat_summary :: "string option"

record chat =
  chat_id :: "string option"
  agent_name :: "string option"
  chat_status :: "string option"
  chat_analysis :: "chat_analysis option"
  retell_llm_dynamic_variables :: "string dict option"
  metadata :: "string dict option"

definition get_str :: "string option \<Rightarrow> string \<Rightarrow> string" where
  \<comment> \<open>\<^verbatim>\<open>chat.get(k, default)\<close> on a string field\<close>
  "get_str v dflt = (case v of None \<Rightarrow> dflt | Some s \<Rightarrow> s)"

definition get_custom :: "chat \<Rightarrow> pyval dict" where
  \<comment> \<open>\<^verbatim>\<open>ca = chat.get('chat_analysis') or {}; custom = ca.get('custom_analysis_data') or {}\<close>\<close>
  "get_custom c =
     (case chat_analysis c of None \<Rightarrow> [] | Some ca \<Rightarrow> or_empty (custom_analysis_data ca))"

section \<open>Classification (violet_core.classify_chat)\<close>

definition STAGE_QUALIFIED :: string where "STAGE_QUALIFIED = ''New Application''"
definition STAGE_INTERESTED :: string where "STAGE_INTERESTED = ''Candidate Interested''"

definition SYNC_QUAL_RESULTS :: "pyval list" where
  "SYNC_QUAL_RESULTS = [PStr ''fully_qualified'', PStr ''partially_qualified'']"

definition SYNC_INTEREST_LEVELS :: "pyval list" where
  "SYNC_INTEREST_LEVELS = [PStr ''very_interested'', PStr ''somewhat_interested'']"

definition SKIP_AGENTS :: "string set" where
  "SKIP_AGENTS = {''SMS Violet - EMR Trainer Outreach'', ''Violet - MedPro Inbound Lead Agent''}"

fun show_digit :: "nat \<Rightarrow> char" where
  "show_digit n = char_of (48 + n)"

fun show_nat :: "nat \<Rightarrow> string" where
  "show_nat n = (if n < 10 then [show_digit n] else show_nat (n div 10) @ [show_digit (n mod 10)])"

declare show_nat.simps [simp del]

fun py_str :: "pyval \<Rightarrow> string" where
  \<comment> \<open>\<^verbatim>\<open>str(v)\<close>, as an f-string formats a value\<close>
  "py_str PNone = ''None''"
| "py_str (PBool b) = (if b then ''True'' else ''False'')"
| "py_str (PInt n) = (if n < 0 then CHR ''-'' # show_nat (nat (- n)) else show_nat (nat n))"
| "py_str (PStr s) = s"

definition classify_chat :: "chat \<Rightarrow> string \<times> string" where
  "classify_chat c =
     (let agent = get_str (agent_name c) '''' in
      if agent \<in> SKIP_AGENTS then (''skip'', ''agent skipped: '' @ agent)
      else let status = get_str (chat_status c) '''' in
      if status = ''ongoing'' then (''skip'', ''chat still ongoing'')
      else let custom = get_custom c in
      if custom = [] then (''skip'', ''no analysis data'')
      else if truthy (dict_get custom ''opted_out'' PNone) then (''skip'', ''opted out'')
      else let qual = dict_get custom ''qualification_result'' (PStr '''') in
      if qual \<in> set SYNC_QUAL_RESULTS then (''qualified'', STAGE_QUALIFIED)
      else let interest = dict_get custom ''interest_level'' (PStr '''') in
      if interest \<in> set SYNC_INTEREST_LEVELS then (''interested'', STAGE_INTERESTED)
      else (''skip'', ''not qualified/interested (qual='' @ py_str qual @ '', interest=''
                      @ py_str interest @ '')''))"

section \<open>Identifier extraction (violet_core.extract_contact_id, extract_job_id)\<close>

definition valid_contact_id :: "string \<Rightarrow> bool" where
  \<comment> \<open>\<^verbatim>\<open>x.startswith('003') and len(x) >= 15\<close>\<close>
  "valid_contact_id x = (py_startswith x ''003'' \<and> 15 \<le> length x)"

definition url_segment :: "string \<Rightarrow> string \<Rightarrow> string" where
  \<comment> \<open>\<^verbatim>\<open>url.split(marker)[1].split('/')[0]\<close>\<close>
  "url_segment marker url = py_split ''/'' (py_split marker url ! 1) ! 0"

definition extract_contact_id :: "chat \<Rightarrow> string" where
  "extract_contact_id c =
     (let dv = or_empty (retell_llm_dynamic_variables c);
          meta = or_empty (metadata c);
          cid = dict_get dv ''candidate_id'' (dict_get meta ''candidate_id'' '''') in
      if cid \<noteq> [] \<and> valid_contact_id cid then cid
      else let url = dict_get dv ''candidate_salesforce_url'' '''' in
      if url \<noteq> [] \<and> py_in ''/Contact/'' url
           \<and> valid_contact_id (url_segment ''/Contact/'' url)
      then url_segment ''/Contact/'' url
      else '''')"

definition extract_job_id :: "chat \<Rightarrow> string" where
  "extract_job_id c =
     (let dv = or_empty (retell_llm_dynamic_variables c);
          url = dict_get dv ''job_salesforce_url'' '''' in
      if url \<noteq> [] \<and> py_in ''/AVTRRT__Job__c/'' url then url_segment ''/AVTRRT__Job__c/'' url
      else let j18 = dict_get dv ''job_ID_18'' '''' in
      if j18 \<noteq> [] \<and> py_startswith j18 ''a0F'' then j18
      else '''')"

text \<open>The two sources each extractor consults, named for the statements below.\<close>

definition contact_direct :: "chat \<Rightarrow> string" where
  "contact_direct c =
     dict_get (or_empty (retell_llm_dynamic_variables c)) ''candidate_id''
       (dict_get (or_empty (metadata c)) ''candidate_id'' '''')"

definition contact_url :: "chat \<Rightarrow> string" where
  "contact_url c =
     dict_get (or_empty (retell_llm_dynamic_variables c)) ''candidate_salesforce_url'' ''''"

definition job_direct :: "chat \<Rightarrow> string" where
  "job_direct c = dict_get (or_empty (retell_llm_dynamic_variables c)) ''job_ID_18'' ''''"

definition job_url :: "chat \<Rightarrow> string" where
  "job_url c = dict_get (or_empty (retell_llm_dynamic_variables c)) ''job_salesforce_url'' ''''"

definition dv_chat :: "string dict \<Rightarrow> chat" where
  \<comment> \<open>a chat object that carries dynamic variables only\<close>
  "dv_chat dv = \<lparr>chat_id = None, agent_name = None, chat_status = None, chat_analysis = None,
     retell_llm_dynamic_variables = Some dv, metadata = None\<rparr>"

definition meta_chat :: chat where
  \<comment> \<open>a chat object whose candidate identifier is in the metadata block only\<close>
  "meta_chat = \<lparr>chat_id = None, agent_name = None, chat_status = None, chat_analysis = None,
     retell_llm_dynamic_variables = Some [(''job_title'', ''RN'')],
     metadata = Some [(''candidate_id'', ''003000000000001AAA'')]\<rparr>"

definition both_chat :: chat where
  \<comment> \<open>a chat object with both direct identifiers and both deep links\<close>
  "both_chat = \<lparr>chat_id = None, agent_name = None, chat_status = None, chat_analysis = None,
     retell_llm_dynamic_variables = Some [(''candidate_id'', ''003000000000001AAA''),
        (''job_ID_18'', ''a0F000000000001AAA''),
        (''candidate_salesforce_url'',
           ''https://sf.example/lightning/r/Contact/003000000000009AAA/view''),
        (''job_salesforce_url'',
           ''https://sf.example/lightning/r/AVTRRT__Job__c/a0F000000000002AAA/view'')],
     metadata = None\<rparr>"

section \<open>The dead-letter store (dead_letter.py)\<close>

text \<open>
  The store is the file \<^verbatim>\<open>dead_letter.jsonl\<close>: \<^const>\<open>None\<close> when the file does not exist,
  otherwise its text as the text-mode reader delivers it (line ends already translated to
  LF). Archives are the files \<^verbatim>\<open>shutil.move\<close> has produced, by path. File operations
  themselves are taken to succeed. \<^verbatim>\<open>json.dumps\<close> and \<^verbatim>\<open>json.loads\<close> belong to the
  standard library and are parameters \<open>dumps\<close> and \<open>loads\<close>; \<open>loads\<close> gives
  \<^const>\<open>None\<close> where \<^verbatim>\<open>json.loads\<close> raises \<^verbatim>\<open>JSONDecodeError\<close>.
\<close>

definition LF :: char where "LF = CHR 0x0A"

definition py_isspace :: "char \<Rightarrow> bool" where
  \<comment> \<open>the characters \<^verbatim>\<open>str.strip()\<close> removes, among the code points below 256\<close>
  "py_isspace c = (of_char c \<in> {9, 10, 11, 12, 13, 28, 29, 30, 31, 32, 133, 160 :: nat})"

definition py_strip :: "string \<Rightarrow> string" where
  \<comment> \<open>\<^verbatim>\<open>s.strip()\<close>\<close>
  "py_strip s = rev (dropWhile py_isspace (rev (dropWhile py_isspace s)))"

fun file_lines :: "string \<Rightarrow> string list" where
  \<comment> \<open>\<^verbatim>\<open>for line in f\<close>: the lines of the text, each with its line end\<close>
  "file_lines [] = []"
| "file_lines (c # cs) =
     (if c = LF then [c] # file_lines cs
      else case file_lines cs of [] \<Rightarrow> [[c]] | l # ls \<Rightarrow> (c # l) # ls)"

record dl_entry =
  dl_timestamp :: string
  dl_chat_id :: string
  dl_contact_id :: string
  dl_job_id :: string
  dl_stage :: string
  dl_tier :: string
  dl_error :: string
  dl_chat_payload :: chat

record dl_store =
  live :: "string option"
  archives :: "(string \<times> string) list"

definition dl_append ::
  "(dl_entry \<Rightarrow> string) \<Rightarrow> string \<Rightarrow> chat \<Rightarrow> string dict \<Rightarrow> string \<Rightarrow> dl_store \<Rightarrow> dl_store" where
  \<comment> \<open>\<^verbatim>\<open>append(chat, record, error)\<close>; \<open>now\<close> is the clock reading in ISO format. The file
      is opened in mode \<^verbatim>\<open>a\<close>, which creates it when absent.\<close>
  "dl_append dumps now c record error st =
     (let entry = \<lparr>dl_timestamp = now,
                   dl_chat_id = get_str (chat_id c) ''unknown'',
                   dl_contact_id = dict_get record ''contact_id'' '''',
                   dl_job_id = dict_get record ''job_id'' '''',
                   dl_stage = dict_get record ''stage'' '''',
                   dl_tier = dict_get record ''tier'' '''',
                   dl_error = error,
                   dl_chat_payload = c\<rparr>
      in st\<lparr>live := Some (get_str (live st) '''' @ dumps entry @ [LF])\<rparr>)"

definition read_all :: "(string \<Rightarrow> 'e option) \<Rightarrow> dl_store \<Rightarrow> 'e list" where
  "read_all loads st =
     (case live st of
        None \<Rightarrow> []
      | Some text \<Rightarrow>
          foldl (\<lambda>entries line.
                   let line = py_strip line in
                   if line \<noteq> [] then
                     (case loads line of Some e \<Rightarrow> entries @ [e] | None \<Rightarrow> entries)
                   else entries)
                [] (file_lines text))"

definition count_nonblank :: "string \<Rightarrow> nat" where
  \<comment> \<open>the counting loop shared by \<^verbatim>\<open>count\<close> and \<^verbatim>\<open>clear\<close>\<close>
  "count_nonblank text =
     foldl (\<lambda>n line. if py_strip line \<noteq> [] then n + 1 else n) 0 (file_lines text)"

definition count :: "dl_store \<Rightarrow> nat" where
  "count st = (case live st of None \<Rightarrow> 0 | Some text \<Rightarrow> count_nonblank text)"

definition clear :: "string \<Rightarrow> dl_store \<Rightarrow> (string option \<times> nat) \<times> dl_store" where
  \<comment> \<open>\<^verbatim>\<open>clear()\<close>; \<open>ts\<close> is the clock reading formatted \<^verbatim>\<open>%Y%m%d_%H%M%S\<close>. The move
      replaces an archive of the same name.\<close>
  "clear ts st =
     (case live st of
        None \<Rightarrow> ((None, 0), st)
      | Some text \<Rightarrow>
          let n = count_nonblank text in
          if n = 0 then ((None, 0), st)
          else let archive_path = ''dead_letter_archive_'' @ ts @ ''.jsonl'' in
               ((Some archive_path, n),
                \<lparr>live = None, archives = (archive_path, text) # archives st\<rparr>))"

definition nonblank_lines :: "dl_store \<Rightarrow> string list" where
  \<comment> \<open>the stripped lines of the store that are not blank, for the statements below\<close>
  "nonblank_lines st =
     (case live st of
        None \<Rightarrow> []
      | Some text \<Rightarrow> filter (\<lambda>l. l \<noteq> []) (map py_strip (file_lines text)))"

definition loads_example :: "string \<Rightarrow> unit option" where
  \<comment> \<open>\<^verbatim>\<open>json.loads\<close> on the two lines of the example below: \<^verbatim>\<open>{}\<close> parses, to the empty
      dictionary, and \<^verbatim>\<open>{\<close> raises \<^verbatim>\<open>JSONDecodeError\<close>\<close>
  "loads_example s = (if s = ''{}'' then Some () else None)"

definition torn_store :: dl_store where
  \<comment> \<open>a store whose second line was cut short\<close>
  "torn_store = \<lparr>live = Some (''{}'' @ [LF] @ ''{'' @ [LF]), archives = []\<rparr>"

section \<open>The outside world of the pipeline\<close>

text \<open>
  The pipeline calls out to credential resolution, to the HTTP client, to the CRM query
  helper, to \<^verbatim>\<open>time.sleep\<close> and to the notification callback. Every such call is an
  \<^emph>\<open>event\<close>; the state threaded through the model is the list of events so far, oldest
  first. What a call returns is given by an environment whose answers may depend on the whole
  history, so that any sequence of outcomes can be described. An exception is a value
  carrying its class name and its message (\<^verbatim>\<open>str(e)\<close>).
\<close>

datatype exn = Exn (exn_class: string) (exn_msg: string)

datatype json = JNull | JBool bool | JNum int | JStr string | JArr "json list"
  | JObj "(string \<times> json) list"
  \<comment> \<open>a value parsed from a response body; its numbers are taken to be integers\<close>

record http_response =
  status_code :: nat
  resp_text :: string
  resp_json :: "exn + json"  \<comment> \<open>what \<^verbatim>\<open>resp.json()\<close> returns or raises\<close>

datatype post_outcome = Responded http_response | ReadTimeout | PostRaised exn

record post_request =
  req_url :: string
  req_authorization :: string
  req_contact :: string
  req_job :: string
  req_stage :: string

record candidate_record =
  rec_contact_id :: string
  rec_job_id :: string
  rec_stage :: string
  rec_tier :: string
  rec_chat_id :: string
  rec_summary :: string
  rec_job_desc :: string
  rec_agent :: string

datatype sf_result = ApplicantId json | SfError string
  \<comment> \<open>the dictionaries \<^verbatim>\<open>{'applicant_id': v}\<close> and \<^verbatim>\<open>{'error': s}\<close>\<close>

record notify_details =
  nd_record :: candidate_record
  nd_extra :: sf_result  \<comment> \<open>the key merged into the record: the new id, or the error text\<close>

datatype event =
    CredsCall "exn + string \<times> string"
  | PostCall post_request post_outcome
  | Sleep nat
  | QueryCall string "exn + string dict list"
  | NotifyCall string notify_details "exn option"

type_synonym trace = "event list"

record env =
  creds_of :: "trace \<Rightarrow> exn + string \<times> string"
    \<comment> \<open>\<^verbatim>\<open>get_salesforce_credentials()\<close>: a token and an instance URL, or an exception\<close>
  post_of :: "trace \<Rightarrow> post_request \<Rightarrow> post_outcome"
    \<comment> \<open>\<^verbatim>\<open>requests.post(..., timeout=120)\<close>\<close>
  query_of :: "trace \<Rightarrow> string \<Rightarrow> exn + string dict list"
    \<comment> \<open>\<^verbatim>\<open>sf_query_all(soql)\<close>, taken to return its records or to raise\<close>
  set_order :: "string list \<Rightarrow> string list"
    \<comment> \<open>\<^verbatim>\<open>list(set(xs))\<close>: the elements of the list, once each, in the order Python's set
        iterates them\<close>
  str_of :: "json \<Rightarrow> string"
    \<comment> \<open>\<^verbatim>\<open>str(v)\<close> on a value parsed from a response body\<close>

type_synonym notify_fn = "trace \<Rightarrow> string \<Rightarrow> notify_details \<Rightarrow> exn option"
  \<comment> \<open>the callback: \<^const>\<open>None\<close> when it returns, the exception when it raises\<close>

definition creds_call :: "env \<Rightarrow> trace \<Rightarrow> (exn + string \<times> string) \<times> trace" where
  \<comment> \<open>a call of \<^verbatim>\<open>get_salesforce_credentials()\<close> from the pipeline\<close>
  "creds_call e tr = (creds_of e tr, tr @ [CredsCall (creds_of e tr)])"

section \<open>Deduplication (violet_core.check_existing_applicants)\<close>

definition py_range_step :: "nat \<Rightarrow> nat \<Rightarrow> nat list" where
  \<comment> \<open>\<^verbatim>\<open>range(0, n, step)\<close>\<close>
  "py_range_step n step = map (\<lambda>k. step * k) [0 ..< (n + step - 1) div step]"

definition batches :: "string list \<Rightarrow> string list list" where
  \<comment> \<open>\<^verbatim>\<open>unique_ids[i:i + 25]\<close> for \<^verbatim>\<open>i in range(0, len(unique_ids), 25)\<close>\<close>
  "batches unique_ids =
     map (\<lambda>i. take 25 (drop i unique_ids)) (py_range_step (length unique_ids) 25)"

definition batch_soql :: "string list \<Rightarrow> string" where
  "batch_soql batch =
     ''SELECT AVTRRT__Contact_Candidate__c, AVTRRT__Job__c FROM AVTRRT__Job_Applicant__c ''
     @ ''WHERE AVTRRT__Contact_Candidate__c IN ('' @ [CHR 0x27]
     @ py_join ([CHR 0x27] @ '','' @ [CHR 0x27]) batch @ [CHR 0x27] @ '')''"

definition add_pairs :: "string dict list \<Rightarrow> (string \<times> string) set \<Rightarrow> (string \<times> string) set" where
  \<comment> \<open>the loop over the records of one answer\<close>
  "add_pairs records existing =
     foldl (\<lambda>ex r.
              let cc = dict_get r ''AVTRRT__Contact_Candidate__c'' '''';
                  jj = dict_get r ''AVTRRT__Job__c'' ''''
              in if cc \<noteq> [] \<and> jj \<noteq> [] then insert (take 15 cc, take 15 jj) ex else ex)
           existing records"

fun check_batches ::
  "env \<Rightarrow> string list list \<Rightarrow> (string \<times> string) set \<Rightarrow> trace
   \<Rightarrow> (string \<times> string) set \<times> trace" where
  \<comment> \<open>the loop over the batches; an exception of the query is logged and dropped\<close>
  "check_batches e [] existing tr = (existing, tr)"
| "check_batches e (batch # rest) existing tr =
     (let soql = batch_soql batch;
          answer = query_of e tr soql;
          tr1 = tr @ [QueryCall soql answer];
          existing1 = (case answer of
                         Inr records \<Rightarrow> add_pairs records existing
                       | Inl err \<Rightarrow> existing)
      in check_batches e rest existing1 tr1)"

definition check_existing_applicants ::
  "env \<Rightarrow> string list \<Rightarrow> trace \<Rightarrow> (string \<times> string) set \<times> trace" where
  "check_existing_applicants e contact_ids tr =
     (let unique_ids = set_order e contact_ids
      in check_batches e (batches unique_ids) {} tr)"

text \<open>Vocabulary for the statements about deduplication.\<close>

definition is_set_order :: "env \<Rightarrow> bool" where
  \<comment> \<open>what Python promises of \<^verbatim>\<open>list(set(xs))\<close>\<close>
  "is_set_order e = (\<forall>xs. distinct (set_order e xs) \<and> set (set_order e xs) = set xs)"

fun run_queries :: "env \<Rightarrow> trace \<Rightarrow> string list \<Rightarrow> event list" where
  \<comment> \<open>the events of issuing the given queries one after the other\<close>
  "run_queries e tr [] = []"
| "run_queries e tr (soql # rest) =
     QueryCall soql (query_of e tr soql)
       # run_queries e (tr @ [QueryCall soql (query_of e tr soql)]) rest"

fun pairs_found :: "event \<Rightarrow> (string \<times> string) set" where
  \<comment> \<open>the normalized pairs in the answer of one query; none when the query failed\<close>
  "pairs_found (QueryCall soql (Inr records)) =
     set (map (\<lambda>r. (take 15 (dict_get r ''AVTRRT__Contact_Candidate__c'' ''''),
                      take 15 (dict_get r ''AVTRRT__Job__c'' '''')))
            (filter (\<lambda>r. dict_get r ''AVTRRT__Contact_Candidate__c'' '''' \<noteq> []
                         \<and> dict_get r ''AVTRRT__Job__c'' '''' \<noteq> []) records))"
| "pairs_found ev = {}"

definition flaky_env :: env where
  \<comment> \<open>an environment whose first query fails and whose later queries find one applicant,
      whose credentials resolve and whose record creation always times out\<close>
  "flaky_env =
     \<lparr>creds_of = (\<lambda>tr. Inr (''token'', ''https://sf.example'')),
      post_of = (\<lambda>tr req. ReadTimeout),
      query_of = (\<lambda>tr soql.
         if tr = [] then Inl (Exn ''HTTPError'' ''503 Server Error'')
         else Inr [[(''AVTRRT__Contact_Candidate__c'', ''003000000000001AAA''),
                    (''AVTRRT__Job__c'', ''a0F000000000002AAA'')]]),
      set_order = remdups,
      str_of = (\<lambda>v. [])\<rparr>"

definition many_ids :: "string list" where
  \<comment> \<open>26 identifiers, the first of them twice\<close>
  "many_ids = ''id0'' # map (\<lambda>n. ''id'' @ show_nat n) [0 ..< 26]"

section \<open>Record creation (violet_core.create_job_applicant)\<close>

definition quoted :: "string \<Rightarrow> string" where
  "quoted s = [CHR 0x27] @ s @ [CHR 0x27]"

fun json_truthy :: "json \<Rightarrow> bool" where
  "json_truthy JNull = False"
| "json_truthy (JBool b) = b"
| "json_truthy (JNum n) = (n \<noteq> 0)"
| "json_truthy (JStr s) = (s \<noteq> [])"
| "json_truthy (JArr xs) = (xs \<noteq> [])"
| "json_truthy (JObj kvs) = (kvs \<noteq> [])"

fun json_type_name :: "json \<Rightarrow> string" where
  "json_type_name JNull = ''NoneType''"
| "json_type_name (JBool b) = ''bool''"
| "json_type_name (JNum n) = ''int''"
| "json_type_name (JStr s) = ''str''"
| "json_type_name (JArr xs) = ''list''"
| "json_type_name (JObj kvs) = ''dict''"

fun subscript0 :: "json \<Rightarrow> exn + json" where
  \<comment> \<open>\<^verbatim>\<open>v[0]\<close>\<close>
  "subscript0 (JArr (x # xs)) = Inr x"
| "subscript0 (JArr []) = Inl (Exn ''IndexError'' ''list index out of range'')"
| "subscript0 (JStr (c # cs)) = Inr (JStr [c])"
| "subscript0 (JStr []) = Inl (Exn ''IndexError'' ''string index out of range'')"
| "subscript0 (JObj kvs) = Inl (Exn ''KeyError'' ''0'')"
| "subscript0 v =
     Inl (Exn ''TypeError'' (quoted (json_type_name v) @ '' object is not subscriptable''))"

definition mk_request :: "candidate_record \<Rightarrow> string \<Rightarrow> string \<Rightarrow> post_request" where
  \<comment> \<open>the URL, the Authorization header and the one record of the payload\<close>
  "mk_request r access_token instance_url =
     \<lparr>req_url = instance_url @ ''/services/data/v59.0/composite/sobjects'',
      req_authorization = ''Bearer '' @ access_token,
      req_contact = rec_contact_id r,
      req_job = rec_job_id r,
      req_stage = rec_stage r\<rparr>"

datatype loop_exit = Broke http_response | Returned "bool \<times> sf_result"

fun post_loop ::
  "env \<Rightarrow> candidate_record \<Rightarrow> nat list \<Rightarrow> string \<Rightarrow> string \<Rightarrow> trace
   \<Rightarrow> (exn + loop_exit) \<times> trace" where
  \<comment> \<open>\<^verbatim>\<open>for attempt in range(3)\<close>, over the attempts still to run. A loop that ran out
      would leave \<^verbatim>\<open>resp\<close> unbound; with three attempts the last one returns before.\<close>
  "post_loop e r [] access_token instance_url tr =
     (Inl (Exn ''UnboundLocalError'' ''resp''), tr)"
| "post_loop e r (attempt # rest) access_token instance_url tr =
     (let req = mk_request r access_token instance_url;
          outcome = post_of e tr req;
          tr1 = tr @ [PostCall req outcome]
      in case outcome of
           Responded resp \<Rightarrow> (Inr (Broke resp), tr1)
         | PostRaised err \<Rightarrow> (Inl err, tr1)
         | ReadTimeout \<Rightarrow>
             if attempt < 2 then
               (case creds_call e tr1 of
                  (Inl err, tr2) \<Rightarrow> (Inl err, tr2)
                | (Inr (access_token', instance_url'), tr2) \<Rightarrow>
                    post_loop e r rest access_token' instance_url' (tr2 @ [Sleep 2]))
             else (Inr (Returned (False, SfError ''timeout after 3 attempts'')), tr1))"

definition handle_response :: "env \<Rightarrow> http_response \<Rightarrow> exn + bool \<times> sf_result" where
  \<comment> \<open>the code after the loop\<close>
  "handle_response e resp =
     (if status_code resp = 200 then
        (case resp_json resp of
           Inl err \<Rightarrow> Inl err
         | Inr api_results \<Rightarrow>
             (case subscript0 api_results of
                Inl err \<Rightarrow> Inl err
              | Inr (JObj result) \<Rightarrow>
                  if json_truthy (dict_get result ''success'' JNull) then
                    (case map_of result ''id'' of
                       None \<Rightarrow> Inl (Exn ''KeyError'' (quoted ''id''))
                     | Some v \<Rightarrow> Inr (True, ApplicantId v))
                  else Inr (False, SfError (str_of e (dict_get result ''errors'' (JArr []))))
              | Inr v \<Rightarrow>
                  Inl (Exn ''AttributeError''
                         (quoted (json_type_name v) @ '' object has no attribute ''
                          @ quoted ''get''))))
      else Inr (False, SfError (''HTTP '' @ show_nat (status_code resp) @ '': ''
                                @ take 300 (resp_text resp))))"

definition create_job_applicant ::
  "env \<Rightarrow> candidate_record \<Rightarrow> trace \<Rightarrow> (exn + bool \<times> sf_result) \<times> trace" where
  "create_job_applicant e r tr =
     (case creds_call e tr of
        (Inl err, tr1) \<Rightarrow> (Inl err, tr1)
      | (Inr (access_token, instance_url), tr1) \<Rightarrow>
          (case post_loop e r [0, 1, 2] access_token instance_url tr1 of
             (Inl err, tr2) \<Rightarrow> (Inl err, tr2)
           | (Inr (Returned res), tr2) \<Rightarrow> (Inr res, tr2)
           | (Inr (Broke resp), tr2) \<Rightarrow> (handle_response e resp, tr2)))"

section \<open>The orchestrator (violet_core.process_chat_webhook)\<close>

record result =
  res_chat_id :: string
  res_action :: string
  res_detail :: string
  res_contact_id :: "string option"  \<comment> \<open>\<^const>\<open>None\<close>: the key is not in the dictionary\<close>
  res_job_id :: "string option"
  res_sf_result :: "sf_result option"

definition build_summary :: "chat \<Rightarrow> exn + string" where
  \<comment> \<open>\<^verbatim>\<open>(custom.get('conversation_summary') or ca.get('chat_summary', ''))[:500]\<close>\<close>
  "build_summary c =
     (let v = dict_get (get_custom c) ''conversation_summary'' PNone in
      if truthy v then
        (case v of
           PStr s \<Rightarrow> Inr (take 500 s)
         | PBool b \<Rightarrow> Inl (Exn ''TypeError'' (quoted ''bool'' @ '' object is not subscriptable''))
         | PInt n \<Rightarrow> Inl (Exn ''TypeError'' (quoted ''int'' @ '' object is not subscriptable''))
         | PNone \<Rightarrow>
             Inl (Exn ''TypeError'' (quoted ''NoneType'' @ '' object is not subscriptable'')))
      else Inr (take 500 (case chat_analysis c of
                            None \<Rightarrow> ''''
                          | Some ca \<Rightarrow> get_str (chat_summary ca) '''')))"

definition build_record ::
  "chat \<Rightarrow> string \<Rightarrow> string \<Rightarrow> string \<Rightarrow> string \<Rightarrow> string \<Rightarrow> candidate_record" where
  \<comment> \<open>the dictionary \<^verbatim>\<open>record\<close> of the orchestrator, its summary already computed\<close>
  "build_record c action detail contact_id job_id summary =
     (let dv = or_empty (retell_llm_dynamic_variables c)
      in \<lparr>rec_contact_id = contact_id, rec_job_id = job_id,
          rec_stage = detail, rec_tier = action,
          rec_chat_id = get_str (chat_id c) ''unknown'',
          rec_summary = summary,
          rec_job_desc = dict_get dv ''job_title'' '''' @ '' in ''
            @ dict_get dv ''job_city'' '''' @ '', ''
            @ dict_get dv ''job_state'' '''',
          rec_agent = get_str (agent_name c) ''''\<rparr>)"

definition call_notify ::
  "notify_fn option \<Rightarrow> string \<Rightarrow> notify_details \<Rightarrow> trace \<Rightarrow> exn option \<times> trace" where
  \<comment> \<open>\<^verbatim>\<open>if notify_fn: notify_fn(event_type, details)\<close>\<close>
  "call_notify notify event_type details tr =
     (case notify of
        None \<Rightarrow> (None, tr)
      | Some f \<Rightarrow> (f tr event_type details,
                   tr @ [NotifyCall event_type details (f tr event_type details)]))"

definition applicant_str :: "env \<Rightarrow> sf_result \<Rightarrow> string" where
  \<comment> \<open>\<^verbatim>\<open>sf_result.get('applicant_id', '')\<close> inside the f-string\<close>
  "applicant_str e sf = (case sf of ApplicantId v \<Rightarrow> str_of e v | SfError s \<Rightarrow> '''')"

definition error_str :: "sf_result \<Rightarrow> string" where
  \<comment> \<open>\<^verbatim>\<open>sf_result.get('error', 'unknown SF error')\<close>\<close>
  "error_str sf = (case sf of SfError s \<Rightarrow> s | ApplicantId v \<Rightarrow> ''unknown SF error'')"

definition process_chat_webhook ::
  "env \<Rightarrow> notify_fn option \<Rightarrow> chat \<Rightarrow> trace \<Rightarrow> (exn + result) \<times> trace" where
  "process_chat_webhook e notify c tr =
     (let cid = get_str (chat_id c) ''unknown'';
          (action, detail) = classify_chat c;
          res = \<lparr>res_chat_id = cid, res_action = action, res_detail = detail,
                 res_contact_id = None, res_job_id = None, res_sf_result = None\<rparr>
      in if action = ''skip'' then (Inr res, tr)
      else
        let contact_id = extract_contact_id c;
            job_id = extract_job_id c;
            res = res\<lparr>res_contact_id := Some contact_id, res_job_id := Some job_id\<rparr>
        in if contact_id = [] then
             (Inr (res\<lparr>res_action := ''skip'', res_detail := ''no contact ID in chat data''\<rparr>),
              tr)
        else if job_id = [] then
             (Inr (res\<lparr>res_action := ''skip'', res_detail := ''no job ID in chat data''\<rparr>), tr)
        else
          let (existing, tr1) = check_existing_applicants e [contact_id] tr;
              pair = (take 15 contact_id, take 15 job_id)
          in if pair \<in> existing then
               (Inr (res\<lparr>res_action := ''duplicate'',
                          res_detail := ''job applicant already exists in SF''\<rparr>), tr1)
          else
            (case build_summary c of
               Inl err \<Rightarrow> (Inl err, tr1)
             | Inr summary \<Rightarrow>
                 let record = build_record c action detail contact_id job_id summary
                 in (case create_job_applicant e record tr1 of
                       (Inl err, tr2) \<Rightarrow> (Inl err, tr2)
                     | (Inr (success, sf), tr2) \<Rightarrow>
                         let res = res\<lparr>res_sf_result := Some sf\<rparr> in
                         if success then
                           let res = res\<lparr>res_action := ''created'',
                                  res_detail := ''Job Applicant '' @ applicant_str e sf
                                                @ '' created''\<rparr>
                           in (case call_notify notify ''created''
                                      \<lparr>nd_record = record, nd_extra = sf\<rparr> tr2 of
                                 (Some err, tr3) \<Rightarrow> (Inl err, tr3)
                               | (None, tr3) \<Rightarrow> (Inr res, tr3))
                         else
                           let res = res\<lparr>res_action := ''error'',
                                          res_detail := error_str sf\<rparr>
                           in (case call_notify notify ''error''
                                      \<lparr>nd_record = record,
                                       nd_extra = SfError (res_detail res)\<rparr> tr2 of
                                 (Some err, tr3) \<Rightarrow> (Inl err, tr3)
                               | (None, tr3) \<Rightarrow> (Inr res, tr3)))))"

definition good_chat :: chat where
  \<comment> \<open>a fully qualified candidate with both identifiers\<close>
  "good_chat =
     \<lparr>chat_id = Some ''chat_0001'', agent_name = Some ''Violet'', chat_status = Some ''ended'',
      chat_analysis = Some \<lparr>custom_analysis_data =
          Some [(''qualification_result'', PStr ''fully_qualified'')],
        chat_summary = Some ''spoke about the RN position''\<rparr>,
      retell_llm_dynamic_variables = Some [(''candidate_id'', ''003000000000001AAA''),
        (''job_ID_18'', ''a0F000000000009AAA''), (''job_title'', ''RN'')],
      metadata = None\<rparr>"

definition nurse_record :: candidate_record where
  \<comment> \<open>the record the orchestrator builds for \<^const>\<open>good_chat\<close>\<close>
  "nurse_record =
     \<lparr>rec_contact_id = ''003000000000001AAA'', rec_job_id = ''a0F000000000009AAA'',
      rec_stage = ''New Application'', rec_tier = ''qualified'', rec_chat_id = ''chat_0001'',
      rec_summary = ''spoke about the RN position'', rec_job_desc = ''RN in , '',
      rec_agent = ''Violet''\<rparr>"

definition expiring_env :: env where
  \<comment> \<open>record creation always times out; the credentials resolve once, and the refresh after
      the first timeout is refused by the token endpoint\<close>
  "expiring_env =
     \<lparr>creds_of = (\<lambda>tr. if tr = [] then Inr (''token'', ''https://sf.example'')
                       else Inl (Exn ''RuntimeError''
                                   ''Salesforce refresh token auth failed (400): expired'')),
      post_of = (\<lambda>tr req. ReadTimeout),
      query_of = (\<lambda>tr soql. Inr []),
      set_order = remdups,
      str_of = (\<lambda>v. [])\<rparr>"

definition created_response :: http_response where
  "created_response =
     \<lparr>status_code = 200, resp_text = ''(body)'',
      resp_json = Inr (JArr [JObj [(''id'', JStr ''a0Gxx''), (''success'', JBool True),
                                   (''errors'', JArr [])]])\<rparr>"

definition retry_env :: env where
  \<comment> \<open>the first attempt to create times out, the second is answered\<close>
  "retry_env =
     \<lparr>creds_of = (\<lambda>tr. Inr (''token'' @ show_nat (length tr), ''https://sf.example'')),
      post_of = (\<lambda>tr req. if length tr < 2 then ReadTimeout else Responded created_response),
      query_of = (\<lambda>tr soql. Inr []),
      set_order = remdups,
      str_of = (\<lambda>v. case v of JStr s \<Rightarrow> s | _ \<Rightarrow> [])\<rparr>"

text \<open>Vocabulary for the statements about the orchestrator.\<close>

definition reaches_creation ::
  "env \<Rightarrow> chat \<Rightarrow> trace \<Rightarrow> (string \<times> string) set \<Rightarrow> trace \<Rightarrow> bool" where
  \<comment> \<open>the event is not skipped, both identifiers are found, and the deduplication, which
      returned \<open>existing\<close> and left the history \<open>tr1\<close>, found no existing applicant\<close>
  "reaches_creation e c tr existing tr1 =
     (fst (classify_chat c) \<noteq> ''skip''
      \<and> extract_contact_id c \<noteq> [] \<and> extract_job_id c \<noteq> []
      \<and> check_existing_applicants e [extract_contact_id c] tr = (existing, tr1)
      \<and> (take 15 (extract_contact_id c), take 15 (extract_job_id c)) \<notin> existing)"

definition record_for :: "chat \<Rightarrow> string \<Rightarrow> candidate_record" where
  \<comment> \<open>the record the orchestrator builds for the event\<close>
  "record_for c summary =
     build_record c (fst (classify_chat c)) (snd (classify_chat c))
       (extract_contact_id c) (extract_job_id c) summary"

definition unreachable_env :: env where
  \<comment> \<open>the credentials resolve, and the connection for record creation cannot be set up in
      time: \<^verbatim>\<open>requests\<close> raises \<^verbatim>\<open>ConnectTimeout\<close>, which is not a \<^verbatim>\<open>ReadTimeout\<close>\<close>
  "unreachable_env =
     \<lparr>creds_of = (\<lambda>tr. Inr (''token'', ''https://sf.example'')),
      post_of = (\<lambda>tr req. PostRaised (Exn ''ConnectTimeout'' ''connection timed out'')),
      query_of = (\<lambda>tr soql. Inr []),
      set_order = remdups,
      str_of = (\<lambda>v. [])\<rparr>"

section \<open>The HTTP front end (app.py)\<close>

text \<open>
  The state of the process is its counters, the dead-letter store and the history of the
  calls made to the outside. The clock is read as three renderings of one instant. The
  configuration holds the shared secret (empty when \<^verbatim>\<open>RETELL_API_KEY\<close> is not set), the
  library functions the handlers call (HMAC-SHA256 as a hexadecimal digest, the JSON parser
  of the request body, the serializer and the parser of dead-letter entries), and the
  notification callback the handlers pass to the orchestrator. The request body is parsed
  into the shape the handler reads: what it holds under \<^verbatim>\<open>event\<close>, \<^verbatim>\<open>data\<close> and \<^verbatim>\<open>chat\<close>,
  with the values the handler cannot read kept apart from the events it can.
\<close>

record recent_event =
  ev_time :: string
  ev_type :: string
  ev_chat_id :: string
  ev_detail :: string

record stats =
  webhooks_received :: nat
  created :: nat
  duplicates :: nat
  skipped :: nat
  errors :: nat
  last_webhook :: "string option"
  last_created :: "string option"
  recent_events :: "recent_event list"

record clock =
  now_iso :: string    \<comment> \<open>\<^verbatim>\<open>datetime.now(timezone.utc).isoformat()\<close>\<close>
  now_hms :: string    \<comment> \<open>\<^verbatim>\<open>strftime('%H:%M:%S')\<close>\<close>
  now_stamp :: string  \<comment> \<open>\<^verbatim>\<open>strftime('%Y%m%d_%H%M%S')\<close>\<close>

datatype chat_value =
    ChatObject chat
  | NotAnObject string
  | UnsliceableId string
  \<comment> \<open>what a JSON document holds where the handler looks for the chat: an object of the
      event's type; a value that is not an object (\<^verbatim>\<open>null\<close>, a list, a string, a number),
      given by the name of its Python type; or an object whose \<^verbatim>\<open>chat_id\<close> is \<^verbatim>\<open>null\<close>, a
      boolean or a number, given by the name of that value's type\<close>

record payload =
  p_event :: "string option"
  p_data :: "chat_value option"
  p_chat :: "chat_value option"
  p_self :: chat_value  \<comment> \<open>the payload itself read as a chat object\<close>

datatype body_value = BodyObject payload | BodyOther string
  \<comment> \<open>the value \<^verbatim>\<open>json.loads\<close> returns: an object, or a value of another type, given by
      the name of its Python type (\<^verbatim>\<open>list\<close>, \<^verbatim>\<open>str\<close>, \<^verbatim>\<open>int\<close>, \<^verbatim>\<open>NoneType\<close>, ...)\<close>

record app_env =
  retell_api_key :: string
  hmac_sha256_hex :: "string \<Rightarrow> string \<Rightarrow> string"
  parse_body :: "string \<Rightarrow> exn + body_value"
    \<comment> \<open>\<^verbatim>\<open>json.loads(raw_body)\<close>: the value, or the exception it raises
        (\<^verbatim>\<open>JSONDecodeError\<close> for text that is not JSON, \<^verbatim>\<open>UnicodeDecodeError\<close> for bytes
        that are not text)\<close>
  json_dumps :: "dl_entry \<Rightarrow> string"
  json_loads :: "string \<Rightarrow> dl_entry option"
  send_notification :: notify_fn

record app_state =
  stats :: stats
  store :: dl_store
  world :: trace

definition MAX_RECENT_EVENTS :: nat where "MAX_RECENT_EVENTS = 50"

definition last_n :: "nat \<Rightarrow> 'a list \<Rightarrow> 'a list" where
  \<comment> \<open>\<^verbatim>\<open>xs[-n:]\<close> for a positive \<open>n\<close>\<close>
  "last_n n xs = drop (length xs - n) xs"

definition record_event :: "clock \<Rightarrow> string \<Rightarrow> string \<Rightarrow> string \<Rightarrow> stats \<Rightarrow> stats" where
  \<comment> \<open>\<^verbatim>\<open>_record_event(event_type, chat_id, detail)\<close>\<close>
  "record_event clk event_type cid detail s =
     (let s = s\<lparr>webhooks_received := webhooks_received s + 1,
                last_webhook := Some (now_iso clk)\<rparr>;
          s = (if event_type = ''created'' then
                 s\<lparr>created := created s + 1, last_created := Some (now_iso clk)\<rparr>
               else if event_type = ''duplicate'' then s\<lparr>duplicates := duplicates s + 1\<rparr>
               else if event_type = ''skip'' then s\<lparr>skipped := skipped s + 1\<rparr>
               else if event_type = ''error'' then s\<lparr>errors := errors s + 1\<rparr>
               else s);
          s = s\<lparr>recent_events := recent_events s @
                 [\<lparr>ev_time = now_hms clk, ev_type = event_type,
                   ev_chat_id = (if 12 < length cid then take 12 cid @ ''...'' else cid),
                   ev_detail = take 100 detail\<rparr>]\<rparr>
      in if MAX_RECENT_EVENTS < length (recent_events s)
         then s\<lparr>recent_events := last_n MAX_RECENT_EVENTS (recent_events s)\<rparr>
         else s)"

definition is_ascii :: "string \<Rightarrow> bool" where
  "is_ascii s = (\<forall>c \<in> set s. (of_char c :: nat) < 128)"

definition compare_digest :: "string \<Rightarrow> string \<Rightarrow> exn + bool" where
  \<comment> \<open>\<^verbatim>\<open>hmac.compare_digest\<close> on two \<^verbatim>\<open>str\<close> arguments: equality, in constant time;
      it refuses strings that are not ASCII\<close>
  "compare_digest a b =
     (if is_ascii a \<and> is_ascii b then Inr (a = b)
      else Inl (Exn ''TypeError''
                  ''comparing strings with non-ASCII characters is not supported''))"

definition verify_retell_signature :: "app_env \<Rightarrow> string \<Rightarrow> string \<Rightarrow> exn + bool" where
  "verify_retell_signature ae payload_body signature =
     (if retell_api_key ae = [] then Inr True
      else if signature = [] then Inr False
      else let expected = hmac_sha256_hex ae (retell_api_key ae) payload_body
           in compare_digest expected signature)"

definition result_dict :: "result \<Rightarrow> string dict" where
  \<comment> \<open>the result dictionary as \<^verbatim>\<open>dead_letter.append\<close> reads it; the key
      \<^verbatim>\<open>sf_result\<close>, which holds a dictionary and is not read, is left out\<close>
  "result_dict r =
     [(''chat_id'', res_chat_id r), (''action'', res_action r), (''detail'', res_detail r)]
     @ (case res_contact_id r of None \<Rightarrow> [] | Some v \<Rightarrow> [(''contact_id'', v)])
     @ (case res_job_id r of None \<Rightarrow> [] | Some v \<Rightarrow> [(''job_id'', v)])"

definition payload_chat :: "payload \<Rightarrow> chat_value" where
  \<comment> \<open>\<^verbatim>\<open>payload.get('data', payload.get('chat', payload))\<close>\<close>
  "payload_chat p =
     (case p_data p of
        Some v \<Rightarrow> v
      | None \<Rightarrow> (case p_chat p of Some v \<Rightarrow> v | None \<Rightarrow> p_self p))"

definition no_attribute :: "string \<Rightarrow> string \<Rightarrow> exn" where
  \<comment> \<open>what reading a missing attribute raises\<close>
  "no_attribute ty attr =
     Exn ''AttributeError'' (quoted ty @ '' object has no attribute '' @ quoted attr)"

definition not_subscriptable :: "string \<Rightarrow> exn" where
  \<comment> \<open>what \<^verbatim>\<open>v[:12]\<close> raises on \<^verbatim>\<open>None\<close>, a boolean or a number\<close>
  "not_subscriptable ty = Exn ''TypeError'' (quoted ty @ '' object is not subscriptable'')"

definition webhook_retell ::
  "app_env \<Rightarrow> env \<Rightarrow> clock \<Rightarrow> string \<Rightarrow> string option \<Rightarrow> app_state
   \<Rightarrow> (exn + nat) \<times> app_state" where
  \<comment> \<open>the handler of \<^verbatim>\<open>POST /webhook/retell\<close>, from the raw body and the signature header
      to the status code; an exception that leaves the handler is \<^const>\<open>Inl\<close>. Steps 1 to 3
      stand outside the \<^verbatim>\<open>try\<close> of step 4: the comparison of the signature, a parser
      exception other than \<^verbatim>\<open>JSONDecodeError\<close>, \<^verbatim>\<open>.get\<close> on a body or a chat that is not an
      object, and the slice \<^verbatim>\<open>chat_id[:12]\<close> of the log line raise out of the handler.\<close>
  "webhook_retell ae e clk raw_body header st =
     (let signature = get_str header '''' in
      case verify_retell_signature ae raw_body signature of
        Inl err \<Rightarrow> (Inl err, st)
      | Inr False \<Rightarrow> (Inr 401, st)
      | Inr True \<Rightarrow>
          (case parse_body ae raw_body of
             Inl err \<Rightarrow>
               if exn_class err = ''JSONDecodeError'' then (Inr 400, st) else (Inl err, st)
           | Inr (BodyOther ty) \<Rightarrow> (Inl (no_attribute ty ''get''), st)
           | Inr (BodyObject p) \<Rightarrow>
               if get_str (p_event p) '''' \<noteq> ''chat_analyzed'' then (Inr 204, st)
               else
                 (case payload_chat p of
                    NotAnObject ty \<Rightarrow> (Inl (no_attribute ty ''get''), st)
                  | UnsliceableId ty \<Rightarrow> (Inl (not_subscriptable ty), st)
                  | ChatObject c \<Rightarrow>
                      let cid = get_str (chat_id c) ''unknown'' in
                      (case process_chat_webhook e (Some (send_notification ae)) c (world st) of
                         (Inr res, tr) \<Rightarrow>
                           let action = res_action res;
                               detail = res_detail res;
                               st = st\<lparr>world := tr,
                                        stats := record_event clk action cid detail (stats st)\<rparr>
                           in if action = ''error'' then
                                (Inr 204,
                                 st\<lparr>store := dl_append (json_dumps ae) (now_iso clk) c
                                                 (result_dict res) detail (store st)\<rparr>)
                              else (Inr 204, st)
                       | (Inl err, tr) \<Rightarrow>
                           let st = st\<lparr>world := tr,
                                        stats := record_event clk ''error'' cid (exn_msg err)
                                                   (stats st)\<rparr>
                           in (Inr 204,
                               st\<lparr>store := dl_append (json_dumps ae) (now_iso clk) c
                                               [(''chat_id'', cid)] (exn_msg err)
                                               (store st)\<rparr>)))))"

record replay_result =
  rp_chat_id :: string
  rp_action :: string
  rp_detail :: string

record retry_report =
  retried :: nat
  rr_created :: nat
  rr_failed :: nat
  archived :: "string option"
  rr_results :: "replay_result list"

datatype retry_response = QueueEmpty | Report retry_report

fun replay_entries ::
  "app_env \<Rightarrow> env \<Rightarrow> clock \<Rightarrow> dl_entry list \<Rightarrow> replay_result list \<Rightarrow> app_state
   \<Rightarrow> replay_result list \<times> app_state" where
  \<comment> \<open>the loop of \<^verbatim>\<open>retry_failed\<close> over the entries read from the store\<close>
  "replay_entries ae e clk [] results st = (results, st)"
| "replay_entries ae e clk (entry # rest) results st =
     (let c = dl_chat_payload entry;
          cid = dl_chat_id entry
      in case process_chat_webhook e (Some (send_notification ae)) c (world st) of
           (Inr res, tr) \<Rightarrow>
             replay_entries ae e clk rest
               (results @ [\<lparr>rp_chat_id = cid, rp_action = res_action res,
                             rp_detail = res_detail res\<rparr>])
               (st\<lparr>world := tr,
                    stats := record_event clk (res_action res) cid (res_detail res) (stats st)\<rparr>)
         | (Inl err, tr) \<Rightarrow>
             replay_entries ae e clk rest
               (results @ [\<lparr>rp_chat_id = cid, rp_action = ''error'',
                             rp_detail = take 200 (exn_msg err)\<rparr>])
               (st\<lparr>world := tr\<rparr>))"

definition retry_failed :: "app_env \<Rightarrow> env \<Rightarrow> clock \<Rightarrow> app_state \<Rightarrow> retry_response \<times> app_state" where
  \<comment> \<open>the handler of \<^verbatim>\<open>POST /api/retry-failed\<close>\<close>
  "retry_failed ae e clk st =
     (let entries = read_all (json_loads ae) (store st) in
      if entries = [] then (QueueEmpty, st)
      else
        let (results, st1) = replay_entries ae e clk entries [] st;
            ((archive_path, cleared), store1) = clear (now_stamp clk) (store st1)
        in (Report \<lparr>retried = length results,
                     rr_created = length (filter (\<lambda>r. rp_action r = ''created'') results),
                     rr_failed = length (filter (\<lambda>r. rp_action r = ''error'') results),
                     archived = archive_path,
                     rr_results = results\<rparr>,
            st1\<lparr>store := store1\<rparr>))"

section \<open>The credential resolver (salesforce_client.py)\<close>

text \<open>
  The resolver keeps three module variables: the cached token, the cached instance URL and
  the time of the fetch; each is \<^const>\<open>None\<close> or a value. It reads the process
  environment, the clock (\<^verbatim>\<open>datetime.now()\<close>, here in microseconds) and the network,
  through three requests: the connector request together with the decoding of its answer,
  the probe of a connector token, and the POST to the OAuth token endpoint. Every reading of
  the clock and every request is an event of the resolver's history, and their answers may
  depend on that history. The lock is not modelled: calls are taken one after the other.
\<close>

record token_response =
  tr_status :: nat
  tr_error_detail :: string  \<comment> \<open>the body as the error message shows it\<close>
  tr_access_token :: "string option"  \<comment> \<open>\<^const>\<open>None\<close>: the key is missing\<close>
  tr_instance_url :: "string option"

datatype net_event =
    ClockRead int
  | ConnectorGet string string "exn + string option \<times> string option"
  | ProbeGet string string "exn + nat"
  | TokenPost string "string dict" "exn + token_response"

record sf_world =
  read_clock :: "net_event list \<Rightarrow> int"
  connector_get :: "net_event list \<Rightarrow> string \<Rightarrow> string \<Rightarrow> exn + string option \<times> string option"
    \<comment> \<open>host name and token header to the access token and instance URL found in the
        answer; \<^const>\<open>Inl\<close> for anything raised on the way\<close>
  probe_get :: "net_event list \<Rightarrow> string \<Rightarrow> string \<Rightarrow> exn + nat"
    \<comment> \<open>instance URL and token to the status code of the limits request\<close>
  token_post :: "net_event list \<Rightarrow> string \<Rightarrow> string dict \<Rightarrow> exn + token_response"
    \<comment> \<open>URL and form data to the answer of the token endpoint\<close>

record sf_config =
  environ :: "string dict"  \<comment> \<open>\<^verbatim>\<open>os.environ\<close>\<close>
  SF_TOKEN_CACHE_TTL :: int  \<comment> \<open>seconds\<close>

record token_cache =
  cached_token :: "string option"
  cached_instance :: "string option"
  token_fetched_at :: "int option"

type_synonym creds = "string option \<times> string option"

definition truthy_opt :: "string option \<Rightarrow> bool" where
  \<comment> \<open>truth value of a string or \<^verbatim>\<open>None\<close>\<close>
  "truthy_opt v = (case v of None \<Rightarrow> False | Some s \<Rightarrow> s \<noteq> [])"

definition env_get :: "sf_config \<Rightarrow> string \<Rightarrow> string option" where
  \<comment> \<open>\<^verbatim>\<open>os.environ.get(name)\<close>\<close>
  "env_get cfg name = map_of (environ cfg) name"

definition SF_API_VERSION :: string where "SF_API_VERSION = ''v59.0''"

definition store_token ::
  "sf_world \<Rightarrow> creds \<Rightarrow> token_cache \<Rightarrow> net_event list \<Rightarrow> token_cache \<times> net_event list" where
  \<comment> \<open>the three assignments of a successful mode; the third reads the clock\<close>
  "store_token w p c tr =
     (\<lparr>cached_token = fst p, cached_instance = snd p,
       token_fetched_at = Some (read_clock w tr)\<rparr>,
      tr @ [ClockRead (read_clock w tr)])"

definition refresh_via_connector ::
  "sf_config \<Rightarrow> sf_world \<Rightarrow> net_event list \<Rightarrow> (exn + creds) \<times> net_event list" where
  "refresh_via_connector cfg w tr =
     (let hostname = env_get cfg ''REPLIT_CONNECTORS_HOSTNAME'';
          repl_identity = env_get cfg ''REPL_IDENTITY'';
          web_repl = env_get cfg ''WEB_REPL_RENEWAL''
      in if \<not> truthy_opt repl_identity \<and> \<not> truthy_opt web_repl then (Inr (None, None), tr)
      else
        let token = (if truthy_opt repl_identity then ''repl '' @ the repl_identity
                     else ''depl '' @ the web_repl)
        in if \<not> truthy_opt hostname then (Inr (None, None), tr)
        else let answer = connector_get w tr (the hostname) token
             in (answer, tr @ [ConnectorGet (the hostname) token answer]))"

definition token_request ::
  "sf_world \<Rightarrow> string \<Rightarrow> string \<Rightarrow> string dict \<Rightarrow> net_event list
   \<Rightarrow> (exn + creds) \<times> net_event list" where
  \<comment> \<open>the POST to the token endpoint and the reading of its answer, shared by the two OAuth
      modes; \<open>what\<close> is the name of the mode in the error message\<close>
  "token_request w what login_url form tr =
     (let url = login_url @ ''/services/oauth2/token'';
          answer = token_post w tr url form;
          tr1 = tr @ [TokenPost url form answer]
      in case answer of
           Inl err \<Rightarrow> (Inl err, tr1)
         | Inr resp \<Rightarrow>
             if tr_status resp \<noteq> 200 then
               (Inl (Exn ''RuntimeError''
                       (what @ '' ('' @ show_nat (tr_status resp) @ ''): ''
                        @ tr_error_detail resp)), tr1)
             else
               (case tr_access_token resp of
                  None \<Rightarrow> (Inl (Exn ''KeyError'' (quoted ''access_token'')), tr1)
                | Some token \<Rightarrow>
                    (case tr_instance_url resp of
                       None \<Rightarrow> (Inl (Exn ''KeyError'' (quoted ''instance_url'')), tr1)
                     | Some instance \<Rightarrow> (Inr (Some token, Some instance), tr1))))"

definition refresh_via_oauth ::
  "sf_config \<Rightarrow> sf_world \<Rightarrow> net_event list \<Rightarrow> (exn + creds) \<times> net_event list" where
  "refresh_via_oauth cfg w tr =
     (let client_id = env_get cfg ''SF_CLIENT_ID'';
          client_secret = env_get cfg ''SF_CLIENT_SECRET'';
          refresh_token = env_get cfg ''SF_REFRESH_TOKEN'';
          login_url = dict_get (environ cfg) ''SF_LOGIN_URL''
                        ''https://surestaff.my.salesforce.com''
      in if \<not> (truthy_opt client_id \<and> truthy_opt client_secret \<and> truthy_opt refresh_token) then
           (Inl (Exn ''RuntimeError''
              ''Refresh Token mode requires: SF_CLIENT_ID, SF_CLIENT_SECRET, SF_REFRESH_TOKEN''),
            tr)
         else token_request w ''Salesforce refresh token auth failed'' login_url
                [(''grant_type'', ''refresh_token''),
                 (''refresh_token'', the refresh_token),
                 (''client_id'', the client_id),
                 (''client_secret'', the client_secret)] tr)"

definition refresh_via_password ::
  "sf_config \<Rightarrow> sf_world \<Rightarrow> net_event list \<Rightarrow> (exn + creds) \<times> net_event list" where
  "refresh_via_password cfg w tr =
     (let client_id = env_get cfg ''SF_CLIENT_ID'';
          client_secret = env_get cfg ''SF_CLIENT_SECRET'';
          username = env_get cfg ''SF_USERNAME'';
          password = dict_get (environ cfg) ''SF_PASSWORD'' '''';
          security_token = dict_get (environ cfg) ''SF_SECURITY_TOKEN'' '''';
          login_url = dict_get (environ cfg) ''SF_LOGIN_URL'' ''https://login.salesforce.com''
      in if \<not> (truthy_opt client_id \<and> truthy_opt client_secret \<and> truthy_opt username) then
           (Inl (Exn ''RuntimeError''
              (''Direct OAuth requires: SF_CLIENT_ID, SF_CLIENT_SECRET, SF_USERNAME, ''
               @ ''SF_PASSWORD, SF_SECURITY_TOKEN'')),
            tr)
         else token_request w ''Salesforce OAuth failed'' login_url
                [(''grant_type'', ''password''),
                 (''client_id'', the client_id),
                 (''client_secret'', the client_secret),
                 (''username'', the username),
                 (''password'', password @ security_token)] tr)"

definition connector_mode ::
  "sf_config \<Rightarrow> sf_world \<Rightarrow> token_cache \<Rightarrow> net_event list
   \<Rightarrow> creds option \<times> token_cache \<times> net_event list" where
  \<comment> \<open>mode 2 with its \<^verbatim>\<open>try\<close>: the credentials it returns, or \<^const>\<open>None\<close> when the
      resolver falls through to the OAuth modes\<close>
  "connector_mode cfg w c tr =
     (case refresh_via_connector cfg w tr of
        (Inl err, tr1) \<Rightarrow> (None, c, tr1)
      | (Inr (token, instance), tr1) \<Rightarrow>
          if truthy_opt token \<and> truthy_opt instance then
            (let url = the instance @ ''/services/data/'' @ SF_API_VERSION @ ''/limits'';
                 answer = probe_get w tr1 url (''Bearer '' @ the token);
                 tr2 = tr1 @ [ProbeGet url (''Bearer '' @ the token) answer]
             in case answer of
                  Inl err \<Rightarrow> (None, c, tr2)
                | Inr status \<Rightarrow>
                    if status = 200 then
                      (let (c', tr3) = store_token w (token, instance) c tr2
                       in (Some (token, instance), c', tr3))
                    else (None, c, tr2))
          else (None, c, tr1))"

definition no_credentials_message :: string where
  \<comment> \<open>the message of the \<^verbatim>\<open>RuntimeError\<close> raised when no mode is configured: five lines,
      joined by line feeds. The dash in the fourth line is the one character of the source
      above code point 255; it is written as the three bytes of its UTF-8 form, which makes
      335 characters of the message's 333. It is the 220th character: no slice the service
      takes of the message (100 and 200 characters) reaches it.\<close>
  "no_credentials_message =
     ''No Salesforce credentials configured. Set one of:'' @ [CHR 0x0A]
     @ ''  A) SF_ACCESS_TOKEN + SF_INSTANCE_URL (token mode)'' @ [CHR 0x0A]
     @ ''  B) REPLIT_CONNECTORS_HOSTNAME (Replit mode)'' @ [CHR 0x0A]
     @ ''  C) SF_CLIENT_ID + SF_CLIENT_SECRET + SF_REFRESH_TOKEN (refresh token ''
     @ [CHR 0xE2, CHR 0x80, CHR 0x94] @ '' recommended)'' @ [CHR 0x0A]
     @ ''  D) SF_CLIENT_ID + SF_CLIENT_SECRET + SF_USERNAME + SF_PASSWORD + SF_SECURITY_TOKEN ''
     @ ''(direct OAuth)''"

definition strategy_chain ::
  "sf_config \<Rightarrow> sf_world \<Rightarrow> token_cache \<Rightarrow> net_event list
   \<Rightarrow> (exn + creds) \<times> token_cache \<times> net_event list" where
  \<comment> \<open>the four modes, in order: what \<^verbatim>\<open>get_salesforce_credentials\<close> does once the cache
      did not answer. The last message is cut after its first sentence; the source goes on to
      list the four sets of variables.\<close>
  "strategy_chain cfg w c tr =
     (if truthy_opt (env_get cfg ''SF_ACCESS_TOKEN'')
         \<and> truthy_opt (env_get cfg ''SF_INSTANCE_URL'') then
        (let p = (env_get cfg ''SF_ACCESS_TOKEN'', env_get cfg ''SF_INSTANCE_URL'');
             (c', tr1) = store_token w p c tr
         in (Inr p, c', tr1))
      else
        (case connector_mode cfg w c tr of
           (Some p, c', tr1) \<Rightarrow> (Inr p, c', tr1)
         | (None, c', tr1) \<Rightarrow>
             if truthy_opt (env_get cfg ''SF_REFRESH_TOKEN'')
                \<and> truthy_opt (env_get cfg ''SF_CLIENT_ID'') then
               (case refresh_via_oauth cfg w tr1 of
                  (Inl err, tr2) \<Rightarrow> (Inl err, c', tr2)
                | (Inr p, tr2) \<Rightarrow>
                    (let (c'', tr3) = store_token w p c' tr2 in (Inr p, c'', tr3)))
             else if truthy_opt (env_get cfg ''SF_CLIENT_ID'')
                     \<and> truthy_opt (env_get cfg ''SF_USERNAME'') then
               (case refresh_via_password cfg w tr1 of
                  (Inl err, tr2) \<Rightarrow> (Inl err, c', tr2)
                | (Inr p, tr2) \<Rightarrow>
                    (let (c'', tr3) = store_token w p c' tr2 in (Inr p, c'', tr3)))
             else (Inl (Exn ''RuntimeError'' no_credentials_message), c', tr1)))"

definition get_salesforce_credentials ::
  "sf_config \<Rightarrow> sf_world \<Rightarrow> token_cache \<Rightarrow> net_event list
   \<Rightarrow> (exn + creds) \<times> token_cache \<times> net_event list" where
  "get_salesforce_credentials cfg w c tr =
     (if truthy_opt (cached_token c) \<and> token_fetched_at c \<noteq> None then
        (let now = read_clock w tr;
             tr1 = tr @ [ClockRead now];
             age = now - the (token_fetched_at c)
         in if age < SF_TOKEN_CACHE_TTL cfg * 1000000 then
              (Inr (cached_token c, cached_instance c), c, tr1)
            else strategy_chain cfg w c tr1)
      else strategy_chain cfg w c tr)"


definition is_network :: "net_event \<Rightarrow> bool" where
  \<comment> \<open>the events that are requests, for the statements below\<close>
  "is_network ev = (case ev of ClockRead t \<Rightarrow> False | _ \<Rightarrow> True)"

definition empty_cache :: token_cache where
  "empty_cache = \<lparr>cached_token = None, cached_instance = None, token_fetched_at = None\<rparr>"

definition oauth_config :: sf_config where
  \<comment> \<open>the refresh-token mode is configured, with the default cache lifetime\<close>
  "oauth_config =
     \<lparr>environ = [(''SF_CLIENT_ID'', ''client''), (''SF_CLIENT_SECRET'', ''secret''),
                 (''SF_REFRESH_TOKEN'', ''refresh'')],
      SF_TOKEN_CACHE_TTL = 1800\<rparr>"

definition steady_world :: "string \<Rightarrow> sf_world" where
  \<comment> \<open>the clock advances by one second at every event, the connector is not reachable, and the
      token endpoint answers 200 with the given access token\<close>
  "steady_world token =
     \<lparr>read_clock = (\<lambda>tr. 1000000 * int (length tr)),
      connector_get = (\<lambda>tr host tok. Inl (Exn ''ConnectionError'' ''unreachable'')),
      probe_get = (\<lambda>tr url auth. Inl (Exn ''ConnectionError'' ''unreachable'')),
      token_post = (\<lambda>tr url form.
         Inr \<lparr>tr_status = 200, tr_error_detail = '''', tr_access_token = Some token,
               tr_instance_url = Some ''https://sf.example''\<rparr>)\<rparr>"



section \<open>Example environments of the front end\<close>

definition no_creds_env :: env where
  \<comment> \<open>no credential strategy is configured: resolution raises, and so does every query,
      which resolves credentials first\<close>
  "no_creds_env =
     \<lparr>creds_of = (\<lambda>tr. Inl (Exn ''RuntimeError'' no_credentials_message)),
      post_of = (\<lambda>tr req. ReadTimeout),
      query_of = (\<lambda>tr soql. Inl (Exn ''RuntimeError'' no_credentials_message)),
      set_order = remdups,
      str_of = (\<lambda>v. [])\<rparr>"

definition good_payload :: payload where
  "good_payload = \<lparr>p_event = Some ''chat_analyzed'', p_data = Some (ChatObject good_chat),
     p_chat = None, p_self = ChatObject good_chat\<rparr>"

definition null_payload :: payload where
  \<comment> \<open>an analyzed-chat event whose \<^verbatim>\<open>data\<close> is \<^verbatim>\<open>null\<close>\<close>
  "null_payload = \<lparr>p_event = Some ''chat_analyzed'', p_data = Some (NotAnObject ''NoneType''),
     p_chat = None, p_self = ChatObject good_chat\<rparr>"

definition numbered_payload :: payload where
  \<comment> \<open>an analyzed-chat event whose chat carries a number as \<^verbatim>\<open>chat_id\<close>\<close>
  "numbered_payload = \<lparr>p_event = Some ''chat_analyzed'', p_data = Some (UnsliceableId ''int''),
     p_chat = None, p_self = ChatObject good_chat\<rparr>"

definition good_entry :: dl_entry where
  \<comment> \<open>the dead-letter entry of \<^const>\<open>good_chat\<close> after a creation that timed out\<close>
  "good_entry =
     \<lparr>dl_timestamp = ''2026-01-01T11:00:00+00:00'', dl_chat_id = ''chat_0001'',
      dl_contact_id = ''003000000000001AAA'', dl_job_id = ''a0F000000000009AAA'',
      dl_stage = '''', dl_tier = '''', dl_error = ''timeout after 3 attempts'',
      dl_chat_payload = good_chat\<rparr>"

definition open_app :: app_env where
  \<comment> \<open>no shared secret is set. The body \<^verbatim>\<open>B\<close> stands for the JSON text of
      \<^const>\<open>good_payload\<close>, the bodies \<^verbatim>\<open>N\<close> and \<^verbatim>\<open>I\<close> for those of \<^const>\<open>null_payload\<close> and
      \<^const>\<open>numbered_payload\<close>, and the line \<^verbatim>\<open>E\<close> for the JSON text of
      \<^const>\<open>good_entry\<close>; the body \<^verbatim>\<open>[]\<close> is a JSON list, the one byte 255 is not UTF-8, and
      every other body is not JSON. The digest is not reached.\<close>
  "open_app =
     \<lparr>retell_api_key = '''',
      hmac_sha256_hex = (\<lambda>key body. ''00''),
      parse_body = (\<lambda>body.
         if body = ''B'' then Inr (BodyObject good_payload)
         else if body = ''[]'' then Inr (BodyOther ''list'')
         else if body = ''N'' then Inr (BodyObject null_payload)
         else if body = ''I'' then Inr (BodyObject numbered_payload)
         else if body = [CHR 0xFF] then
           Inl (Exn ''UnicodeDecodeError''
                  (quoted ''utf-8'' @ '' codec can'' @ [CHR 0x27]
                   @ ''t decode byte 0xff in position 0: invalid start byte''))
         else Inl (Exn ''JSONDecodeError'' ''Expecting value: line 1 column 1 (char 0)'')),
      json_dumps = (\<lambda>entry. ''E''),
      json_loads = (\<lambda>line. if line = ''E'' then Some good_entry else None),
      send_notification = (\<lambda>tr event_type details. None)\<rparr>"

definition keyed_app :: app_env where
  \<comment> \<open>\<^const>\<open>open_app\<close> with a shared secret; \<^verbatim>\<open>5f\<close> stands for the digest of a body\<close>
  "keyed_app = open_app\<lparr>retell_api_key := ''secret'', hmac_sha256_hex := (\<lambda>key body. ''5f'')\<rparr>"

definition noon :: clock where
  "noon = \<lparr>now_iso = ''2026-01-01T12:00:00+00:00'', now_hms = ''12:00:00'',
            now_stamp = ''20260101_120000''\<rparr>"

definition fresh_state :: app_state where
  "fresh_state =
     \<lparr>stats = \<lparr>webhooks_received = 0, created = 0, duplicates = 0, skipped = 0, errors = 0,
                last_webhook = None, last_created = None, recent_events = []\<rparr>,
      store = \<lparr>live = None, archives = []\<rparr>,
      world = []\<rparr>"

definition failed_state :: app_state where
  \<comment> \<open>the store holds the one entry \<^const>\<open>good_entry\<close>\<close>
  "failed_state = fresh_state\<lparr>store := \<lparr>live = Some (''E'' @ [LF]), archives = []\<rparr>\<rparr>"

definition odd_chat :: chat where
  \<comment> \<open>\<^const>\<open>good_chat\<close> with a conversation summary that is not a string\<close>
  "odd_chat = good_chat\<lparr>chat_analysis := Some \<lparr>custom_analysis_data =
       Some [(''qualification_result'', PStr ''fully_qualified''),
             (''conversation_summary'', PBool True)],
     chat_summary = None\<rparr>\<rparr>"

definition failing_notify :: notify_fn where
  \<comment> \<open>a notification callback that cannot reach its channel\<close>
  "failing_notify = (\<lambda>tr event_type details. Some (Exn ''ConnectionError'' ''unreachable''))"

definition timeouts_then :: "nat \<Rightarrow> post_outcome \<Rightarrow> env" where
  \<comment> \<open>the credentials resolve; record creation times out while the history is shorter than
      \<open>n\<close> events and has the given outcome afterwards\<close>
  "timeouts_then n outcome =
     \<lparr>creds_of = (\<lambda>tr. Inr (''token'', ''https://sf.example'')),
      post_of = (\<lambda>tr req. if length tr < n then ReadTimeout else outcome),
      query_of = (\<lambda>tr soql. Inr []),
      set_order = remdups,
      str_of = (\<lambda>v. case v of JStr s \<Rightarrow> s | _ \<Rightarrow> [])\<rparr>"

definition creds_until :: "nat \<Rightarrow> env" where
  \<comment> \<open>record creation always times out; the credentials resolve while the history is shorter
      than \<open>n\<close> events, and the token endpoint refuses afterwards\<close>
  "creds_until n =
     \<lparr>creds_of = (\<lambda>tr. if length tr < n then Inr (''token'', ''https://sf.example'')
                       else Inl (Exn ''RuntimeError''
                                   ''Salesforce refresh token auth failed (400): expired'')),
      post_of = (\<lambda>tr req. ReadTimeout),
      query_of = (\<lambda>tr soql. Inr []),
      set_order = remdups,
      str_of = (\<lambda>v. [])\<rparr>"

definition one_query_env :: env where
  \<comment> \<open>a CRM that answers one query only, the one for the single identifier \<^verbatim>\<open>id25\<close>
      written out in full, with one applicant; every other query fails\<close>
  "one_query_env =
     \<lparr>creds_of = (\<lambda>tr. Inr (''token'', ''https://sf.example'')),
      post_of = (\<lambda>tr req. ReadTimeout),
      query_of = (\<lambda>tr soql.
         if soql = ''SELECT AVTRRT__Contact_Candidate__c, AVTRRT__Job__c ''
                   @ ''FROM AVTRRT__Job_Applicant__c ''
                   @ ''WHERE AVTRRT__Contact_Candidate__c IN ('' @ quoted ''id25'' @ '')''
         then Inr [[(''AVTRRT__Contact_Candidate__c'', ''003000000000001AAA''),
                    (''AVTRRT__Job__c'', ''a0F000000000002AAA'')]]
         else Inl (Exn ''HTTPError'' ''400 Client Error'')),
      set_order = remdups,
      str_of = (\<lambda>v. [])\<rparr>"

section \<open>Properties of the string operations\<close>

lemma py_split_nonempty: "py_split sep s \<noteq> []"
  by (subst py_split.simps) (simp split: option.splits)

lemma py_split_found:
  "sep \<noteq> [] \<Longrightarrow> py_find sep s = Some i \<Longrightarrow>
   py_split sep s = take i s # py_split sep (drop (i + length sep) s)"
  by (subst py_split.simps) simp

text \<open>
  The two subscripts in \<^const>\<open>url_segment\<close> are in range wherever the extractors use it:
  a string that contains the marker splits into at least two pieces, and every split has a
  first piece.
\<close>

lemma py_split_in_range:
  "sep \<noteq> [] \<Longrightarrow> py_in sep s \<Longrightarrow> 1 < length (py_split sep s)"
  using py_split_nonempty [of sep]
  by (auto simp: py_in_def py_split_found Suc_lessI)

text \<open>
  The segment the extractors cut from a URL is the text between the end of the marker and
  the next slash (or the end of the URL).
\<close>

lemma py_find_prefix: "py_find sub s = Some i \<Longrightarrow> py_startswith (drop i s) sub"
proof (induction s arbitrary: i)
  case Nil
  then show ?case by (simp add: py_startswith_def split: if_splits)
next
  case (Cons c cs)
  then show ?case by (auto split: if_splits)
qed

lemma py_find_char:
  "py_find [x] s = (if x \<in> set s then Some (length (takeWhile (\<lambda>c. c \<noteq> x) s)) else None)"
  by (induction s) (auto simp: py_startswith_def)

lemma hd_py_split_char: "hd (py_split [x] s) = takeWhile (\<lambda>c. c \<noteq> x) s"
proof (cases "x \<in> set s")
  case True
  have "take (length (takeWhile (\<lambda>c. c \<noteq> x) s)) s = takeWhile (\<lambda>c. c \<noteq> x) s"
    by (rule takeWhile_eq_take [symmetric])
  with True show ?thesis
    by (subst py_split.simps) (simp add: py_find_char)
next
  case False
  then have whole: "takeWhile (\<lambda>c. c \<noteq> x) s = s" by (auto simp: takeWhile_eq_all_conv)
  from False have "py_split [x] s = [s]"
    by (subst py_split.simps) (simp add: py_find_char)
  then have "hd (py_split [x] s) = s" by simp
  then show ?thesis by (simp only: whole)
qed

lemma takeWhile_stop: "\<not> P y \<Longrightarrow> takeWhile P (xs @ y # ys) = takeWhile P xs"
  by (induction xs) auto

lemma takeWhile_before_marker:
  assumes "py_find (x # m) s = Some j"
  shows "takeWhile (\<lambda>c. c \<noteq> x) (take j s) = takeWhile (\<lambda>c. c \<noteq> x) s"
proof -
  from py_find_prefix [OF assms] have "take (Suc (length m)) (drop j s) = x # m"
    by (simp add: py_startswith_def)
  then obtain rest where "drop j s = x # rest"
    by (cases "drop j s") auto
  then have "s = take j s @ x # rest"
    by (metis append_take_drop_id)
  then have "takeWhile (\<lambda>c. c \<noteq> x) s = takeWhile (\<lambda>c. c \<noteq> x) (take j s @ x # rest)"
    by simp
  also have "\<dots> = takeWhile (\<lambda>c. c \<noteq> x) (take j s)"
    by (rule takeWhile_stop) simp
  finally show ?thesis by simp
qed

lemma hd_py_split_marker:
  "takeWhile (\<lambda>c. c \<noteq> x) (hd (py_split (x # m) s)) = takeWhile (\<lambda>c. c \<noteq> x) s"
proof (cases "py_find (x # m) s")
  case None
  then show ?thesis by (subst py_split.simps) simp
next
  case (Some j)
  then show ?thesis
    by (subst py_split.simps) (simp add: takeWhile_before_marker)
qed

lemma url_segment_eq:
  assumes "py_find (CHR ''/'' # m) url = Some i"
  shows "url_segment (CHR ''/'' # m) url
     = takeWhile (\<lambda>c. c \<noteq> CHR ''/'') (drop (i + length (CHR ''/'' # m)) url)"
proof -
  have split: "py_split (CHR ''/'' # m) url
      = take i url # py_split (CHR ''/'' # m) (drop (i + length (CHR ''/'' # m)) url)"
    using assms by (subst py_split.simps) simp
  have "py_split (CHR ''/'' # m) (drop (i + length (CHR ''/'' # m)) url) \<noteq> []"
    by (subst py_split.simps) (simp split: option.splits)
  then have second: "py_split (CHR ''/'' # m) url ! 1
      = hd (py_split (CHR ''/'' # m) (drop (i + length (CHR ''/'' # m)) url))"
    unfolding split by (simp add: hd_conv_nth)
  have "py_split ''/'' (py_split (CHR ''/'' # m) url ! 1) \<noteq> []"
    by (subst py_split.simps) (simp split: option.splits)
  then have "url_segment (CHR ''/'' # m) url
      = hd (py_split ''/'' (py_split (CHR ''/'' # m) url ! 1))"
    by (simp add: url_segment_def hd_conv_nth)
  also have "\<dots> = takeWhile (\<lambda>c. c \<noteq> CHR ''/'')
      (hd (py_split (CHR ''/'' # m) (drop (i + length (CHR ''/'' # m)) url)))"
    unfolding second by (rule hd_py_split_char)
  also have "\<dots> = takeWhile (\<lambda>c. c \<noteq> CHR ''/'') (drop (i + length (CHR ''/'' # m)) url)"
    by (rule hd_py_split_marker)
  finally show ?thesis .
qed

section \<open>Classification\<close>

text \<open>
  C8. An event whose lifecycle status is the literal string \<^verbatim>\<open>ongoing\<close> is classified as
  a skip, whatever its analysis block holds (qualification result, interest level, opt-out
  flag). Unless the agent is one of the skipped agents, which is decided first, the reason is
  \<^verbatim>\<open>chat still ongoing\<close>.
\<close>

theorem classify_chat_ongoing:
  "chat_status c = Some ''ongoing'' \<Longrightarrow>
     fst (classify_chat c) = ''skip'' \<and>
     (get_str (agent_name c) '''' \<notin> SKIP_AGENTS \<longrightarrow>
        classify_chat c = (''skip'', ''chat still ongoing''))"
  by (simp add: classify_chat_def get_str_def Let_def)

theorem classify_chat_ongoing_witness:
  "chat_status \<lparr>chat_id = Some ''c1'', agent_name = Some ''Violet'',
       chat_status = Some ''ongoing'',
       chat_analysis = Some \<lparr>custom_analysis_data =
           Some [(''qualification_result'', PStr ''fully_qualified''),
                 (''interest_level'', PStr ''very_interested''), (''opted_out'', PBool False)],
         chat_summary = None\<rparr>,
       retell_llm_dynamic_variables = None, metadata = None\<rparr> = Some ''ongoing''
   \<and> classify_chat \<lparr>chat_id = Some ''c1'', agent_name = Some ''Violet'',
       chat_status = Some ''ongoing'',
       chat_analysis = Some \<lparr>custom_analysis_data =
           Some [(''qualification_result'', PStr ''fully_qualified''),
                 (''interest_level'', PStr ''very_interested''), (''opted_out'', PBool False)],
         chat_summary = None\<rparr>,
       retell_llm_dynamic_variables = None, metadata = None\<rparr>
     = (''skip'', ''chat still ongoing'')"
  using classify_chat_ongoing [of "\<lparr>chat_id = Some ''c1'', agent_name = Some ''Violet'',
       chat_status = Some ''ongoing'',
       chat_analysis = Some \<lparr>custom_analysis_data =
           Some [(''qualification_result'', PStr ''fully_qualified''),
                 (''interest_level'', PStr ''very_interested''), (''opted_out'', PBool False)],
         chat_summary = None\<rparr>,
       retell_llm_dynamic_variables = None, metadata = None\<rparr>"]
  by (simp add: get_str_def SKIP_AGENTS_def)

section \<open>Identifier extraction\<close>

lemma extract_contact_id_valid:
  "extract_contact_id c = '''' \<or> valid_contact_id (extract_contact_id c)"
  by (simp add: extract_contact_id_def Let_def)

lemma extract_job_id_unvalidated:
  "extract_job_id
     (dv_chat [(''job_salesforce_url'', ''https://sf.example/AVTRRT__Job__c/zzz/view'')])
   = ''zzz''"
  by code_simp

lemma extract_job_id_url_wins:
  "extract_job_id (dv_chat [(''job_ID_18'', ''a0F000000000001AAA''),
      (''job_salesforce_url'', ''https://sf.example/AVTRRT__Job__c/a0F000000000002AAA/view'')])
   = ''a0F000000000002AAA''"
  by code_simp

text \<open>
  C10. \<^const>\<open>extract_contact_id\<close> returns the empty string or a string that starts with
  \<^verbatim>\<open>003\<close> and has at least 15 characters; when the dynamic variables have no
  \<^verbatim>\<open>candidate_id\<close>, the direct lookup takes the metadata block's \<^verbatim>\<open>candidate_id\<close>.
  \<^const>\<open>extract_job_id\<close> gives no such guarantee: some chat yields a non-empty job
  identifier from the URL that neither starts with \<^verbatim>\<open>a0F\<close> nor has 15 characters.
\<close>

theorem extract_contact_id_shape:
  "(extract_contact_id c = '''' \<or>
      (py_startswith (extract_contact_id c) ''003'' \<and> 15 \<le> length (extract_contact_id c)))
   \<and> (map_of (or_empty (retell_llm_dynamic_variables c)) ''candidate_id'' = None \<longrightarrow>
        map_of (or_empty (metadata c)) ''candidate_id'' = Some m \<longrightarrow>
        py_startswith m ''003'' \<longrightarrow> 15 \<le> length m \<longrightarrow> extract_contact_id c = m)
   \<and> (\<exists>c'. extract_job_id c' \<noteq> '''' \<and> \<not> py_startswith (extract_job_id c') ''a0F''
             \<and> length (extract_job_id c') < 15)"
proof (intro conjI)
  show "extract_contact_id c = '''' \<or>
      (py_startswith (extract_contact_id c) ''003'' \<and> 15 \<le> length (extract_contact_id c))"
    using extract_contact_id_valid [of c] by (simp add: valid_contact_id_def)
next
  show "map_of (or_empty (retell_llm_dynamic_variables c)) ''candidate_id'' = None \<longrightarrow>
        map_of (or_empty (metadata c)) ''candidate_id'' = Some m \<longrightarrow>
        py_startswith m ''003'' \<longrightarrow> 15 \<le> length m \<longrightarrow> extract_contact_id c = m"
    by (auto simp: extract_contact_id_def Let_def dict_get_def valid_contact_id_def)
next
  have "\<not> py_startswith ''zzz'' ''a0F''"
    by (simp add: py_startswith_def)
  then show "\<exists>c'. extract_job_id c' \<noteq> '''' \<and> \<not> py_startswith (extract_job_id c') ''a0F''
             \<and> length (extract_job_id c') < 15"
    using extract_job_id_unvalidated
    by (intro exI [of _ "dv_chat
          [(''job_salesforce_url'', ''https://sf.example/AVTRRT__Job__c/zzz/view'')]"]) simp
qed

theorem extract_contact_id_shape_witness:
  "map_of (or_empty (retell_llm_dynamic_variables meta_chat)) ''candidate_id'' = None
   \<and> map_of (or_empty (metadata meta_chat)) ''candidate_id'' = Some ''003000000000001AAA''
   \<and> py_startswith ''003000000000001AAA'' ''003'' \<and> 15 \<le> length ''003000000000001AAA''
   \<and> extract_contact_id meta_chat = ''003000000000001AAA''"
  using extract_contact_id_shape [of meta_chat "''003000000000001AAA''"]
  by (simp add: meta_chat_def or_empty_def py_startswith_def)

text \<open>
  C3, as stated, fails for \<^const>\<open>extract_job_id\<close>: the URL is consulted before the direct
  field, and the segment cut from the URL is returned without any check of its prefix.
\<close>

theorem extract_job_id_counterexample:
  "extract_job_id
     (dv_chat [(''job_salesforce_url'', ''https://sf.example/AVTRRT__Job__c/zzz/view'')])
     = ''zzz''
   \<and> \<not> py_startswith ''zzz'' ''a0F''
   \<and> job_direct (dv_chat [(''job_ID_18'', ''a0F000000000001AAA''),
        (''job_salesforce_url'', ''https://sf.example/AVTRRT__Job__c/a0F000000000002AAA/view'')])
     = ''a0F000000000001AAA''
   \<and> extract_job_id (dv_chat [(''job_ID_18'', ''a0F000000000001AAA''),
        (''job_salesforce_url'', ''https://sf.example/AVTRRT__Job__c/a0F000000000002AAA/view'')])
     = ''a0F000000000002AAA''"
  using extract_job_id_unvalidated extract_job_id_url_wins
  by (simp add: py_startswith_def job_direct_def dv_chat_def or_empty_def dict_get_def)

text \<open>
  C3, amended. \<^const>\<open>extract_contact_id\<close> tries the direct field first (the dynamic
  variable \<^verbatim>\<open>candidate_id\<close>, else the metadata's) and the deep-link URL second, and returns
  the empty string unless the value it obtained starts with \<^verbatim>\<open>003\<close> and has at least 15
  characters. \<^const>\<open>extract_job_id\<close> tries the deep-link URL first and the direct field
  second: when the URL contains the marker \<^verbatim>\<open>/AVTRRT__Job__c/\<close> and the path segment that
  follows it starts with \<^verbatim>\<open>a0F\<close>, the result is that segment, whatever the direct field
  holds; when the URL does not contain the marker, the result is the direct field
  \<^verbatim>\<open>job_ID_18\<close> when that starts with \<^verbatim>\<open>a0F\<close>, and the empty string when it does not.
  A URL whose segment does not start with \<^verbatim>\<open>a0F\<close> is no part of the statement: that
  segment is the one value the two extractors return unchecked (lemma
  \<open>extract_job_id_unvalidated\<close>).
\<close>

theorem extractors_order_and_pattern:
  "(contact_direct c \<noteq> '''' \<and> valid_contact_id (contact_direct c) \<longrightarrow>
      extract_contact_id c = contact_direct c)
   \<and> (\<not> (contact_direct c \<noteq> '''' \<and> valid_contact_id (contact_direct c)) \<longrightarrow>
      extract_contact_id c =
        (if contact_url c \<noteq> '''' \<and> py_in ''/Contact/'' (contact_url c)
            \<and> valid_contact_id (url_segment ''/Contact/'' (contact_url c))
         then url_segment ''/Contact/'' (contact_url c) else ''''))
   \<and> (extract_contact_id c = '''' \<or> valid_contact_id (extract_contact_id c))
   \<and> (job_url c \<noteq> '''' \<and> py_in ''/AVTRRT__Job__c/'' (job_url c)
      \<and> py_startswith (url_segment ''/AVTRRT__Job__c/'' (job_url c)) ''a0F'' \<longrightarrow>
      extract_job_id c = url_segment ''/AVTRRT__Job__c/'' (job_url c))
   \<and> (\<not> (job_url c \<noteq> '''' \<and> py_in ''/AVTRRT__Job__c/'' (job_url c)) \<longrightarrow>
      extract_job_id c =
        (if job_direct c \<noteq> '''' \<and> py_startswith (job_direct c) ''a0F''
         then job_direct c else ''''))
   \<and> (py_find (CHR ''/'' # marker) url = Some i \<longrightarrow>
      url_segment (CHR ''/'' # marker) url
        = takeWhile (\<lambda>ch. ch \<noteq> CHR ''/'') (drop (i + length (CHR ''/'' # marker)) url))"
proof -
  have "py_find (CHR ''/'' # marker) url = Some i \<longrightarrow>
      url_segment (CHR ''/'' # marker) url
        = takeWhile (\<lambda>ch. ch \<noteq> CHR ''/'') (drop (i + length (CHR ''/'' # marker)) url)"
    using url_segment_eq [of marker url i] by blast
  then show ?thesis
    by (simp add: extract_contact_id_def extract_job_id_def contact_direct_def contact_url_def
        job_direct_def job_url_def Let_def)
qed

theorem extractors_order_and_pattern_witness:
  "contact_direct both_chat \<noteq> '''' \<and> valid_contact_id (contact_direct both_chat)
   \<and> extract_contact_id both_chat = ''003000000000001AAA''
   \<and> job_url both_chat \<noteq> '''' \<and> py_in ''/AVTRRT__Job__c/'' (job_url both_chat)
   \<and> py_startswith (url_segment ''/AVTRRT__Job__c/'' (job_url both_chat)) ''a0F''
   \<and> job_direct both_chat = ''a0F000000000001AAA''
   \<and> extract_job_id both_chat = ''a0F000000000002AAA''
   \<and> py_find ''/AVTRRT__Job__c/'' (job_url both_chat) = Some 30
   \<and> url_segment ''/AVTRRT__Job__c/'' (job_url both_chat)
       = takeWhile (\<lambda>ch. ch \<noteq> CHR ''/'') (drop 46 (job_url both_chat))
   \<and> \<not> (contact_direct (dv_chat [(''job_ID_18'', ''a0F000000000001AAA'')]) \<noteq> '''')
   \<and> extract_contact_id (dv_chat [(''job_ID_18'', ''a0F000000000001AAA'')]) = ''''
   \<and> \<not> (job_url (dv_chat [(''job_ID_18'', ''a0F000000000001AAA'')]) \<noteq> '''')
   \<and> extract_job_id (dv_chat [(''job_ID_18'', ''a0F000000000001AAA'')])
       = ''a0F000000000001AAA''"
proof -
  let ?direct = "dv_chat [(''job_ID_18'', ''a0F000000000001AAA'')]"
  have d: "contact_direct both_chat = ''003000000000001AAA''"
    by (simp add: both_chat_def contact_direct_def or_empty_def dict_get_def)
  have v: "valid_contact_id ''003000000000001AAA''"
    by (simp add: valid_contact_id_def py_startswith_def)
  have u: "job_url both_chat
      = ''https://sf.example/lightning/r/AVTRRT__Job__c/a0F000000000002AAA/view''"
    by (simp add: both_chat_def job_url_def or_empty_def dict_get_def)
  have f: "py_find ''/AVTRRT__Job__c/''
      ''https://sf.example/lightning/r/AVTRRT__Job__c/a0F000000000002AAA/view'' = Some 30"
    by code_simp
  then have i: "py_in ''/AVTRRT__Job__c/''
      ''https://sf.example/lightning/r/AVTRRT__Job__c/a0F000000000002AAA/view''"
    by (simp add: py_in_def)
  have s: "url_segment ''/AVTRRT__Job__c/''
      ''https://sf.example/lightning/r/AVTRRT__Job__c/a0F000000000002AAA/view''
      = ''a0F000000000002AAA''"
    by code_simp
  have p: "py_startswith ''a0F000000000002AAA'' ''a0F''"
    by (simp add: py_startswith_def)
  have jd: "job_direct both_chat = ''a0F000000000001AAA''"
    by (simp add: both_chat_def job_direct_def or_empty_def dict_get_def)
  have n1: "contact_direct ?direct = ''''" "contact_url ?direct = ''''"
    "job_url ?direct = ''''" "job_direct ?direct = ''a0F000000000001AAA''"
    by (simp_all add: dv_chat_def contact_direct_def contact_url_def job_url_def
        job_direct_def or_empty_def dict_get_def)
  have n2: "py_startswith ''a0F000000000001AAA'' ''a0F''"
    by (simp add: py_startswith_def)
  note both = extractors_order_and_pattern [where c = both_chat
      and marker = "''AVTRRT__Job__c/''" and url = "job_url both_chat" and i = 30]
  note direct = extractors_order_and_pattern [where c = ?direct
      and marker = "''AVTRRT__Job__c/''" and url = "job_url both_chat" and i = 30]
  from both have seg: "url_segment ''/AVTRRT__Job__c/'' (job_url both_chat)
       = takeWhile (\<lambda>ch. ch \<noteq> CHR ''/'') (drop 46 (job_url both_chat))"
    using f by (simp add: u)
  from both have b: "extract_contact_id both_chat = ''003000000000001AAA''"
      "extract_job_id both_chat = ''a0F000000000002AAA''"
    by (simp_all add: d v u i s p)
  from direct have e: "extract_contact_id ?direct = ''''"
      "extract_job_id ?direct = ''a0F000000000001AAA''"
    by (simp_all add: n1 n2)
  from d v u i f seg b n1 e p jd s show ?thesis by simp
qed

section \<open>The dead-letter store\<close>

lemma read_all_foldl:
  "foldl (\<lambda>entries line.
            let line = py_strip line in
            if line \<noteq> [] then
              (case loads line of Some e \<Rightarrow> entries @ [e] | None \<Rightarrow> entries)
            else entries) acc ls
   = acc @ List.map_filter loads (filter (\<lambda>l. l \<noteq> []) (map py_strip ls))"
  by (induction ls arbitrary: acc) (auto simp: Let_def split: option.splits)

lemma count_foldl:
  "foldl (\<lambda>n line. if py_strip line \<noteq> [] then n + 1 else n) k ls
   = k + length (filter (\<lambda>l. l \<noteq> []) (map py_strip ls))"
  by (induction ls arbitrary: k) auto

lemma read_all_eq: "read_all loads st = List.map_filter loads (nonblank_lines st)"
  by (simp add: read_all_def nonblank_lines_def read_all_foldl split: option.splits)

lemma count_eq: "count st = length (nonblank_lines st)"
  by (simp add: count_def count_nonblank_def nonblank_lines_def count_foldl
      split: option.splits)

lemma length_map_filter:
  "length xs = length (List.map_filter f xs) + length (filter (\<lambda>x. f x = None) xs)"
  by (induction xs) (auto split: option.splits)

text \<open>
  C4, as stated, fails: \<^const>\<open>count\<close> counts the lines that are not blank and never parses
  them. On a store whose second line is the torn text \<^verbatim>\<open>{\<close>, it returns 2 while
  \<^const>\<open>read_all\<close> returns one entry.
\<close>

theorem count_counterexample:
  "count torn_store = 2 \<and> read_all loads_example torn_store = [()]
   \<and> count torn_store \<noteq> length (read_all loads_example torn_store)"
  by code_simp

text \<open>
  C4, amended. \<^const>\<open>count\<close> returns the number of lines of the store that are not blank
  after stripping: the number of entries \<^const>\<open>read_all\<close> returns plus the number of
  non-blank lines that do not parse. So it is never below the length of \<^const>\<open>read_all\<close>,
  and equal to it exactly when no non-blank line is malformed. A store that does not exist
  gives 0 and the empty list.
\<close>

theorem count_counts_nonblank_lines:
  "count st = length (read_all loads st)
              + length (filter (\<lambda>l. loads l = None) (nonblank_lines st))
   \<and> length (read_all loads st) \<le> count st
   \<and> (count st = length (read_all loads st))
      = (filter (\<lambda>l. loads l = None) (nonblank_lines st) = [])"
  using length_map_filter [of "nonblank_lines st" loads]
  by (simp add: read_all_eq count_eq)

section \<open>Deduplication\<close>

lemma batches_Nil: "batches [] = []"
  by (simp add: batches_def py_range_step_def)

lemma upt_shift: "[0 ..< Suc m] = 0 # map Suc [0 ..< m]"
  by (simp add: upt_conv_Cons map_Suc_upt del: upt_Suc)

lemma batches_rec:
  assumes "xs \<noteq> []"
  shows "batches xs = take 25 xs # batches (drop 25 xs)"
proof -
  have pos: "0 < length xs" using assms by simp
  then have "0 < (length xs + 24) div 25" by arith
  then obtain m where m: "(length xs + 24) div 25 = Suc m"
    by (cases "(length xs + 24) div 25") auto
  have m': "(length xs - 25 + 24) div 25 = m"
    using m pos by arith
  show ?thesis
    using m m'
    by (simp add: batches_def py_range_step_def upt_shift comp_def add.commute del: upt_Suc)
qed

lemma concat_batches: "concat (batches xs) = xs"
proof (induction "length xs" arbitrary: xs rule: less_induct)
  case less
  show ?case
  proof (cases "xs = []")
    case True
    then show ?thesis by (simp add: batches_Nil)
  next
    case False
    then have "length (drop 25 xs) < length xs" by simp
    then have "concat (batches (drop 25 xs)) = drop 25 xs" by (rule less)
    with False show ?thesis by (simp add: batches_rec)
  qed
qed

lemma batches_sizes: "b \<in> set (batches xs) \<Longrightarrow> b \<noteq> [] \<and> length b \<le> 25"
proof (induction "length xs" arbitrary: xs rule: less_induct)
  case less
  show ?case
  proof (cases "xs = []")
    case True
    with less.prems show ?thesis by (simp add: batches_Nil)
  next
    case False
    then have shorter: "length (drop 25 xs) < length xs" by simp
    from False less.prems have "b = take 25 xs \<or> b \<in> set (batches (drop 25 xs))"
      by (simp add: batches_rec)
    then show ?thesis
    proof
      assume "b = take 25 xs"
      with False show ?thesis by simp
    next
      assume "b \<in> set (batches (drop 25 xs))"
      with shorter show ?thesis by (rule less.hyps)
    qed
  qed
qed

lemma add_pairs_eq:
  "add_pairs records existing = existing \<union> pairs_found (QueryCall soql (Inr records))"
proof (induction records arbitrary: existing)
  case Nil
  show ?case by (simp add: add_pairs_def)
next
  case (Cons r rs)
  have step: "add_pairs (r # rs) existing =
      add_pairs rs (let cc = dict_get r ''AVTRRT__Contact_Candidate__c'' '''';
                        jj = dict_get r ''AVTRRT__Job__c'' ''''
                    in if cc \<noteq> [] \<and> jj \<noteq> [] then insert (take 15 cc, take 15 jj) existing
                       else existing)"
    by (simp add: add_pairs_def)
  show ?case
    unfolding step Cons.IH by (auto simp: Let_def)
qed

lemma check_batches_eq:
  "check_batches e bs existing tr =
     (existing \<union> \<Union> (pairs_found ` set (run_queries e tr (map batch_soql bs))),
      tr @ run_queries e tr (map batch_soql bs))"
proof (induction bs arbitrary: existing tr)
  case Nil
  show ?case by simp
next
  case (Cons b bs)
  show ?case
  proof (cases "query_of e tr (batch_soql b)")
    case (Inl err)
    then show ?thesis by (simp add: Let_def Cons.IH)
  next
    case (Inr records)
    then show ?thesis
      by (simp add: Let_def Cons.IH add_pairs_eq [of _ _ "batch_soql b"] Un_assoc)
  qed
qed

lemma length_run_queries: "length (run_queries e tr soqls) = length soqls"
  by (induction soqls arbitrary: tr) simp_all

lemma run_queries_nth:
  "i < length soqls \<Longrightarrow> \<exists>answer. run_queries e tr soqls ! i = QueryCall (soqls ! i) answer"
proof (induction soqls arbitrary: tr i)
  case Nil
  then show ?case by simp
next
  case (Cons s ss)
  then show ?case by (cases i) simp_all
qed

lemma py_join_quoted:
  "b \<noteq> [] \<Longrightarrow>
   [CHR 0x27] @ py_join ([CHR 0x27] @ '','' @ [CHR 0x27]) b @ [CHR 0x27]
     = py_join '','' (map quoted b)"
  unfolding quoted_def
proof (induction b)
  case Nil
  then show ?case by simp
next
  case (Cons x xs)
  show ?case
  proof (cases xs)
    case Nil
    then show ?thesis by simp
  next
    case (Cons y ys)
    with Cons.IH show ?thesis by simp
  qed
qed

lemma batch_soql_text:
  "b \<noteq> [] \<Longrightarrow>
   batch_soql b =
     ''SELECT AVTRRT__Contact_Candidate__c, AVTRRT__Job__c FROM AVTRRT__Job_Applicant__c ''
     @ ''WHERE AVTRRT__Contact_Candidate__c IN ('' @ py_join '','' (map quoted b) @ '')''"
  using py_join_quoted [of b] by (simp add: batch_soql_def)

text \<open>
  C6. \<^const>\<open>check_existing_applicants\<close> works on the identifiers once each, cuts them into
  consecutive batches of 1 to 25 identifiers, and issues one query per batch, in order: the
  query of a batch selects the person and the job of the applicants whose person is
  \<^verbatim>\<open>IN\<close> the list of the batch's identifiers, each between single quotes, separated by
  commas. The set it returns is the union of the normalized pairs (the first 15 characters
  of each identifier) in the answers; a query that raised contributes no pair, the later
  batches are queried all the same, and the function returns a set in every case: no
  exception leaves it.
\<close>

theorem check_existing_applicants_batches:
  assumes "is_set_order e"
  shows "distinct (set_order e contact_ids) \<and> set (set_order e contact_ids) = set contact_ids
    \<and> concat (batches (set_order e contact_ids)) = set_order e contact_ids
    \<and> (\<forall>b \<in> set (batches (set_order e contact_ids)). b \<noteq> [] \<and> length b \<le> 25)
    \<and> check_existing_applicants e contact_ids tr =
        (\<Union> (pairs_found ` set (run_queries e tr (map batch_soql (batches (set_order e contact_ids))))),
         tr @ run_queries e tr (map batch_soql (batches (set_order e contact_ids))))
    \<and> length (run_queries e tr (map batch_soql (batches (set_order e contact_ids))))
        = length (batches (set_order e contact_ids))
    \<and> (\<forall>i < length (batches (set_order e contact_ids)). \<exists>answer.
          run_queries e tr (map batch_soql (batches (set_order e contact_ids))) ! i
            = QueryCall (batch_soql (batches (set_order e contact_ids) ! i)) answer)
    \<and> (\<forall>soql err. pairs_found (QueryCall soql (Inl err)) = {})
    \<and> (\<forall>b \<in> set (batches (set_order e contact_ids)).
          batch_soql b =
            ''SELECT AVTRRT__Contact_Candidate__c, AVTRRT__Job__c ''
            @ ''FROM AVTRRT__Job_Applicant__c ''
            @ ''WHERE AVTRRT__Contact_Candidate__c IN ('' @ py_join '','' (map quoted b) @ '')'')"
proof (intro conjI)
  show "distinct (set_order e contact_ids)" "set (set_order e contact_ids) = set contact_ids"
    using assms by (simp_all add: is_set_order_def)
  show "concat (batches (set_order e contact_ids)) = set_order e contact_ids"
    by (rule concat_batches)
  show "\<forall>b \<in> set (batches (set_order e contact_ids)). b \<noteq> [] \<and> length b \<le> 25"
    using batches_sizes by blast
  show "check_existing_applicants e contact_ids tr =
        (\<Union> (pairs_found ` set (run_queries e tr (map batch_soql (batches (set_order e contact_ids))))),
         tr @ run_queries e tr (map batch_soql (batches (set_order e contact_ids))))"
    by (simp add: check_existing_applicants_def check_batches_eq Let_def)
  show "length (run_queries e tr (map batch_soql (batches (set_order e contact_ids))))
        = length (batches (set_order e contact_ids))"
    by (simp add: length_run_queries)
  show "\<forall>i < length (batches (set_order e contact_ids)). \<exists>answer.
          run_queries e tr (map batch_soql (batches (set_order e contact_ids))) ! i
            = QueryCall (batch_soql (batches (set_order e contact_ids) ! i)) answer"
    using run_queries_nth [of _ "map batch_soql (batches (set_order e contact_ids))" e tr]
    by simp
  show "\<forall>soql err. pairs_found (QueryCall soql (Inl err)) = {}"
    by simp
  show "\<forall>b \<in> set (batches (set_order e contact_ids)).
          batch_soql b =
            ''SELECT AVTRRT__Contact_Candidate__c, AVTRRT__Job__c ''
            @ ''FROM AVTRRT__Job_Applicant__c ''
            @ ''WHERE AVTRRT__Contact_Candidate__c IN ('' @ py_join '','' (map quoted b) @ '')''"
  proof
    fix b assume "b \<in> set (batches (set_order e contact_ids))"
    then have "b \<noteq> []" using batches_sizes by blast
    then show "batch_soql b =
            ''SELECT AVTRRT__Contact_Candidate__c, AVTRRT__Job__c ''
            @ ''FROM AVTRRT__Job_Applicant__c ''
            @ ''WHERE AVTRRT__Contact_Candidate__c IN ('' @ py_join '','' (map quoted b) @ '')''"
      using batch_soql_text [of b] by simp
  qed
qed

theorem check_existing_applicants_batches_witness:
  "is_set_order one_query_env
   \<and> map length (batches (set_order one_query_env many_ids)) = [25, 1]
   \<and> [''id25''] \<in> set (batches (set_order one_query_env many_ids))
   \<and> batch_soql [''id25''] =
       ''SELECT AVTRRT__Contact_Candidate__c, AVTRRT__Job__c FROM AVTRRT__Job_Applicant__c ''
       @ ''WHERE AVTRRT__Contact_Candidate__c IN ('' @ [CHR 0x27] @ ''id25'' @ [CHR 0x27] @ '')''
   \<and> batch_soql [''id7'', ''id8''] =
       ''SELECT AVTRRT__Contact_Candidate__c, AVTRRT__Job__c FROM AVTRRT__Job_Applicant__c ''
       @ ''WHERE AVTRRT__Contact_Candidate__c IN ('' @ [CHR 0x27] @ ''id7'' @ [CHR 0x27] @ '',''
       @ [CHR 0x27] @ ''id8'' @ [CHR 0x27] @ '')''
   \<and> fst (check_existing_applicants one_query_env many_ids [])
       = {(''003000000000001'', ''a0F000000000002'')}
   \<and> snd (check_existing_applicants one_query_env many_ids []) =
       [QueryCall (batch_soql (map (\<lambda>n. ''id'' @ show_nat n) [0 ..< 25]))
          (Inl (Exn ''HTTPError'' ''400 Client Error'')),
        QueryCall (batch_soql [''id25''])
          (Inr [[(''AVTRRT__Contact_Candidate__c'', ''003000000000001AAA''),
                 (''AVTRRT__Job__c'', ''a0F000000000002AAA'')]])]"
proof -
  have ordered: "is_set_order one_query_env"
    by (simp add: is_set_order_def one_query_env_def)
  have sizes: "map length (batches (set_order one_query_env many_ids)) = [25, 1]"
    by code_simp
  have last_batch: "[''id25''] \<in> set (batches (set_order one_query_env many_ids))"
    by code_simp
  have found: "\<Union> (pairs_found ` set (run_queries one_query_env []
      (map batch_soql (batches (set_order one_query_env many_ids)))))
      = {(''003000000000001'', ''a0F000000000002'')}"
    by code_simp
  have issued: "run_queries one_query_env []
      (map batch_soql (batches (set_order one_query_env many_ids))) =
       [QueryCall (batch_soql (map (\<lambda>n. ''id'' @ show_nat n) [0 ..< 25]))
          (Inl (Exn ''HTTPError'' ''400 Client Error'')),
        QueryCall (batch_soql [''id25''])
          (Inr [[(''AVTRRT__Contact_Candidate__c'', ''003000000000001AAA''),
                 (''AVTRRT__Job__c'', ''a0F000000000002AAA'')]])]"
    by code_simp
  note facts = check_existing_applicants_batches [OF ordered, of many_ids "[]"]
  from facts have run: "check_existing_applicants one_query_env many_ids [] =
      (\<Union> (pairs_found ` set (run_queries one_query_env []
          (map batch_soql (batches (set_order one_query_env many_ids))))),
       [] @ run_queries one_query_env []
          (map batch_soql (batches (set_order one_query_env many_ids))))"
    by blast
  from facts last_batch have "batch_soql [''id25''] =
       ''SELECT AVTRRT__Contact_Candidate__c, AVTRRT__Job__c ''
       @ ''FROM AVTRRT__Job_Applicant__c ''
       @ ''WHERE AVTRRT__Contact_Candidate__c IN ('' @ py_join '','' (map quoted [''id25''])
       @ '')''"
    by blast
  then have one: "batch_soql [''id25''] =
       ''SELECT AVTRRT__Contact_Candidate__c, AVTRRT__Job__c FROM AVTRRT__Job_Applicant__c ''
       @ ''WHERE AVTRRT__Contact_Candidate__c IN ('' @ [CHR 0x27] @ ''id25'' @ [CHR 0x27] @ '')''"
    by (simp add: quoted_def)
  have two: "batch_soql [''id7'', ''id8''] =
       ''SELECT AVTRRT__Contact_Candidate__c, AVTRRT__Job__c FROM AVTRRT__Job_Applicant__c ''
       @ ''WHERE AVTRRT__Contact_Candidate__c IN ('' @ [CHR 0x27] @ ''id7'' @ [CHR 0x27] @ '',''
       @ [CHR 0x27] @ ''id8'' @ [CHR 0x27] @ '')''"
    by code_simp
  have res: "fst (check_existing_applicants one_query_env many_ids [])
       = {(''003000000000001'', ''a0F000000000002'')}"
    unfolding run using found by simp
  have hist: "snd (check_existing_applicants one_query_env many_ids []) =
       [QueryCall (batch_soql (map (\<lambda>n. ''id'' @ show_nat n) [0 ..< 25]))
          (Inl (Exn ''HTTPError'' ''400 Client Error'')),
        QueryCall (batch_soql [''id25''])
          (Inr [[(''AVTRRT__Contact_Candidate__c'', ''003000000000001AAA''),
                 (''AVTRRT__Job__c'', ''a0F000000000002AAA'')]])]"
    unfolding run using issued by simp
  show ?thesis
    by (intro conjI ordered sizes last_batch one two res hist)
qed

section \<open>Record creation\<close>

lemma post_loop_last:
  "post_loop e r as tok url tr = (res, tr') \<Longrightarrow>
   \<exists>new. tr' = tr @ new \<and> (as \<noteq> [] \<longrightarrow> new \<noteq> [])
      \<and> (new \<noteq> [] \<longrightarrow> last new = PostCall req (Responded resp) \<longrightarrow> res = Inr (Broke resp))"
proof (induction as arbitrary: tok url tr)
  case Nil
  then show ?case by simp
next
  case (Cons a as)
  let ?req = "mk_request r tok url"
  let ?tr1 = "tr @ [PostCall ?req (post_of e tr ?req)]"
  show ?case
  proof (cases "post_of e tr ?req")
    case (Responded resp')
    with Cons.prems show ?thesis by (auto simp: Let_def)
  next
    case (PostRaised err)
    with Cons.prems show ?thesis by (auto simp: Let_def)
  next
    case ReadTimeout
    show ?thesis
    proof (cases "a < 2")
      case False
      with ReadTimeout Cons.prems show ?thesis by (auto simp: Let_def)
    next
      case True
      show ?thesis
      proof (cases "creds_of e ?tr1")
        case (Inl err)
        with True ReadTimeout Cons.prems show ?thesis
          by (auto simp: Let_def creds_call_def)
      next
        case (Inr p)
        obtain tok' url' where p: "p = (tok', url')" by (cases p)
        let ?tr3 = "?tr1 @ [CredsCall (Inr (tok', url')), Sleep 2]"
        from True ReadTimeout Inr p Cons.prems
        have rec: "post_loop e r as tok' url' ?tr3 = (res, tr')"
          by (simp add: Let_def creds_call_def)
        from Cons.IH [OF rec] obtain new where
          new: "tr' = ?tr3 @ new"
            "new \<noteq> [] \<longrightarrow> last new = PostCall req (Responded resp) \<longrightarrow> res = Inr (Broke resp)"
          by blast
        show ?thesis
        proof (intro exI conjI)
          show "tr' = tr @ ([PostCall ?req (post_of e tr ?req), CredsCall (Inr (tok', url')), Sleep 2] @ new)"
            using new(1) by simp
          show "a # as \<noteq> [] \<longrightarrow>
            [PostCall ?req (post_of e tr ?req), CredsCall (Inr (tok', url')), Sleep 2] @ new \<noteq> []"
            by simp
          show "[PostCall ?req (post_of e tr ?req), CredsCall (Inr (tok', url')), Sleep 2] @ new \<noteq> [] \<longrightarrow>
            last ([PostCall ?req (post_of e tr ?req), CredsCall (Inr (tok', url')), Sleep 2] @ new)
              = PostCall req (Responded resp) \<longrightarrow> res = Inr (Broke resp)"
            using new(2) by (cases "new = []") simp_all
        qed
      qed
    qed
  qed
qed

lemma create_uses_response:
  assumes "create_job_applicant e r tr = (res, tr')"
    and "tr' \<noteq> []" and "last tr' = PostCall req (Responded resp)"
  shows "res = handle_response e resp"
proof (cases "creds_of e tr")
  case (Inl err)
  with assms show ?thesis
    by (auto simp: create_job_applicant_def creds_call_def)
next
  case (Inr p)
  obtain tok url where p: "p = (tok, url)" by (cases p)
  let ?tr1 = "tr @ [CredsCall (Inr (tok, url))]"
  obtain lres ltr where loop: "post_loop e r [0, 1, 2] tok url ?tr1 = (lres, ltr)"
    by (cases "post_loop e r [0, 1, 2] tok url ?tr1")
  from post_loop_last [OF loop, of req resp] obtain new where
    new: "ltr = ?tr1 @ new" "new \<noteq> []"
      "last new = PostCall req (Responded resp) \<longrightarrow> lres = Inr (Broke resp)"
    by auto
  have tr': "tr' = ltr"
    using assms(1) Inr p loop
    by (auto simp: create_job_applicant_def creds_call_def
        split: sum.splits loop_exit.splits)
  with new assms(3) have "lres = Inr (Broke resp)" by simp
  with assms(1) Inr p loop show ?thesis
    by (simp add: create_job_applicant_def creds_call_def)
qed

lemma post_loop_raises:
  "post_loop e r as tok url tr = (res, tr') \<Longrightarrow>
   \<exists>new. tr' = tr @ new
      \<and> (\<forall>err. CredsCall (Inl err) \<in> set new \<longrightarrow> res = Inl err)
      \<and> (\<forall>req err. PostCall req (PostRaised err) \<in> set new \<longrightarrow> res = Inl err)"
proof (induction as arbitrary: tok url tr)
  case Nil
  then show ?case by simp
next
  case (Cons a as)
  let ?req = "mk_request r tok url"
  let ?tr1 = "tr @ [PostCall ?req (post_of e tr ?req)]"
  show ?case
  proof (cases "post_of e tr ?req")
    case (Responded resp')
    with Cons.prems show ?thesis by (auto simp: Let_def)
  next
    case (PostRaised err)
    with Cons.prems show ?thesis by (auto simp: Let_def)
  next
    case ReadTimeout
    show ?thesis
    proof (cases "a < 2")
      case False
      with ReadTimeout Cons.prems show ?thesis by (auto simp: Let_def)
    next
      case True
      show ?thesis
      proof (cases "creds_of e ?tr1")
        case (Inl err)
        with True ReadTimeout Cons.prems show ?thesis
          by (auto simp: Let_def creds_call_def)
      next
        case (Inr p)
        obtain tok' url' where p: "p = (tok', url')" by (cases p)
        let ?tr3 = "?tr1 @ [CredsCall (Inr (tok', url')), Sleep 2]"
        from True ReadTimeout Inr p Cons.prems
        have rec: "post_loop e r as tok' url' ?tr3 = (res, tr')"
          by (simp add: Let_def creds_call_def)
        from Cons.IH [OF rec] obtain new where
          new: "tr' = ?tr3 @ new"
            "\<forall>err. CredsCall (Inl err) \<in> set new \<longrightarrow> res = Inl err"
            "\<forall>req err. PostCall req (PostRaised err) \<in> set new \<longrightarrow> res = Inl err"
          by blast
        let ?new = "[PostCall ?req (post_of e tr ?req), CredsCall (Inr (tok', url')), Sleep 2]
                    @ new"
        have "tr' = tr @ ?new" using new(1) by simp
        moreover have "\<forall>err. CredsCall (Inl err) \<in> set ?new \<longrightarrow> res = Inl err"
          using new(2) ReadTimeout by auto
        moreover have "\<forall>req err. PostCall req (PostRaised err) \<in> set ?new \<longrightarrow> res = Inl err"
          using new(3) ReadTimeout by auto
        ultimately show ?thesis by blast
      qed
    qed
  qed
qed

lemma create_raises:
  assumes "create_job_applicant e r tr = (res, tr @ new)"
  shows "(CredsCall (Inl err) \<in> set new \<longrightarrow> res = Inl err)
     \<and> (PostCall req (PostRaised err) \<in> set new \<longrightarrow> res = Inl err)"
proof (cases "creds_of e tr")
  case (Inl err0)
  with assms show ?thesis
    by (auto simp: create_job_applicant_def creds_call_def)
next
  case (Inr p)
  obtain tok url where p: "p = (tok, url)" by (cases p)
  let ?tr1 = "tr @ [CredsCall (Inr (tok, url))]"
  obtain lres ltr where loop: "post_loop e r [0, 1, 2] tok url ?tr1 = (lres, ltr)"
    by (cases "post_loop e r [0, 1, 2] tok url ?tr1")
  from post_loop_raises [OF loop] obtain new' where
    new': "ltr = ?tr1 @ new'"
      "\<forall>err. CredsCall (Inl err) \<in> set new' \<longrightarrow> lres = Inl err"
      "\<forall>req err. PostCall req (PostRaised err) \<in> set new' \<longrightarrow> lres = Inl err"
    by blast
  have tr': "tr @ new = ltr"
    using assms Inr p loop
    by (auto simp: create_job_applicant_def creds_call_def
        split: sum.splits loop_exit.splits)
  with new'(1) have n: "new = CredsCall (Inr (tok, url)) # new'" by simp
  have raised: "lres = Inl x \<Longrightarrow> res = Inl x" for x
    using assms Inr p loop by (simp add: create_job_applicant_def creds_call_def)
  show ?thesis
    using n new'(2,3) raised by auto
qed

lemma create_three_timeouts:
  assumes "creds_of e tr = Inr (tok0, url0)"
    and "post_of e (tr @ [CredsCall (Inr (tok0, url0))]) (mk_request r tok0 url0) = ReadTimeout"
    and "creds_of e (tr @ [CredsCall (Inr (tok0, url0)),
            PostCall (mk_request r tok0 url0) ReadTimeout]) = Inr (tok1, url1)"
    and "post_of e (tr @ [CredsCall (Inr (tok0, url0)),
            PostCall (mk_request r tok0 url0) ReadTimeout,
            CredsCall (Inr (tok1, url1)),
            Sleep 2]) (mk_request r tok1 url1) = ReadTimeout"
    and "creds_of e (tr @ [CredsCall (Inr (tok0, url0)),
            PostCall (mk_request r tok0 url0) ReadTimeout,
            CredsCall (Inr (tok1, url1)),
            Sleep 2,
            PostCall (mk_request r tok1 url1) ReadTimeout]) = Inr (tok2, url2)"
    and "post_of e (tr @ [CredsCall (Inr (tok0, url0)),
            PostCall (mk_request r tok0 url0) ReadTimeout,
            CredsCall (Inr (tok1, url1)),
            Sleep 2,
            PostCall (mk_request r tok1 url1) ReadTimeout,
            CredsCall (Inr (tok2, url2)),
            Sleep 2]) (mk_request r tok2 url2) = ReadTimeout"
  shows "create_job_applicant e r tr =
        (Inr (False, SfError ''timeout after 3 attempts''),
         tr @ [CredsCall (Inr (tok0, url0)),
            PostCall (mk_request r tok0 url0) ReadTimeout,
            CredsCall (Inr (tok1, url1)),
            Sleep 2,
            PostCall (mk_request r tok1 url1) ReadTimeout,
            CredsCall (Inr (tok2, url2)),
            Sleep 2,
            PostCall (mk_request r tok2 url2) ReadTimeout])"
  using assms
  by (simp add: create_job_applicant_def creds_call_def Let_def)

lemma create_second_answers:
  assumes "creds_of e tr = Inr (tok0, url0)"
    and "post_of e (tr @ [CredsCall (Inr (tok0, url0))]) (mk_request r tok0 url0) = ReadTimeout"
    and "creds_of e (tr @ [CredsCall (Inr (tok0, url0)),
            PostCall (mk_request r tok0 url0) ReadTimeout]) = Inr (tok1, url1)"
    and "post_of e (tr @ [CredsCall (Inr (tok0, url0)),
            PostCall (mk_request r tok0 url0) ReadTimeout,
            CredsCall (Inr (tok1, url1)),
            Sleep 2]) (mk_request r tok1 url1) = Responded resp"
  shows "create_job_applicant e r tr =
        (handle_response e resp,
         tr @ [CredsCall (Inr (tok0, url0)),
            PostCall (mk_request r tok0 url0) ReadTimeout,
            CredsCall (Inr (tok1, url1)),
            Sleep 2,
            PostCall (mk_request r tok1 url1) (Responded resp)])"
  using assms
  by (simp add: create_job_applicant_def creds_call_def Let_def)

lemma create_first_creds_fail:
  assumes "creds_of e tr = Inl err"
  shows "create_job_applicant e r tr = (Inl err, tr @ [CredsCall (Inl err)])"
  using assms
  by (simp add: create_job_applicant_def creds_call_def Let_def)

lemma create_first_refresh_fails:
  assumes "creds_of e tr = Inr (tok0, url0)"
    and "post_of e (tr @ [CredsCall (Inr (tok0, url0))]) (mk_request r tok0 url0) = ReadTimeout"
    and "creds_of e (tr @ [CredsCall (Inr (tok0, url0)),
            PostCall (mk_request r tok0 url0) ReadTimeout]) = Inl err"
  shows "create_job_applicant e r tr =
        (Inl err,
         tr @ [CredsCall (Inr (tok0, url0)),
            PostCall (mk_request r tok0 url0) ReadTimeout,
            CredsCall (Inl err)])"
  using assms
  by (simp add: create_job_applicant_def creds_call_def Let_def)

lemma create_first_post_raises:
  assumes "creds_of e tr = Inr (tok0, url0)"
    and "post_of e (tr @ [CredsCall (Inr (tok0, url0))]) (mk_request r tok0 url0) = PostRaised err"
  shows "create_job_applicant e r tr =
        (Inl err,
         tr @ [CredsCall (Inr (tok0, url0)),
            PostCall (mk_request r tok0 url0) (PostRaised err)])"
  using assms
  by (simp add: create_job_applicant_def creds_call_def Let_def)

lemma create_second_post_raises:
  assumes "creds_of e tr = Inr (tok0, url0)"
    and "post_of e (tr @ [CredsCall (Inr (tok0, url0))]) (mk_request r tok0 url0) = ReadTimeout"
    and "creds_of e (tr @ [CredsCall (Inr (tok0, url0)),
            PostCall (mk_request r tok0 url0) ReadTimeout]) = Inr (tok1, url1)"
    and "post_of e (tr @ [CredsCall (Inr (tok0, url0)),
            PostCall (mk_request r tok0 url0) ReadTimeout,
            CredsCall (Inr (tok1, url1)),
            Sleep 2]) (mk_request r tok1 url1) = PostRaised err"
  shows "create_job_applicant e r tr =
        (Inl err,
         tr @ [CredsCall (Inr (tok0, url0)),
            PostCall (mk_request r tok0 url0) ReadTimeout,
            CredsCall (Inr (tok1, url1)),
            Sleep 2,
            PostCall (mk_request r tok1 url1) (PostRaised err)])"
  using assms
  by (simp add: create_job_applicant_def creds_call_def Let_def)

text \<open>
  C5, as stated, fails: the credentials are resolved again inside the handler of the timeout,
  and nothing catches an exception of that call. When the refresh is refused after the first
  timeout, \<^const>\<open>create_job_applicant\<close> has made one attempt, which timed out, and raises
  instead of returning the failure result. And only the read timeout is handled: when the
  connection itself times out, the first attempt raises.
\<close>

theorem create_job_applicant_counterexample:
  "create_job_applicant expiring_env nurse_record [] =
     (Inl (Exn ''RuntimeError'' ''Salesforce refresh token auth failed (400): expired''),
      [CredsCall (Inr (''token'', ''https://sf.example'')),
       PostCall (mk_request nurse_record ''token'' ''https://sf.example'') ReadTimeout,
       CredsCall (Inl (Exn ''RuntimeError''
                         ''Salesforce refresh token auth failed (400): expired''))])
   \<and> create_job_applicant unreachable_env nurse_record [] =
     (Inl (Exn ''ConnectTimeout'' ''connection timed out''),
      [CredsCall (Inr (''token'', ''https://sf.example'')),
       PostCall (mk_request nurse_record ''token'' ''https://sf.example'')
         (PostRaised (Exn ''ConnectTimeout'' ''connection timed out''))])"
  by code_simp

text \<open>
  C5, amended. When the credentials resolve at each of the three calls and the request
  raises a read timeout at each of the three attempts, \<^const>\<open>create_job_applicant\<close> makes
  exactly three attempts, resolves the credentials again and then sleeps 2 seconds between
  two attempts, uses the fresh token and URL for the next attempt, and returns the failure
  result with the detail \<^verbatim>\<open>timeout after 3 attempts\<close>. A timeout followed by an answered
  attempt gives what the code after the loop makes of that answer, and so does every run
  that ends with an answered attempt. An exception of credential resolution leaves the
  function, at the start and at a refresh, and so does every exception of the request other
  than the read timeout, at the first attempt and at a later one: whenever a call recorded in
  the history of a run raised, the run raised that exception.
\<close>

theorem create_job_applicant_timeout_retry:
  "(creds_of e tr = Inr (tok0, url0)
      \<and> post_of e (tr @ [CredsCall (Inr (tok0, url0))]) (mk_request r tok0 url0) = ReadTimeout
      \<and> creds_of e (tr @ [CredsCall (Inr (tok0, url0)),
            PostCall (mk_request r tok0 url0) ReadTimeout]) = Inr (tok1, url1)
      \<and> post_of e (tr @ [CredsCall (Inr (tok0, url0)),
            PostCall (mk_request r tok0 url0) ReadTimeout,
            CredsCall (Inr (tok1, url1)),
            Sleep 2]) (mk_request r tok1 url1) = ReadTimeout
      \<and> creds_of e (tr @ [CredsCall (Inr (tok0, url0)),
            PostCall (mk_request r tok0 url0) ReadTimeout,
            CredsCall (Inr (tok1, url1)),
            Sleep 2,
            PostCall (mk_request r tok1 url1) ReadTimeout]) = Inr (tok2, url2)
      \<and> post_of e (tr @ [CredsCall (Inr (tok0, url0)),
            PostCall (mk_request r tok0 url0) ReadTimeout,
            CredsCall (Inr (tok1, url1)),
            Sleep 2,
            PostCall (mk_request r tok1 url1) ReadTimeout,
            CredsCall (Inr (tok2, url2)),
            Sleep 2]) (mk_request r tok2 url2) = ReadTimeout
     \<longrightarrow> create_job_applicant e r tr =
        (Inr (False, SfError ''timeout after 3 attempts''),
         tr @ [CredsCall (Inr (tok0, url0)),
            PostCall (mk_request r tok0 url0) ReadTimeout,
            CredsCall (Inr (tok1, url1)),
            Sleep 2,
            PostCall (mk_request r tok1 url1) ReadTimeout,
            CredsCall (Inr (tok2, url2)),
            Sleep 2,
            PostCall (mk_request r tok2 url2) ReadTimeout]))
   \<and> (creds_of e tr = Inr (tok0, url0)
      \<and> post_of e (tr @ [CredsCall (Inr (tok0, url0))]) (mk_request r tok0 url0) = ReadTimeout
      \<and> creds_of e (tr @ [CredsCall (Inr (tok0, url0)),
            PostCall (mk_request r tok0 url0) ReadTimeout]) = Inr (tok1, url1)
      \<and> post_of e (tr @ [CredsCall (Inr (tok0, url0)),
            PostCall (mk_request r tok0 url0) ReadTimeout,
            CredsCall (Inr (tok1, url1)),
            Sleep 2]) (mk_request r tok1 url1) = Responded resp
     \<longrightarrow> create_job_applicant e r tr =
        (handle_response e resp,
         tr @ [CredsCall (Inr (tok0, url0)),
            PostCall (mk_request r tok0 url0) ReadTimeout,
            CredsCall (Inr (tok1, url1)),
            Sleep 2,
            PostCall (mk_request r tok1 url1) (Responded resp)]))
   \<and> (creds_of e tr = Inl err
     \<longrightarrow> create_job_applicant e r tr = (Inl err, tr @ [CredsCall (Inl err)]))
   \<and> (creds_of e tr = Inr (tok0, url0)
      \<and> post_of e (tr @ [CredsCall (Inr (tok0, url0))]) (mk_request r tok0 url0) = ReadTimeout
      \<and> creds_of e (tr @ [CredsCall (Inr (tok0, url0)),
            PostCall (mk_request r tok0 url0) ReadTimeout]) = Inl err
     \<longrightarrow> create_job_applicant e r tr =
        (Inl err,
         tr @ [CredsCall (Inr (tok0, url0)),
            PostCall (mk_request r tok0 url0) ReadTimeout,
            CredsCall (Inl err)]))
   \<and> (creds_of e tr = Inr (tok0, url0)
      \<and> post_of e (tr @ [CredsCall (Inr (tok0, url0))]) (mk_request r tok0 url0) = PostRaised err
     \<longrightarrow> create_job_applicant e r tr =
        (Inl err,
         tr @ [CredsCall (Inr (tok0, url0)),
            PostCall (mk_request r tok0 url0) (PostRaised err)]))
   \<and> (creds_of e tr = Inr (tok0, url0)
      \<and> post_of e (tr @ [CredsCall (Inr (tok0, url0))]) (mk_request r tok0 url0) = ReadTimeout
      \<and> creds_of e (tr @ [CredsCall (Inr (tok0, url0)),
            PostCall (mk_request r tok0 url0) ReadTimeout]) = Inr (tok1, url1)
      \<and> post_of e (tr @ [CredsCall (Inr (tok0, url0)),
            PostCall (mk_request r tok0 url0) ReadTimeout,
            CredsCall (Inr (tok1, url1)),
            Sleep 2]) (mk_request r tok1 url1) = PostRaised err
     \<longrightarrow> create_job_applicant e r tr =
        (Inl err,
         tr @ [CredsCall (Inr (tok0, url0)),
            PostCall (mk_request r tok0 url0) ReadTimeout,
            CredsCall (Inr (tok1, url1)),
            Sleep 2,
            PostCall (mk_request r tok1 url1) (PostRaised err)]))
   \<and> (create_job_applicant e r tr = (res, tr') \<and> tr' \<noteq> []
      \<and> last tr' = PostCall req (Responded resp')
     \<longrightarrow> res = handle_response e resp')
   \<and> (create_job_applicant e r tr = (res, tr @ new) \<and> CredsCall (Inl err) \<in> set new
     \<longrightarrow> res = Inl err)
   \<and> (create_job_applicant e r tr = (res, tr @ new)
      \<and> PostCall req (PostRaised err) \<in> set new
     \<longrightarrow> res = Inl err)"
proof (intro conjI impI)
  assume "creds_of e tr = Inr (tok0, url0)
      \<and> post_of e (tr @ [CredsCall (Inr (tok0, url0))]) (mk_request r tok0 url0) = ReadTimeout
      \<and> creds_of e (tr @ [CredsCall (Inr (tok0, url0)),
            PostCall (mk_request r tok0 url0) ReadTimeout]) = Inr (tok1, url1)
      \<and> post_of e (tr @ [CredsCall (Inr (tok0, url0)),
            PostCall (mk_request r tok0 url0) ReadTimeout,
            CredsCall (Inr (tok1, url1)),
            Sleep 2]) (mk_request r tok1 url1) = ReadTimeout
      \<and> creds_of e (tr @ [CredsCall (Inr (tok0, url0)),
            PostCall (mk_request r tok0 url0) ReadTimeout,
            CredsCall (Inr (tok1, url1)),
            Sleep 2,
            PostCall (mk_request r tok1 url1) ReadTimeout]) = Inr (tok2, url2)
      \<and> post_of e (tr @ [CredsCall (Inr (tok0, url0)),
            PostCall (mk_request r tok0 url0) ReadTimeout,
            CredsCall (Inr (tok1, url1)),
            Sleep 2,
            PostCall (mk_request r tok1 url1) ReadTimeout,
            CredsCall (Inr (tok2, url2)),
            Sleep 2]) (mk_request r tok2 url2) = ReadTimeout"
  then show "create_job_applicant e r tr =
        (Inr (False, SfError ''timeout after 3 attempts''),
         tr @ [CredsCall (Inr (tok0, url0)),
            PostCall (mk_request r tok0 url0) ReadTimeout,
            CredsCall (Inr (tok1, url1)),
            Sleep 2,
            PostCall (mk_request r tok1 url1) ReadTimeout,
            CredsCall (Inr (tok2, url2)),
            Sleep 2,
            PostCall (mk_request r tok2 url2) ReadTimeout])"
    by (simp add: create_three_timeouts)
next
  assume "creds_of e tr = Inr (tok0, url0)
      \<and> post_of e (tr @ [CredsCall (Inr (tok0, url0))]) (mk_request r tok0 url0) = ReadTimeout
      \<and> creds_of e (tr @ [CredsCall (Inr (tok0, url0)),
            PostCall (mk_request r tok0 url0) ReadTimeout]) = Inr (tok1, url1)
      \<and> post_of e (tr @ [CredsCall (Inr (tok0, url0)),
            PostCall (mk_request r tok0 url0) ReadTimeout,
            CredsCall (Inr (tok1, url1)),
            Sleep 2]) (mk_request r tok1 url1) = Responded resp"
  then show "create_job_applicant e r tr =
        (handle_response e resp,
         tr @ [CredsCall (Inr (tok0, url0)),
            PostCall (mk_request r tok0 url0) ReadTimeout,
            CredsCall (Inr (tok1, url1)),
            Sleep 2,
            PostCall (mk_request r tok1 url1) (Responded resp)])"
    by (simp add: create_second_answers)
next
  assume "creds_of e tr = Inl err"
  then show "create_job_applicant e r tr = (Inl err, tr @ [CredsCall (Inl err)])"
    by (simp add: create_first_creds_fail)
next
  assume "creds_of e tr = Inr (tok0, url0)
      \<and> post_of e (tr @ [CredsCall (Inr (tok0, url0))]) (mk_request r tok0 url0) = ReadTimeout
      \<and> creds_of e (tr @ [CredsCall (Inr (tok0, url0)),
            PostCall (mk_request r tok0 url0) ReadTimeout]) = Inl err"
  then show "create_job_applicant e r tr =
        (Inl err,
         tr @ [CredsCall (Inr (tok0, url0)),
            PostCall (mk_request r tok0 url0) ReadTimeout,
            CredsCall (Inl err)])"
    by (simp add: create_first_refresh_fails)
next
  assume "creds_of e tr = Inr (tok0, url0)
      \<and> post_of e (tr @ [CredsCall (Inr (tok0, url0))]) (mk_request r tok0 url0) = PostRaised err"
  then show "create_job_applicant e r tr =
        (Inl err,
         tr @ [CredsCall (Inr (tok0, url0)),
            PostCall (mk_request r tok0 url0) (PostRaised err)])"
    by (simp add: create_first_post_raises)
next
  assume "creds_of e tr = Inr (tok0, url0)
      \<and> post_of e (tr @ [CredsCall (Inr (tok0, url0))]) (mk_request r tok0 url0) = ReadTimeout
      \<and> creds_of e (tr @ [CredsCall (Inr (tok0, url0)),
            PostCall (mk_request r tok0 url0) ReadTimeout]) = Inr (tok1, url1)
      \<and> post_of e (tr @ [CredsCall (Inr (tok0, url0)),
            PostCall (mk_request r tok0 url0) ReadTimeout,
            CredsCall (Inr (tok1, url1)),
            Sleep 2]) (mk_request r tok1 url1) = PostRaised err"
  then show "create_job_applicant e r tr =
        (Inl err,
         tr @ [CredsCall (Inr (tok0, url0)),
            PostCall (mk_request r tok0 url0) ReadTimeout,
            CredsCall (Inr (tok1, url1)),
            Sleep 2,
            PostCall (mk_request r tok1 url1) (PostRaised err)])"
    by (simp add: create_second_post_raises)
next
  assume "create_job_applicant e r tr = (res, tr') \<and> tr' \<noteq> []
      \<and> last tr' = PostCall req (Responded resp')"
  then show "res = handle_response e resp'"
    using create_uses_response [of e r tr res tr' req resp'] by blast
next
  assume "create_job_applicant e r tr = (res, tr @ new) \<and> CredsCall (Inl err) \<in> set new"
  then show "res = Inl err"
    using create_raises [of e r tr res new] by blast
next
  assume "create_job_applicant e r tr = (res, tr @ new)
      \<and> PostCall req (PostRaised err) \<in> set new"
  then show "res = Inl err"
    using create_raises [of e r tr res new] by blast
qed

theorem create_job_applicant_timeout_retry_witness:
  "fst (create_job_applicant flaky_env nurse_record [])
       = Inr (False, SfError ''timeout after 3 attempts'')
   \<and> length (snd (create_job_applicant flaky_env nurse_record [])) = 8
   \<and> fst (create_job_applicant retry_env nurse_record [])
       = Inr (True, ApplicantId (JStr ''a0Gxx''))
   \<and> length (snd (create_job_applicant retry_env nurse_record [])) = 5
   \<and> fst (create_job_applicant no_creds_env nurse_record [])
       = Inl (Exn ''RuntimeError'' no_credentials_message)
   \<and> length (snd (create_job_applicant no_creds_env nurse_record [])) = 1
   \<and> fst (create_job_applicant expiring_env nurse_record [])
       = Inl (Exn ''RuntimeError'' ''Salesforce refresh token auth failed (400): expired'')
   \<and> length (snd (create_job_applicant expiring_env nurse_record [])) = 3
   \<and> fst (create_job_applicant unreachable_env nurse_record [])
       = Inl (Exn ''ConnectTimeout'' ''connection timed out'')
   \<and> length (snd (create_job_applicant unreachable_env nurse_record [])) = 2
   \<and> fst (create_job_applicant (timeouts_then 2 (PostRaised (Exn ''ConnectionError'' ''connection reset by peer''))) nurse_record [])
       = Inl (Exn ''ConnectionError'' ''connection reset by peer'')
   \<and> length (snd (create_job_applicant (timeouts_then 2 (PostRaised (Exn ''ConnectionError'' ''connection reset by peer''))) nurse_record [])) = 5
   \<and> last (snd (create_job_applicant (timeouts_then 5 (Responded created_response)) nurse_record []))
       = PostCall (mk_request nurse_record ''token'' ''https://sf.example'') (Responded created_response)
   \<and> fst (create_job_applicant (timeouts_then 5 (Responded created_response)) nurse_record [])
       = handle_response (timeouts_then 5 (Responded created_response)) created_response
   \<and> CredsCall (Inl (Exn ''RuntimeError'' ''Salesforce refresh token auth failed (400): expired''))
       \<in> set (snd (create_job_applicant (creds_until 5) nurse_record []))
   \<and> fst (create_job_applicant (creds_until 5) nurse_record [])
       = Inl (Exn ''RuntimeError'' ''Salesforce refresh token auth failed (400): expired'')
   \<and> length (snd (create_job_applicant (creds_until 5) nurse_record [])) = 6
   \<and> PostCall (mk_request nurse_record ''token'' ''https://sf.example'') (PostRaised (Exn ''ConnectionError'' ''connection reset by peer''))
       \<in> set (snd (create_job_applicant (timeouts_then 5 (PostRaised (Exn ''ConnectionError'' ''connection reset by peer''))) nurse_record []))
   \<and> fst (create_job_applicant (timeouts_then 5 (PostRaised (Exn ''ConnectionError'' ''connection reset by peer''))) nurse_record [])
       = Inl (Exn ''ConnectionError'' ''connection reset by peer'')
   \<and> length (snd (create_job_applicant (timeouts_then 5 (PostRaised (Exn ''ConnectionError'' ''connection reset by peer''))) nurse_record [])) = 8"
proof -
  have hr: "handle_response retry_env created_response
      = Inr (True, ApplicantId (JStr ''a0Gxx''))"
    by code_simp
  have h0_0: "creds_of flaky_env [] = Inr (''token'', ''https://sf.example'')"
    by code_simp
  have h0_1: "post_of flaky_env ([] @ [CredsCall (Inr (''token'', ''https://sf.example''))]) (mk_request nurse_record ''token'' ''https://sf.example'') = ReadTimeout"
    by code_simp
  have h0_2: "creds_of flaky_env ([] @ [CredsCall (Inr (''token'', ''https://sf.example'')),
            PostCall (mk_request nurse_record ''token'' ''https://sf.example'') ReadTimeout]) = Inr (''token'', ''https://sf.example'')"
    by code_simp
  have h0_3: "post_of flaky_env ([] @ [CredsCall (Inr (''token'', ''https://sf.example'')),
            PostCall (mk_request nurse_record ''token'' ''https://sf.example'') ReadTimeout,
            CredsCall (Inr (''token'', ''https://sf.example'')),
            Sleep 2]) (mk_request nurse_record ''token'' ''https://sf.example'') = ReadTimeout"
    by code_simp
  have h0_4: "creds_of flaky_env ([] @ [CredsCall (Inr (''token'', ''https://sf.example'')),
            PostCall (mk_request nurse_record ''token'' ''https://sf.example'') ReadTimeout,
            CredsCall (Inr (''token'', ''https://sf.example'')),
            Sleep 2,
            PostCall (mk_request nurse_record ''token'' ''https://sf.example'') ReadTimeout]) = Inr (''token'', ''https://sf.example'')"
    by code_simp
  have h0_5: "post_of flaky_env ([] @ [CredsCall (Inr (''token'', ''https://sf.example'')),
            PostCall (mk_request nurse_record ''token'' ''https://sf.example'') ReadTimeout,
            CredsCall (Inr (''token'', ''https://sf.example'')),
            Sleep 2,
            PostCall (mk_request nurse_record ''token'' ''https://sf.example'') ReadTimeout,
            CredsCall (Inr (''token'', ''https://sf.example'')),
            Sleep 2]) (mk_request nurse_record ''token'' ''https://sf.example'') = ReadTimeout"
    by code_simp
  have "create_job_applicant flaky_env nurse_record [] =
        (Inr (False, SfError ''timeout after 3 attempts''),
         [] @ [CredsCall (Inr (''token'', ''https://sf.example'')),
            PostCall (mk_request nurse_record ''token'' ''https://sf.example'') ReadTimeout,
            CredsCall (Inr (''token'', ''https://sf.example'')),
            Sleep 2,
            PostCall (mk_request nurse_record ''token'' ''https://sf.example'') ReadTimeout,
            CredsCall (Inr (''token'', ''https://sf.example'')),
            Sleep 2,
            PostCall (mk_request nurse_record ''token'' ''https://sf.example'') ReadTimeout])"
    by (rule create_job_applicant_timeout_retry [where e = "flaky_env"
      and r = nurse_record
      and tr = "[]"
      and ?tok0.0 = "''token''"
      and ?url0.0 = "''https://sf.example''"
      and ?tok1.0 = "''token''"
      and ?url1.0 = "''https://sf.example''"
      and ?tok2.0 = "''token''"
      and ?url2.0 = "''https://sf.example''",
        THEN conjunct1, THEN mp])
      (intro conjI h0_0 h0_1 h0_2 h0_3 h0_4 h0_5)
  then have c0: "fst (create_job_applicant flaky_env nurse_record []) = Inr (False, SfError ''timeout after 3 attempts'')"
      "length (snd (create_job_applicant flaky_env nurse_record [])) = 8"
    by (simp_all add: hr)
  have h1_0: "creds_of retry_env [] = Inr (''token0'', ''https://sf.example'')"
    by code_simp
  have h1_1: "post_of retry_env ([] @ [CredsCall (Inr (''token0'', ''https://sf.example''))]) (mk_request nurse_record ''token0'' ''https://sf.example'') = ReadTimeout"
    by code_simp
  have h1_2: "creds_of retry_env ([] @ [CredsCall (Inr (''token0'', ''https://sf.example'')),
            PostCall (mk_request nurse_record ''token0'' ''https://sf.example'') ReadTimeout]) = Inr (''token2'', ''https://sf.example'')"
    by code_simp
  have h1_3: "post_of retry_env ([] @ [CredsCall (Inr (''token0'', ''https://sf.example'')),
            PostCall (mk_request nurse_record ''token0'' ''https://sf.example'') ReadTimeout,
            CredsCall (Inr (''token2'', ''https://sf.example'')),
            Sleep 2]) (mk_request nurse_record ''token2'' ''https://sf.example'') = Responded created_response"
    by code_simp
  have "create_job_applicant retry_env nurse_record [] =
        (handle_response retry_env created_response,
         [] @ [CredsCall (Inr (''token0'', ''https://sf.example'')),
            PostCall (mk_request nurse_record ''token0'' ''https://sf.example'') ReadTimeout,
            CredsCall (Inr (''token2'', ''https://sf.example'')),
            Sleep 2,
            PostCall (mk_request nurse_record ''token2'' ''https://sf.example'') (Responded created_response)])"
    by (rule create_job_applicant_timeout_retry [where e = "retry_env"
      and r = nurse_record
      and tr = "[]"
      and ?tok0.0 = "''token0''"
      and ?url0.0 = "''https://sf.example''"
      and ?tok1.0 = "''token2''"
      and ?url1.0 = "''https://sf.example''"
      and resp = created_response,
        THEN conjunct2, THEN conjunct1, THEN mp])
      (intro conjI h1_0 h1_1 h1_2 h1_3)
  then have c1: "fst (create_job_applicant retry_env nurse_record []) = Inr (True, ApplicantId (JStr ''a0Gxx''))"
      "length (snd (create_job_applicant retry_env nurse_record [])) = 5"
    by (simp_all add: hr)
  have h2_0: "creds_of no_creds_env [] = Inl (Exn ''RuntimeError'' no_credentials_message)"
    by code_simp
  have "create_job_applicant no_creds_env nurse_record [] = (Inl (Exn ''RuntimeError'' no_credentials_message), [] @ [CredsCall (Inl (Exn ''RuntimeError'' no_credentials_message))])"
    by (rule create_job_applicant_timeout_retry [where e = "no_creds_env"
      and r = nurse_record
      and tr = "[]"
      and err = "Exn ''RuntimeError'' no_credentials_message",
        THEN conjunct2, THEN conjunct2, THEN conjunct1, THEN mp])
      (intro conjI h2_0)
  then have c2: "fst (create_job_applicant no_creds_env nurse_record []) = Inl (Exn ''RuntimeError'' no_credentials_message)"
      "length (snd (create_job_applicant no_creds_env nurse_record [])) = 1"
    by (simp_all add: hr)
  have h3_0: "creds_of expiring_env [] = Inr (''token'', ''https://sf.example'')"
    by code_simp
  have h3_1: "post_of expiring_env ([] @ [CredsCall (Inr (''token'', ''https://sf.example''))]) (mk_request nurse_record ''token'' ''https://sf.example'') = ReadTimeout"
    by code_simp
  have h3_2: "creds_of expiring_env ([] @ [CredsCall (Inr (''token'', ''https://sf.example'')),
            PostCall (mk_request nurse_record ''token'' ''https://sf.example'') ReadTimeout]) = Inl (Exn ''RuntimeError'' ''Salesforce refresh token auth failed (400): expired'')"
    by code_simp
  have "create_job_applicant expiring_env nurse_record [] =
        (Inl (Exn ''RuntimeError'' ''Salesforce refresh token auth failed (400): expired''),
         [] @ [CredsCall (Inr (''token'', ''https://sf.example'')),
            PostCall (mk_request nurse_record ''token'' ''https://sf.example'') ReadTimeout,
            CredsCall (Inl (Exn ''RuntimeError'' ''Salesforce refresh token auth failed (400): expired''))])"
    by (rule create_job_applicant_timeout_retry [where e = "expiring_env"
      and r = nurse_record
      and tr = "[]"
      and ?tok0.0 = "''token''"
      and ?url0.0 = "''https://sf.example''"
      and err = "Exn ''RuntimeError'' ''Salesforce refresh token auth failed (400): expired''",
        THEN conjunct2, THEN conjunct2, THEN conjunct2, THEN conjunct1, THEN mp])
      (intro conjI h3_0 h3_1 h3_2)
  then have c3: "fst (create_job_applicant expiring_env nurse_record []) = Inl (Exn ''RuntimeError'' ''Salesforce refresh token auth failed (400): expired'')"
      "length (snd (create_job_applicant expiring_env nurse_record [])) = 3"
    by (simp_all add: hr)
  have h4_0: "creds_of unreachable_env [] = Inr (''token'', ''https://sf.example'')"
    by code_simp
  have h4_1: "post_of unreachable_env ([] @ [CredsCall (Inr (''token'', ''https://sf.example''))]) (mk_request nurse_record ''token'' ''https://sf.example'') = PostRaised (Exn ''ConnectTimeout'' ''connection timed out'')"
    by code_simp
  have "create_job_applicant unreachable_env nurse_record [] =
        (Inl (Exn ''ConnectTimeout'' ''connection timed out''),
         [] @ [CredsCall (Inr (''token'', ''https://sf.example'')),
            PostCall (mk_request nurse_record ''token'' ''https://sf.example'') (PostRaised (Exn ''ConnectTimeout'' ''connection timed out''))])"
    by (rule create_job_applicant_timeout_retry [where e = "unreachable_env"
      and r = nurse_record
      and tr = "[]"
      and ?tok0.0 = "''token''"
      and ?url0.0 = "''https://sf.example''"
      and err = "Exn ''ConnectTimeout'' ''connection timed out''",
        THEN conjunct2, THEN conjunct2, THEN conjunct2, THEN conjunct2, THEN conjunct1, THEN mp])
      (intro conjI h4_0 h4_1)
  then have c4: "fst (create_job_applicant unreachable_env nurse_record []) = Inl (Exn ''ConnectTimeout'' ''connection timed out'')"
      "length (snd (create_job_applicant unreachable_env nurse_record [])) = 2"
    by (simp_all add: hr)
  have h5_0: "creds_of (timeouts_then 2 (PostRaised (Exn ''ConnectionError'' ''connection reset by peer''))) [] = Inr (''token'', ''https://sf.example'')"
    by code_simp
  have h5_1: "post_of (timeouts_then 2 (PostRaised (Exn ''ConnectionError'' ''connection reset by peer''))) ([] @ [CredsCall (Inr (''token'', ''https://sf.example''))]) (mk_request nurse_record ''token'' ''https://sf.example'') = ReadTimeout"
    by code_simp
  have h5_2: "creds_of (timeouts_then 2 (PostRaised (Exn ''ConnectionError'' ''connection reset by peer''))) ([] @ [CredsCall (Inr (''token'', ''https://sf.example'')),
            PostCall (mk_request nurse_record ''token'' ''https://sf.example'') ReadTimeout]) = Inr (''token'', ''https://sf.example'')"
    by code_simp
  have h5_3: "post_of (timeouts_then 2 (PostRaised (Exn ''ConnectionError'' ''connection reset by peer''))) ([] @ [CredsCall (Inr (''token'', ''https://sf.example'')),
            PostCall (mk_request nurse_record ''token'' ''https://sf.example'') ReadTimeout,
            CredsCall (Inr (''token'', ''https://sf.example'')),
            Sleep 2]) (mk_request nurse_record ''token'' ''https://sf.example'') = PostRaised (Exn ''ConnectionError'' ''connection reset by peer'')"
    by code_simp
  have "create_job_applicant (timeouts_then 2 (PostRaised (Exn ''ConnectionError'' ''connection reset by peer''))) nurse_record [] =
        (Inl (Exn ''ConnectionError'' ''connection reset by peer''),
         [] @ [CredsCall (Inr (''token'', ''https://sf.example'')),
            PostCall (mk_request nurse_record ''token'' ''https://sf.example'') ReadTimeout,
            CredsCall (Inr (''token'', ''https://sf.example'')),
            Sleep 2,
            PostCall (mk_request nurse_record ''token'' ''https://sf.example'') (PostRaised (Exn ''ConnectionError'' ''connection reset by peer''))])"
    by (rule create_job_applicant_timeout_retry [where e = "timeouts_then 2 (PostRaised (Exn ''ConnectionError'' ''connection reset by peer''))"
      and r = nurse_record
      and tr = "[]"
      and ?tok0.0 = "''token''"
      and ?url0.0 = "''https://sf.example''"
      and ?tok1.0 = "''token''"
      and ?url1.0 = "''https://sf.example''"
      and err = "Exn ''ConnectionError'' ''connection reset by peer''",
        THEN conjunct2, THEN conjunct2, THEN conjunct2, THEN conjunct2, THEN conjunct2, THEN conjunct1, THEN mp])
      (intro conjI h5_0 h5_1 h5_2 h5_3)
  then have c5: "fst (create_job_applicant (timeouts_then 2 (PostRaised (Exn ''ConnectionError'' ''connection reset by peer''))) nurse_record []) = Inl (Exn ''ConnectionError'' ''connection reset by peer'')"
      "length (snd (create_job_applicant (timeouts_then 2 (PostRaised (Exn ''ConnectionError'' ''connection reset by peer''))) nurse_record [])) = 5"
    by (simp_all add: hr)
  have g0_0: "create_job_applicant (timeouts_then 5 (Responded created_response)) nurse_record [] = (fst (create_job_applicant (timeouts_then 5 (Responded created_response)) nurse_record []), snd (create_job_applicant (timeouts_then 5 (Responded created_response)) nurse_record []))"
    by simp
  have g0_1: "snd (create_job_applicant (timeouts_then 5 (Responded created_response)) nurse_record []) \<noteq> []"
    by code_simp
  have g0_2: "last (snd (create_job_applicant (timeouts_then 5 (Responded created_response)) nurse_record []))
       = PostCall (mk_request nurse_record ''token'' ''https://sf.example'') (Responded created_response)"
    by code_simp
  have gc0: "fst (create_job_applicant (timeouts_then 5 (Responded created_response)) nurse_record [])
       = handle_response (timeouts_then 5 (Responded created_response)) created_response"
    by (rule create_job_applicant_timeout_retry [where e = "timeouts_then 5 (Responded created_response)"
      and r = nurse_record
      and tr = "[]"
      and res = "fst (create_job_applicant (timeouts_then 5 (Responded created_response)) nurse_record [])"
      and ?tr' = "snd (create_job_applicant (timeouts_then 5 (Responded created_response)) nurse_record [])"
      and req = "mk_request nurse_record ''token'' ''https://sf.example''"
      and ?resp' = created_response,
        THEN conjunct2, THEN conjunct2, THEN conjunct2, THEN conjunct2, THEN conjunct2, THEN conjunct2, THEN conjunct1, THEN mp])
      (intro conjI g0_0 g0_1 g0_2)
  have g1_0: "create_job_applicant (creds_until 5) nurse_record [] = (fst (create_job_applicant (creds_until 5) nurse_record []), [] @ snd (create_job_applicant (creds_until 5) nurse_record []))"
    by simp
  have g1_1: "CredsCall (Inl (Exn ''RuntimeError'' ''Salesforce refresh token auth failed (400): expired''))
       \<in> set (snd (create_job_applicant (creds_until 5) nurse_record []))"
    by code_simp
  have gc1: "fst (create_job_applicant (creds_until 5) nurse_record [])
       = Inl (Exn ''RuntimeError'' ''Salesforce refresh token auth failed (400): expired'')"
    by (rule create_job_applicant_timeout_retry [where e = "creds_until 5"
      and r = nurse_record
      and tr = "[]"
      and res = "fst (create_job_applicant (creds_until 5) nurse_record [])"
      and new = "snd (create_job_applicant (creds_until 5) nurse_record [])"
      and err = "Exn ''RuntimeError'' ''Salesforce refresh token auth failed (400): expired''",
        THEN conjunct2, THEN conjunct2, THEN conjunct2, THEN conjunct2, THEN conjunct2, THEN conjunct2, THEN conjunct2, THEN conjunct1, THEN mp])
      (intro conjI g1_0 g1_1)
  have n1: "length (snd (create_job_applicant (creds_until 5) nurse_record [])) = 6"
    by code_simp
  have g2_0: "create_job_applicant (timeouts_then 5 (PostRaised (Exn ''ConnectionError'' ''connection reset by peer''))) nurse_record [] = (fst (create_job_applicant (timeouts_then 5 (PostRaised (Exn ''ConnectionError'' ''connection reset by peer''))) nurse_record []), [] @ snd (create_job_applicant (timeouts_then 5 (PostRaised (Exn ''ConnectionError'' ''connection reset by peer''))) nurse_record []))"
    by simp
  have g2_1: "PostCall (mk_request nurse_record ''token'' ''https://sf.example'') (PostRaised (Exn ''ConnectionError'' ''connection reset by peer''))
       \<in> set (snd (create_job_applicant (timeouts_then 5 (PostRaised (Exn ''ConnectionError'' ''connection reset by peer''))) nurse_record []))"
    by code_simp
  have gc2: "fst (create_job_applicant (timeouts_then 5 (PostRaised (Exn ''ConnectionError'' ''connection reset by peer''))) nurse_record [])
       = Inl (Exn ''ConnectionError'' ''connection reset by peer'')"
    by (rule create_job_applicant_timeout_retry [where e = "timeouts_then 5 (PostRaised (Exn ''ConnectionError'' ''connection reset by peer''))"
      and r = nurse_record
      and tr = "[]"
      and res = "fst (create_job_applicant (timeouts_then 5 (PostRaised (Exn ''ConnectionError'' ''connection reset by peer''))) nurse_record [])"
      and new = "snd (create_job_applicant (timeouts_then 5 (PostRaised (Exn ''ConnectionError'' ''connection reset by peer''))) nurse_record [])"
      and req = "mk_request nurse_record ''token'' ''https://sf.example''"
      and err = "Exn ''ConnectionError'' ''connection reset by peer''",
        THEN conjunct2, THEN conjunct2, THEN conjunct2, THEN conjunct2, THEN conjunct2, THEN conjunct2, THEN conjunct2, THEN conjunct2, THEN mp])
      (intro conjI g2_0 g2_1)
  have n2: "length (snd (create_job_applicant (timeouts_then 5 (PostRaised (Exn ''ConnectionError'' ''connection reset by peer''))) nurse_record [])) = 8"
    by code_simp
  show ?thesis
    by (intro conjI c0 c1 c2 c3 c4 c5 g0_2 gc0 g1_1 gc1 n1 g2_1 gc2 n2)
qed

section \<open>Signature verification\<close>

lemma compare_digest_not_True:
  "a \<noteq> b \<Longrightarrow> compare_digest a b = Inr False
     \<or> compare_digest a b = Inl (Exn ''TypeError''
          ''comparing strings with non-ASCII characters is not supported'')"
  by (simp add: compare_digest_def)

lemma verify_rejects:
  assumes "retell_api_key ae \<noteq> []"
    and "header = None \<or> header = Some []
         \<or> header \<noteq> Some (hmac_sha256_hex ae (retell_api_key ae) body)"
  shows "verify_retell_signature ae body (get_str header []) = Inr False
     \<or> verify_retell_signature ae body (get_str header []) = Inl (Exn ''TypeError''
          ''comparing strings with non-ASCII characters is not supported'')"
proof (cases "get_str header [] = []")
  case True
  with assms(1) show ?thesis by (simp add: verify_retell_signature_def)
next
  case False
  then obtain s where s: "header = Some s" "s \<noteq> []"
    by (cases header) (auto simp: get_str_def)
  with assms(2) have "hmac_sha256_hex ae (retell_api_key ae) body \<noteq> s" by auto
  from compare_digest_not_True [OF this] assms(1) s show ?thesis
    by (simp add: verify_retell_signature_def get_str_def Let_def)
qed

text \<open>
  Without a shared secret, verification accepts every request. With a shared secret, a
  request whose signature header is absent, empty or different from the digest of the body
  is never accepted, and the whole state is unchanged whatever happens: no counter moves,
  the dead-letter store is untouched and no call to the outside is made, so the orchestrator
  has not run. When the header and the digest are ASCII the handler answers 401.
\<close>

lemma signature_never_accepted:
  "(retell_api_key ae = [] \<longrightarrow> verify_retell_signature ae body signature = Inr True)
   \<and> (retell_api_key ae \<noteq> []
       \<and> (header = None \<or> header = Some []
           \<or> header \<noteq> Some (hmac_sha256_hex ae (retell_api_key ae) body))
      \<longrightarrow> verify_retell_signature ae body (get_str header []) \<noteq> Inr True
          \<and> snd (webhook_retell ae e clk body header st) = st
          \<and> (fst (webhook_retell ae e clk body header st) = Inr 401
              \<or> fst (webhook_retell ae e clk body header st) = Inl (Exn ''TypeError''
                   ''comparing strings with non-ASCII characters is not supported'')))"
proof (intro conjI impI)
  assume "retell_api_key ae = []"
  then show "verify_retell_signature ae body signature = Inr True"
    by (simp add: verify_retell_signature_def)
next
  assume h: "retell_api_key ae \<noteq> []
       \<and> (header = None \<or> header = Some []
           \<or> header \<noteq> Some (hmac_sha256_hex ae (retell_api_key ae) body))"
  then have v: "verify_retell_signature ae body (get_str header []) = Inr False
     \<or> verify_retell_signature ae body (get_str header []) = Inl (Exn ''TypeError''
          ''comparing strings with non-ASCII characters is not supported'')"
    using verify_rejects [of ae header body] by blast
  then show "verify_retell_signature ae body (get_str header []) \<noteq> Inr True"
    by auto
  from v show "snd (webhook_retell ae e clk body header st) = st"
    by (auto simp: webhook_retell_def Let_def)
  from v show "fst (webhook_retell ae e clk body header st) = Inr 401
              \<or> fst (webhook_retell ae e clk body header st) = Inl (Exn ''TypeError''
                   ''comparing strings with non-ASCII characters is not supported'')"
    by (auto simp: webhook_retell_def Let_def)
qed

lemma ascii_signature_rejected:
  assumes "retell_api_key ae \<noteq> []"
    and "header = None \<or> header = Some []
         \<or> header \<noteq> Some (hmac_sha256_hex ae (retell_api_key ae) body)"
    and "is_ascii (hmac_sha256_hex ae (retell_api_key ae) body)"
    and "is_ascii (get_str header [])"
  shows "webhook_retell ae e clk body header st = (Inr 401, st)"
proof -
  have "verify_retell_signature ae body (get_str header []) = Inr False"
  proof (cases "get_str header [] = []")
    case True
    with assms(1) show ?thesis by (simp add: verify_retell_signature_def)
  next
    case False
    then obtain s where s: "header = Some s" "s \<noteq> []"
      by (cases header) (auto simp: get_str_def)
    with assms(2) have "hmac_sha256_hex ae (retell_api_key ae) body \<noteq> s" by auto
    with assms(1,3,4) s show ?thesis
      by (simp add: verify_retell_signature_def get_str_def Let_def compare_digest_def)
  qed
  then show ?thesis by (simp add: webhook_retell_def Let_def)
qed

text \<open>
  C9. The first half holds, and so does the second for a header that is absent, empty or
  ASCII (lemmas \<open>signature_never_accepted\<close> and \<open>ascii_signature_rejected\<close>). It fails
  for a non-matching header that holds a character outside ASCII: with the shared secret
  set, the header of the one character with code point 233 differs from the digest, and
  \<^const>\<open>verify_retell_signature\<close>, which is documented to return ``True if signature is
  valid, False otherwise'', returns neither: the comparison raises \<^verbatim>\<open>TypeError\<close>. The
  handler calls it outside any \<^verbatim>\<open>try\<close>, so the request is not answered 401: it fails with
  that exception. The state is unchanged.
\<close>

theorem signature_verification_raises:
  "retell_api_key keyed_app \<noteq> []
   \<and> [CHR 0xE9] \<noteq> hmac_sha256_hex keyed_app (retell_api_key keyed_app) ''B''
   \<and> verify_retell_signature keyed_app ''B'' [CHR 0xE9]
       = Inl (Exn ''TypeError'' ''comparing strings with non-ASCII characters is not supported'')
   \<and> fst (webhook_retell keyed_app flaky_env noon ''B'' (Some [CHR 0xE9]) fresh_state)
       = Inl (Exn ''TypeError'' ''comparing strings with non-ASCII characters is not supported'')
   \<and> fst (webhook_retell keyed_app flaky_env noon ''B'' (Some [CHR 0xE9]) fresh_state)
       \<noteq> Inr 401
   \<and> snd (webhook_retell keyed_app flaky_env noon ''B'' (Some [CHR 0xE9]) fresh_state)
       = fresh_state"
  by code_simp

section \<open>The orchestrator and its callers\<close>

lemma process_propagates:
  assumes "fst (classify_chat c) \<noteq> ''skip''"
    and "extract_contact_id c \<noteq> []" and "extract_job_id c \<noteq> []"
    and "check_existing_applicants e [extract_contact_id c] tr = (existing, tr1)"
    and "(take 15 (extract_contact_id c), take 15 (extract_job_id c)) \<notin> existing"
    and "build_summary c = Inr summary"
    and "create_job_applicant e
           (build_record c (fst (classify_chat c)) (snd (classify_chat c))
              (extract_contact_id c) (extract_job_id c) summary) tr1 = (Inl err, tr2)"
  shows "process_chat_webhook e notify c tr = (Inl err, tr2)"
  using assms
  by (simp add: process_chat_webhook_def Let_def split_beta)

lemma process_summary_raises:
  assumes "fst (classify_chat c) \<noteq> ''skip''"
    and "extract_contact_id c \<noteq> []" and "extract_job_id c \<noteq> []"
    and "check_existing_applicants e [extract_contact_id c] tr = (existing, tr1)"
    and "(take 15 (extract_contact_id c), take 15 (extract_job_id c)) \<notin> existing"
    and "build_summary c = Inl err"
  shows "process_chat_webhook e notify c tr = (Inl err, tr1)"
  using assms
  by (simp add: process_chat_webhook_def Let_def split_beta)

lemma process_create_fails:
  assumes "fst (classify_chat c) \<noteq> ''skip''"
    and "extract_contact_id c \<noteq> []" and "extract_job_id c \<noteq> []"
    and "check_existing_applicants e [extract_contact_id c] tr = (existing, tr1)"
    and "(take 15 (extract_contact_id c), take 15 (extract_job_id c)) \<notin> existing"
    and "build_summary c = Inr summary"
    and "create_job_applicant e
           (build_record c (fst (classify_chat c)) (snd (classify_chat c))
              (extract_contact_id c) (extract_job_id c) summary) tr1 = (Inr (False, sf), tr2)"
  shows "process_chat_webhook e notify c tr =
      (case call_notify notify ''error''
              \<lparr>nd_record = build_record c (fst (classify_chat c)) (snd (classify_chat c))
                              (extract_contact_id c) (extract_job_id c) summary,
               nd_extra = SfError (error_str sf)\<rparr> tr2 of
         (Some err, tr3) \<Rightarrow> (Inl err, tr3)
       | (None, tr3) \<Rightarrow>
           (Inr \<lparr>res_chat_id = get_str (chat_id c) ''unknown'', res_action = ''error'',
                  res_detail = error_str sf, res_contact_id = Some (extract_contact_id c),
                  res_job_id = Some (extract_job_id c), res_sf_result = Some sf\<rparr>, tr3))"
  using assms
  by (simp add: process_chat_webhook_def Let_def split_beta split: prod.splits option.splits)

lemma process_create_succeeds:
  assumes "fst (classify_chat c) \<noteq> ''skip''"
    and "extract_contact_id c \<noteq> []" and "extract_job_id c \<noteq> []"
    and "check_existing_applicants e [extract_contact_id c] tr = (existing, tr1)"
    and "(take 15 (extract_contact_id c), take 15 (extract_job_id c)) \<notin> existing"
    and "build_summary c = Inr summary"
    and "create_job_applicant e
           (build_record c (fst (classify_chat c)) (snd (classify_chat c))
              (extract_contact_id c) (extract_job_id c) summary) tr1 = (Inr (True, sf), tr2)"
  shows "process_chat_webhook e notify c tr =
      (case call_notify notify ''created''
              \<lparr>nd_record = build_record c (fst (classify_chat c)) (snd (classify_chat c))
                              (extract_contact_id c) (extract_job_id c) summary,
               nd_extra = sf\<rparr> tr2 of
         (Some err, tr3) \<Rightarrow> (Inl err, tr3)
       | (None, tr3) \<Rightarrow>
           (Inr \<lparr>res_chat_id = get_str (chat_id c) ''unknown'', res_action = ''created'',
                  res_detail = ''Job Applicant '' @ applicant_str e sf @ '' created'',
                  res_contact_id = Some (extract_contact_id c),
                  res_job_id = Some (extract_job_id c), res_sf_result = Some sf\<rparr>, tr3))"
  using assms
  by (simp add: process_chat_webhook_def Let_def split_beta split: prod.splits option.splits)

lemma webhook_catches:
  assumes "verify_retell_signature ae body (get_str header []) = Inr True"
    and "parse_body ae body = Inr (BodyObject p)" and "p_event p = Some ''chat_analyzed''"
    and "payload_chat p = ChatObject c"
    and "process_chat_webhook e (Some (send_notification ae)) c (world st) = (Inl err, tr)"
  shows "webhook_retell ae e clk body header st =
      (Inr 204,
       \<lparr>stats = record_event clk ''error'' (get_str (chat_id c) ''unknown'')
                  (exn_msg err) (stats st),
        store = dl_append (json_dumps ae) (now_iso clk) c
                  [(''chat_id'', get_str (chat_id c) ''unknown'')] (exn_msg err) (store st),
        world = tr\<rparr>)"
  using assms
  by (simp add: webhook_retell_def Let_def get_str_def)

lemma webhook_error_result:
  assumes "verify_retell_signature ae body (get_str header []) = Inr True"
    and "parse_body ae body = Inr (BodyObject p)" and "p_event p = Some ''chat_analyzed''"
    and "payload_chat p = ChatObject c"
    and "process_chat_webhook e (Some (send_notification ae)) c (world st) = (Inr res, tr)"
    and "res_action res = ''error''"
  shows "webhook_retell ae e clk body header st =
      (Inr 204,
       \<lparr>stats = record_event clk ''error'' (get_str (chat_id c) ''unknown'')
                  (res_detail res) (stats st),
        store = dl_append (json_dumps ae) (now_iso clk) c
                  (result_dict res) (res_detail res) (store st),
        world = tr\<rparr>)"
  using assms
  by (simp add: webhook_retell_def Let_def get_str_def)

text \<open>
  What the handler reads before its \<^verbatim>\<open>try\<close> can raise out of it: a body that is not UTF-8,
  a body that is a JSON list, an event whose \<^verbatim>\<open>data\<close> is \<^verbatim>\<open>null\<close>, and a chat whose
  \<^verbatim>\<open>chat_id\<close> is a number. A body that is not JSON is answered 400. In each case the state is
  unchanged.
\<close>

lemma webhook_raises_before_try:
  "webhook_retell open_app flaky_env noon [CHR 0xFF] None fresh_state
     = (Inl (Exn ''UnicodeDecodeError''
               (quoted ''utf-8'' @ '' codec can'' @ [CHR 0x27]
                @ ''t decode byte 0xff in position 0: invalid start byte'')), fresh_state)
   \<and> webhook_retell open_app flaky_env noon ''[]'' None fresh_state
     = (Inl (Exn ''AttributeError''
               (quoted ''list'' @ '' object has no attribute '' @ quoted ''get'')), fresh_state)
   \<and> webhook_retell open_app flaky_env noon ''N'' None fresh_state
     = (Inl (Exn ''AttributeError''
               (quoted ''NoneType'' @ '' object has no attribute '' @ quoted ''get'')),
        fresh_state)
   \<and> webhook_retell open_app flaky_env noon ''I'' None fresh_state
     = (Inl (Exn ''TypeError'' (quoted ''int'' @ '' object is not subscriptable'')),
        fresh_state)
   \<and> webhook_retell open_app flaky_env noon ''{'' None fresh_state = (Inr 400, fresh_state)"
  by code_simp

lemma record_event_error:
  "errors (record_event clk ''error'' cid detail s) = errors s + 1
   \<and> webhooks_received (record_event clk ''error'' cid detail s) = webhooks_received s + 1"
  by (simp add: record_event_def Let_def)

lemma dl_append_live:
  "live (dl_append d now c r err s) =
     Some (get_str (live s) [] @ d \<lparr>dl_timestamp = now,
                   dl_chat_id = get_str (chat_id c) ''unknown'',
                   dl_contact_id = dict_get r ''contact_id'' [],
                   dl_job_id = dict_get r ''job_id'' [],
                   dl_stage = dict_get r ''stage'' [],
                   dl_tier = dict_get r ''tier'' [],
                   dl_error = err,
                   dl_chat_payload = c\<rparr> @ [LF])"
  by (simp add: dl_append_def Let_def)

lemma result_dict_no_stage:
  "dict_get (result_dict r) ''stage'' [] = [] \<and> dict_get (result_dict r) ''tier'' [] = []"
  by (simp add: result_dict_def dict_get_def split: option.splits)

text \<open>
  C1, as stated, fails: \<^const>\<open>process_chat_webhook\<close> has no exception handler. When no
  credential strategy is configured, the deduplication query fails open and the credential
  resolution at the start of record creation raises through the orchestrator.
\<close>

theorem process_chat_webhook_counterexample:
  "fst (process_chat_webhook no_creds_env None good_chat [])
     = Inl (Exn ''RuntimeError'' no_credentials_message)"
  by code_simp

text \<open>
  C1, amended. \<^const>\<open>process_chat_webhook\<close> has no handler of its own: for an event that
  reaches record creation, an exception raised while the record is built or by
  \<^const>\<open>create_job_applicant\<close> (credential resolution included) leaves the orchestrator,
  whatever the notify function is, and so does an exception of the notify function, whether
  it is called after a creation that succeeded or after one that failed; a creation that
  fails without an exception gives a result whose action is \<^verbatim>\<open>error\<close> and whose detail is
  the failure's text. The caller \<^const>\<open>webhook_retell\<close> is the boundary: it catches every
  exception of the orchestrator, counts one error whose detail is the exception's message,
  appends the event to the dead-letter store with that message as error text, and answers
  204.
\<close>

theorem exceptions_caught_by_caller:
  "(reaches_creation e c tr0 existing tr1 \<and> build_summary c = Inl err0
     \<longrightarrow> process_chat_webhook e notify c tr0 = (Inl err0, tr1))
   \<and> (reaches_creation e c tr0 existing tr1 \<and> build_summary c = Inr summary
      \<and> create_job_applicant e (record_for c summary) tr1 = (Inl err0, tr2)
     \<longrightarrow> process_chat_webhook e notify c tr0 = (Inl err0, tr2))
   \<and> (reaches_creation e c tr0 existing tr1 \<and> build_summary c = Inr summary
      \<and> create_job_applicant e (record_for c summary) tr1 = (Inr (False, sf), tr2)
     \<longrightarrow> process_chat_webhook e notify c tr0 =
          (case call_notify notify ''error''
                  \<lparr>nd_record = record_for c summary, nd_extra = SfError (error_str sf)\<rparr> tr2 of
             (Some err, tr3) \<Rightarrow> (Inl err, tr3)
           | (None, tr3) \<Rightarrow>
               (Inr \<lparr>res_chat_id = get_str (chat_id c) ''unknown'', res_action = ''error'',
                      res_detail = error_str sf,
                      res_contact_id = Some (extract_contact_id c),
                      res_job_id = Some (extract_job_id c), res_sf_result = Some sf\<rparr>, tr3)))
   \<and> (reaches_creation e c tr0 existing tr1 \<and> build_summary c = Inr summary
      \<and> create_job_applicant e (record_for c summary) tr1 = (Inr (True, sf), tr2)
     \<longrightarrow> process_chat_webhook e notify c tr0 =
          (case call_notify notify ''created''
                  \<lparr>nd_record = record_for c summary, nd_extra = sf\<rparr> tr2 of
             (Some err, tr3) \<Rightarrow> (Inl err, tr3)
           | (None, tr3) \<Rightarrow>
               (Inr \<lparr>res_chat_id = get_str (chat_id c) ''unknown'', res_action = ''created'',
                      res_detail = ''Job Applicant '' @ applicant_str e sf @ '' created'',
                      res_contact_id = Some (extract_contact_id c),
                      res_job_id = Some (extract_job_id c), res_sf_result = Some sf\<rparr>, tr3)))
   \<and> (reaches_creation e c tr0 existing tr1 \<and> build_summary c = Inr summary
      \<and> create_job_applicant e (record_for c summary) tr1 = (Inr (True, sf), tr2)
      \<and> f tr2 ''created'' \<lparr>nd_record = record_for c summary, nd_extra = sf\<rparr> = Some err
     \<longrightarrow> process_chat_webhook e (Some f) c tr0 =
          (Inl err,
           tr2 @ [NotifyCall ''created'' \<lparr>nd_record = record_for c summary, nd_extra = sf\<rparr>
                    (Some err)]))
   \<and> (reaches_creation e c tr0 existing tr1 \<and> build_summary c = Inr summary
      \<and> create_job_applicant e (record_for c summary) tr1 = (Inr (False, sf), tr2)
      \<and> f tr2 ''error''
            \<lparr>nd_record = record_for c summary, nd_extra = SfError (error_str sf)\<rparr> = Some err
     \<longrightarrow> process_chat_webhook e (Some f) c tr0 =
          (Inl err,
           tr2 @ [NotifyCall ''error''
                    \<lparr>nd_record = record_for c summary, nd_extra = SfError (error_str sf)\<rparr>
                    (Some err)]))
   \<and> (verify_retell_signature ae body (get_str header []) = Inr True
      \<and> parse_body ae body = Inr (BodyObject p) \<and> p_event p = Some ''chat_analyzed''
      \<and> payload_chat p = ChatObject c
      \<and> process_chat_webhook e (Some (send_notification ae)) c (world st) = (Inl err, tr)
     \<longrightarrow> webhook_retell ae e clk body header st =
          (Inr 204,
           \<lparr>stats = record_event clk ''error'' (get_str (chat_id c) ''unknown'')
                      (exn_msg err) (stats st),
            store = dl_append (json_dumps ae) (now_iso clk) c
                      [(''chat_id'', get_str (chat_id c) ''unknown'')] (exn_msg err) (store st),
            world = tr\<rparr>)
        \<and> errors (stats (snd (webhook_retell ae e clk body header st)))
            = errors (stats st) + 1)"
proof (intro conjI impI)
  assume "reaches_creation e c tr0 existing tr1 \<and> build_summary c = Inl err0"
  then show "process_chat_webhook e notify c tr0 = (Inl err0, tr1)"
    using process_summary_raises [of c e tr0 existing tr1 err0 notify]
    by (simp add: reaches_creation_def)
next
  assume "reaches_creation e c tr0 existing tr1 \<and> build_summary c = Inr summary
      \<and> create_job_applicant e (record_for c summary) tr1 = (Inl err0, tr2)"
  then show "process_chat_webhook e notify c tr0 = (Inl err0, tr2)"
    using process_propagates [of c e tr0 existing tr1 summary err0 tr2 notify]
    by (simp add: reaches_creation_def record_for_def)
next
  assume "reaches_creation e c tr0 existing tr1 \<and> build_summary c = Inr summary
      \<and> create_job_applicant e (record_for c summary) tr1 = (Inr (False, sf), tr2)"
  then show "process_chat_webhook e notify c tr0 =
          (case call_notify notify ''error''
                  \<lparr>nd_record = record_for c summary, nd_extra = SfError (error_str sf)\<rparr> tr2 of
             (Some err, tr3) \<Rightarrow> (Inl err, tr3)
           | (None, tr3) \<Rightarrow>
               (Inr \<lparr>res_chat_id = get_str (chat_id c) ''unknown'', res_action = ''error'',
                      res_detail = error_str sf,
                      res_contact_id = Some (extract_contact_id c),
                      res_job_id = Some (extract_job_id c), res_sf_result = Some sf\<rparr>, tr3))"
    using process_create_fails [of c e tr0 existing tr1 summary sf tr2 notify]
    by (simp add: reaches_creation_def record_for_def)
next
  assume "reaches_creation e c tr0 existing tr1 \<and> build_summary c = Inr summary
      \<and> create_job_applicant e (record_for c summary) tr1 = (Inr (True, sf), tr2)"
  then show "process_chat_webhook e notify c tr0 =
          (case call_notify notify ''created''
                  \<lparr>nd_record = record_for c summary, nd_extra = sf\<rparr> tr2 of
             (Some err, tr3) \<Rightarrow> (Inl err, tr3)
           | (None, tr3) \<Rightarrow>
               (Inr \<lparr>res_chat_id = get_str (chat_id c) ''unknown'', res_action = ''created'',
                      res_detail = ''Job Applicant '' @ applicant_str e sf @ '' created'',
                      res_contact_id = Some (extract_contact_id c),
                      res_job_id = Some (extract_job_id c), res_sf_result = Some sf\<rparr>, tr3))"
    using process_create_succeeds [of c e tr0 existing tr1 summary sf tr2 notify]
    by (simp add: reaches_creation_def record_for_def)
next
  assume "reaches_creation e c tr0 existing tr1 \<and> build_summary c = Inr summary
      \<and> create_job_applicant e (record_for c summary) tr1 = (Inr (True, sf), tr2)
      \<and> f tr2 ''created'' \<lparr>nd_record = record_for c summary, nd_extra = sf\<rparr> = Some err"
  then show "process_chat_webhook e (Some f) c tr0 =
          (Inl err,
           tr2 @ [NotifyCall ''created'' \<lparr>nd_record = record_for c summary, nd_extra = sf\<rparr>
                    (Some err)])"
    using process_create_succeeds [of c e tr0 existing tr1 summary sf tr2 "Some f"]
    by (simp add: reaches_creation_def record_for_def call_notify_def)
next
  assume "reaches_creation e c tr0 existing tr1 \<and> build_summary c = Inr summary
      \<and> create_job_applicant e (record_for c summary) tr1 = (Inr (False, sf), tr2)
      \<and> f tr2 ''error''
            \<lparr>nd_record = record_for c summary, nd_extra = SfError (error_str sf)\<rparr> = Some err"
  then show "process_chat_webhook e (Some f) c tr0 =
          (Inl err,
           tr2 @ [NotifyCall ''error''
                    \<lparr>nd_record = record_for c summary, nd_extra = SfError (error_str sf)\<rparr>
                    (Some err)])"
    using process_create_fails [of c e tr0 existing tr1 summary sf tr2 "Some f"]
    by (simp add: reaches_creation_def record_for_def call_notify_def)
next
  assume h: "verify_retell_signature ae body (get_str header []) = Inr True
      \<and> parse_body ae body = Inr (BodyObject p) \<and> p_event p = Some ''chat_analyzed''
      \<and> payload_chat p = ChatObject c
      \<and> process_chat_webhook e (Some (send_notification ae)) c (world st) = (Inl err, tr)"
  then show eq: "webhook_retell ae e clk body header st =
          (Inr 204,
           \<lparr>stats = record_event clk ''error'' (get_str (chat_id c) ''unknown'')
                      (exn_msg err) (stats st),
            store = dl_append (json_dumps ae) (now_iso clk) c
                      [(''chat_id'', get_str (chat_id c) ''unknown'')] (exn_msg err) (store st),
            world = tr\<rparr>)"
    using webhook_catches [of ae body header p c e st err tr clk] by blast
  show "errors (stats (snd (webhook_retell ae e clk body header st))) = errors (stats st) + 1"
    unfolding eq by (simp add: record_event_error)
qed

theorem exceptions_caught_by_caller_witness:
  "reaches_creation no_creds_env odd_chat []
      (fst (check_existing_applicants no_creds_env [extract_contact_id odd_chat] []))
      (snd (check_existing_applicants no_creds_env [extract_contact_id odd_chat] []))
   \<and> fst (process_chat_webhook no_creds_env None odd_chat [])
       = Inl (Exn ''TypeError'' (quoted ''bool'' @ '' object is not subscriptable''))
   \<and> reaches_creation no_creds_env good_chat []
      (fst (check_existing_applicants no_creds_env [extract_contact_id good_chat] []))
      (snd (check_existing_applicants no_creds_env [extract_contact_id good_chat] []))
   \<and> build_summary good_chat = Inr ''spoke about the RN position''
   \<and> fst (process_chat_webhook no_creds_env (Some (send_notification open_app)) good_chat [])
       = Inl (Exn ''RuntimeError'' no_credentials_message)
   \<and> fst (create_job_applicant flaky_env
            (record_for good_chat ''spoke about the RN position'')
            (snd (check_existing_applicants flaky_env [extract_contact_id good_chat] [])))
       = Inr (False, SfError ''timeout after 3 attempts'')
   \<and> map_sum id res_action (fst (process_chat_webhook flaky_env None good_chat []))
       = Inr ''error''
   \<and> map_sum id res_detail (fst (process_chat_webhook flaky_env None good_chat []))
       = Inr ''timeout after 3 attempts''
   \<and> fst (process_chat_webhook flaky_env (Some failing_notify) good_chat [])
       = Inl (Exn ''ConnectionError'' ''unreachable'')
   \<and> fst (create_job_applicant retry_env
            (record_for good_chat ''spoke about the RN position'')
            (snd (check_existing_applicants retry_env [extract_contact_id good_chat] [])))
       = Inr (True, ApplicantId (JStr ''a0Gxx''))
   \<and> map_sum id res_action (fst (process_chat_webhook retry_env None good_chat []))
       = Inr ''created''
   \<and> fst (process_chat_webhook retry_env (Some failing_notify) good_chat [])
       = Inl (Exn ''ConnectionError'' ''unreachable'')
   \<and> verify_retell_signature open_app ''B'' (get_str None []) = Inr True
   \<and> parse_body open_app ''B'' = Inr (BodyObject good_payload)
   \<and> p_event good_payload = Some ''chat_analyzed''
   \<and> payload_chat good_payload = ChatObject good_chat
   \<and> fst (webhook_retell open_app no_creds_env noon ''B'' None fresh_state) = Inr 204
   \<and> errors (stats (snd (webhook_retell open_app no_creds_env noon ''B'' None fresh_state))) = 1
   \<and> live (store (snd (webhook_retell open_app no_creds_env noon ''B'' None fresh_state)))
       = Some (''E'' @ [LF])"
proof -
  let ?err = "Exn ''RuntimeError'' no_credentials_message"
  let ?terr = "Exn ''TypeError'' (quoted ''bool'' @ '' object is not subscriptable'')"
  let ?nerr = "Exn ''ConnectionError'' ''unreachable''"
  let ?summary = "''spoke about the RN position''"
  let ?chko = "check_existing_applicants no_creds_env [extract_contact_id odd_chat] []"
  let ?chk = "check_existing_applicants no_creds_env [extract_contact_id good_chat] []"
  let ?chkf = "check_existing_applicants flaky_env [extract_contact_id good_chat] []"
  let ?chkr = "check_existing_applicants retry_env [extract_contact_id good_chat] []"
  let ?crt = "create_job_applicant no_creds_env (record_for good_chat ?summary) (snd ?chk)"
  let ?crtf = "create_job_applicant flaky_env (record_for good_chat ?summary) (snd ?chkf)"
  let ?crtr = "create_job_applicant retry_env (record_for good_chat ?summary) (snd ?chkr)"
  let ?sf = "ApplicantId (JStr ''a0Gxx'')"
  have o1: "reaches_creation no_creds_env odd_chat [] (fst ?chko) (snd ?chko)" by code_simp
  have o2: "build_summary odd_chat = Inl ?terr" by code_simp
  from exceptions_caught_by_caller [where c = odd_chat and e = no_creds_env
      and ?tr0.0 = "[]" and existing = "fst ?chko" and ?tr1.0 = "snd ?chko"
      and ?err0.0 = ?terr and notify = None] o1 o2
  have o: "process_chat_webhook no_creds_env None odd_chat [] = (Inl ?terr, snd ?chko)"
    by blast
  have a1: "reaches_creation no_creds_env good_chat [] (fst ?chk) (snd ?chk)" by code_simp
  have a6: "build_summary good_chat = Inr ?summary" by code_simp
  have "fst ?crt = Inl ?err" by code_simp
  then have a7: "?crt = (Inl ?err, snd ?crt)" by (simp add: prod_eq_iff)
  from exceptions_caught_by_caller [where c = good_chat and e = no_creds_env
      and ?tr0.0 = "[]" and existing = "fst ?chk" and ?tr1.0 = "snd ?chk"
      and summary = ?summary and ?err0.0 = ?err
      and ?tr2.0 = "snd ?crt" and notify = "Some (send_notification open_app)"]
    a1 a6 a7
  have p: "process_chat_webhook no_creds_env (Some (send_notification open_app)) good_chat []
      = (Inl ?err, snd ?crt)"
    by blast
  have f1: "reaches_creation flaky_env good_chat [] (fst ?chkf) (snd ?chkf)" by code_simp
  have f2: "fst ?crtf = Inr (False, SfError ''timeout after 3 attempts'')" by code_simp
  then have f3: "?crtf = (Inr (False, SfError ''timeout after 3 attempts''), snd ?crtf)"
    by (simp add: prod_eq_iff)
  from exceptions_caught_by_caller [where c = good_chat and e = flaky_env
      and ?tr0.0 = "[]" and existing = "fst ?chkf" and ?tr1.0 = "snd ?chkf"
      and summary = ?summary and sf = "SfError ''timeout after 3 attempts''"
      and ?tr2.0 = "snd ?crtf" and notify = None] f1 a6 f3
  have "process_chat_webhook flaky_env None good_chat [] =
      (Inr \<lparr>res_chat_id = get_str (chat_id good_chat) ''unknown'', res_action = ''error'',
             res_detail = error_str (SfError ''timeout after 3 attempts''),
             res_contact_id = Some (extract_contact_id good_chat),
             res_job_id = Some (extract_job_id good_chat),
             res_sf_result = Some (SfError ''timeout after 3 attempts'')\<rparr>, snd ?crtf)"
    by (simp add: call_notify_def)
  then have f: "map_sum id res_action (fst (process_chat_webhook flaky_env None good_chat []))
       = Inr ''error''"
     "map_sum id res_detail (fst (process_chat_webhook flaky_env None good_chat []))
       = Inr ''timeout after 3 attempts''"
    by (simp_all add: error_str_def)
  have f4: "failing_notify (snd ?crtf) ''error''
      \<lparr>nd_record = record_for good_chat ?summary,
        nd_extra = SfError (error_str (SfError ''timeout after 3 attempts''))\<rparr> = Some ?nerr"
    by (simp add: failing_notify_def)
  have "process_chat_webhook flaky_env (Some failing_notify) good_chat [] =
      (Inl ?nerr,
       snd ?crtf @ [NotifyCall ''error''
          \<lparr>nd_record = record_for good_chat ?summary,
            nd_extra = SfError (error_str (SfError ''timeout after 3 attempts''))\<rparr>
          (Some ?nerr)])"
    by (rule exceptions_caught_by_caller [where c = good_chat and e = flaky_env
      and ?tr0.0 = "[]" and existing = "fst ?chkf" and ?tr1.0 = "snd ?chkf"
      and summary = ?summary and sf = "SfError ''timeout after 3 attempts''"
      and ?tr2.0 = "snd ?crtf" and f = failing_notify and err = ?nerr,
      THEN conjunct2, THEN conjunct2, THEN conjunct2, THEN conjunct2, THEN conjunct2,
      THEN conjunct1, THEN mp])
      (intro conjI f1 a6 f3 f4)
  then have fn: "fst (process_chat_webhook flaky_env (Some failing_notify) good_chat [])
      = Inl ?nerr"
    by simp
  have r1: "reaches_creation retry_env good_chat [] (fst ?chkr) (snd ?chkr)" by code_simp
  have r2: "fst ?crtr = Inr (True, ?sf)" by code_simp
  then have r3: "?crtr = (Inr (True, ?sf), snd ?crtr)" by (simp add: prod_eq_iff)
  from exceptions_caught_by_caller [where c = good_chat and e = retry_env
      and ?tr0.0 = "[]" and existing = "fst ?chkr" and ?tr1.0 = "snd ?chkr"
      and summary = ?summary and sf = ?sf
      and ?tr2.0 = "snd ?crtr" and notify = None] r1 a6 r3
  have rn: "map_sum id res_action (fst (process_chat_webhook retry_env None good_chat []))
       = Inr ''created''"
    by (simp add: call_notify_def)
  have r4: "failing_notify (snd ?crtr) ''created''
      \<lparr>nd_record = record_for good_chat ?summary, nd_extra = ?sf\<rparr> = Some ?nerr"
    by (simp add: failing_notify_def)
  have "process_chat_webhook retry_env (Some failing_notify) good_chat [] =
      (Inl ?nerr,
       snd ?crtr @ [NotifyCall ''created''
          \<lparr>nd_record = record_for good_chat ?summary, nd_extra = ?sf\<rparr> (Some ?nerr)])"
    by (rule exceptions_caught_by_caller [where c = good_chat and e = retry_env
      and ?tr0.0 = "[]" and existing = "fst ?chkr" and ?tr1.0 = "snd ?chkr"
      and summary = ?summary and sf = ?sf
      and ?tr2.0 = "snd ?crtr" and f = failing_notify and err = ?nerr,
      THEN conjunct2, THEN conjunct2, THEN conjunct2, THEN conjunct2,
      THEN conjunct1, THEN mp])
      (intro conjI r1 a6 r3 r4)
  then have rf: "fst (process_chat_webhook retry_env (Some failing_notify) good_chat [])
      = Inl ?nerr"
    by simp
  have b1: "verify_retell_signature open_app ''B'' (get_str None []) = Inr True"
    by code_simp
  have b2: "parse_body open_app ''B'' = Inr (BodyObject good_payload)"
    by (simp add: open_app_def)
  have b3: "p_event good_payload = Some ''chat_analyzed''" by (simp add: good_payload_def)
  have pc: "payload_chat good_payload = ChatObject good_chat"
    by (simp add: payload_chat_def good_payload_def)
  have w: "world fresh_state = []" by (simp add: fresh_state_def)
  have b4: "process_chat_webhook no_creds_env (Some (send_notification open_app))
      good_chat (world fresh_state) = (Inl ?err, snd ?crt)"
    using p by (simp add: w)
  from exceptions_caught_by_caller [where ae = open_app and body = "''B''" and header = None
      and p = good_payload and c = good_chat and e = no_creds_env and st = fresh_state
      and err = ?err and tr = "snd ?crt" and clk = noon] b1 b2 b3 pc b4
  have q: "webhook_retell open_app no_creds_env noon ''B'' None fresh_state =
          (Inr 204,
           \<lparr>stats = record_event noon ''error'' (get_str (chat_id good_chat) ''unknown'')
                      (exn_msg ?err) (stats fresh_state),
            store = dl_append (json_dumps open_app) (now_iso noon) good_chat
                      [(''chat_id'', get_str (chat_id good_chat) ''unknown'')]
                      (exn_msg ?err) (store fresh_state),
            world = snd ?crt\<rparr>)"
    and q': "errors (stats (snd (webhook_retell open_app no_creds_env noon ''B'' None
        fresh_state))) = errors (stats fresh_state) + 1"
    by blast+
  have c1: "fst (webhook_retell open_app no_creds_env noon ''B'' None fresh_state) = Inr 204"
    using q by simp
  have c2: "errors (stats (snd (webhook_retell open_app no_creds_env noon ''B'' None
      fresh_state))) = 1"
    using q' by (simp add: fresh_state_def)
  have c3: "live (store (snd (webhook_retell open_app no_creds_env noon ''B'' None
      fresh_state))) = Some (''E'' @ [LF])"
    unfolding q by (simp add: dl_append_live fresh_state_def open_app_def get_str_def)
  from o1 o a1 a6 p f2 f fn r2 rn rf b1 b2 b3 pc c1 c2 c3 show ?thesis by simp
qed

section \<open>Replay of the dead-letter store\<close>

lemma replay_entries_store:
  "store (snd (replay_entries ae e clk entries results st)) = store st"
  by (induction entries arbitrary: results st) (auto simp: Let_def split: prod.splits sum.splits)

lemma retry_failed_never_appends:
  assumes "read_all (json_loads ae) (store st) \<noteq> []"
  shows "live (store (snd (retry_failed ae e clk st))) = None"
proof -
  from assms have "nonblank_lines (store st) \<noteq> []"
    by (auto simp: read_all_eq)
  then have n: "0 < count (store st)" by (simp add: count_eq)
  then obtain content where t: "live (store st) = Some content" "count_nonblank content \<noteq> 0"
    by (cases "live (store st)") (auto simp: count_def)
  obtain results st1 where r: "replay_entries ae e clk
      (read_all (json_loads ae) (store st)) [] st = (results, st1)"
    by (cases "replay_entries ae e clk (read_all (json_loads ae) (store st)) [] st")
  then have "store st1 = store st"
    using replay_entries_store [of ae e clk "read_all (json_loads ae) (store st)" "[]" st]
    by simp
  with t have "snd (clear (now_stamp clk) (store st1))
      = \<lparr>live = None, archives = (''dead_letter_archive_'' @ now_stamp clk @ ''.jsonl'', content)
           # archives (store st)\<rparr>"
    by (simp add: clear_def Let_def)
  with assms r show ?thesis
    by (simp add: retry_failed_def Let_def split_beta)
qed

text \<open>
  C2. The handler \<^const>\<open>webhook_retell\<close> appends the event to the dead-letter store when a
  run ends with the action \<^verbatim>\<open>error\<close> (lemma \<open>webhook_error_result\<close>), but the replay
  path does not: \<^const>\<open>retry_failed\<close> never appends, and archives the store after the loop
  (lemma \<open>retry_failed_never_appends\<close>). Replaying the one stored entry while record
  creation times out three times ends with the action \<^verbatim>\<open>error\<close>, and afterwards the
  store is gone: the failed event is in the archive only.
\<close>

theorem retry_failed_drops_failed_entry:
  "read_all (json_loads open_app) (store failed_state) = [good_entry]
   \<and> fst (retry_failed open_app flaky_env noon failed_state) =
       Report \<lparr>retried = 1, rr_created = 0, rr_failed = 1,
                archived = Some ''dead_letter_archive_20260101_120000.jsonl'',
                rr_results = [\<lparr>rp_chat_id = ''chat_0001'', rp_action = ''error'',
                                rp_detail = ''timeout after 3 attempts''\<rparr>]\<rparr>
   \<and> store (snd (retry_failed open_app flaky_env noon failed_state)) =
       \<lparr>live = None,
        archives = [(''dead_letter_archive_20260101_120000.jsonl'', ''E'' @ [LF])]\<rparr>
   \<and> count (store (snd (retry_failed open_app flaky_env noon failed_state))) = 0
   \<and> read_all (json_loads open_app)
        (store (snd (retry_failed open_app flaky_env noon failed_state))) = []"
  by code_simp

section \<open>The credential cache\<close>

lemma store_token_cache:
  "store_token w p c tr = (c', tr') \<Longrightarrow>
   cached_token c' = fst p \<and> cached_instance c' = snd p \<and> token_fetched_at c' \<noteq> None"
  by (auto simp: store_token_def)





text \<open>
  A token endpoint that answers 200 with an empty access token has not resolved credentials:
  the service itself reads an empty token as ``no credentials'' (\<^verbatim>\<open>bool(token and url)\<close> in
  the health route). Such a pair is stored like any other, and the cache test, which asks for
  a truthy token, never serves it: the second call, one second later, posts to the token
  endpoint again.
\<close>

lemma empty_token_is_not_served:
  "(let w = steady_world '''';
        (r1, c1, tr1) = get_salesforce_credentials oauth_config w empty_cache [];
        (r2, c2, tr2) = get_salesforce_credentials oauth_config w c1 tr1
    in r1 = Inr (Some '''', Some ''https://sf.example'')
       \<and> read_clock w tr1 - the (token_fetched_at c1) < SF_TOKEN_CACHE_TTL oauth_config * 1000000
       \<and> length (filter is_network tr1) = 1
       \<and> length (filter is_network tr2) = 2)"
  by code_simp



end
